theory Spec2Isabelle
  imports Main "HOL-Library.AList"
begin

section \<open>JavaScript values\<close>

text \<open>
  The raw value of a document node, as the parser hands it to the type tables: a JSON/YAML
  tree. An object is an association list in key order; numbers are integers (the tables
  use only the literal \<open>0\<close>).
\<close>

datatype jsval =
    JUndefined
  | JNull
  | JBool bool
  | JNum int
  | JStr string
  | JArr "jsval list"
  | JObj "(string \<times> jsval) list"

text \<open>
  \<^verbatim>\<open>value?.type\<close>: \<open>undefined\<close> for \<open>null\<close> and \<open>undefined\<close> (optional chaining), the
  member \<open>type\<close> of an object, and \<open>undefined\<close> where the member is missing, as it is
  on every boolean, number, string and array.
\<close>

fun opt_type :: "jsval \<Rightarrow> jsval" where
  "opt_type (JObj kvs) = (case map_of kvs ''type'' of Some x \<Rightarrow> x | None \<Rightarrow> JUndefined)"
| "opt_type _ = JUndefined"

text \<open>\<^verbatim>\<open>Array.isArray(value)\<close> and \<^verbatim>\<open>typeof value === 'boolean'\<close>.\<close>

fun isArray :: "jsval \<Rightarrow> bool" where
  "isArray (JArr _) = True"
| "isArray _ = False"

fun typeof_boolean :: "jsval \<Rightarrow> bool" where
  "typeof_boolean (JBool _) = True"
| "typeof_boolean _ = False"

text \<open>\<^verbatim>\<open>key.startsWith(p)\<close>.\<close>

fun startsWith :: "string \<Rightarrow> string \<Rightarrow> bool" where
  "startsWith key [] = True"
| "startsWith [] (p # ps) = False"
| "startsWith (c # cs) (p # ps) = (c = p \<and> startsWith cs ps)"

text \<open>
  \<^verbatim>\<open>re.test(key)\<close> for a regular expression \<^verbatim>\<open>/^C1 C2 ... Cn$/\<close> that is a sequence of
  character classes between the two anchors (no flags): the key has exactly \<open>n\<close>
  characters and the \<open>i\<close>-th one belongs to the \<open>i\<close>-th class. A class is given
  by the list of its characters.
\<close>

definition regexp_test :: "string list \<Rightarrow> string \<Rightarrow> bool" where
  "regexp_test classes key = list_all2 (\<lambda>cls c. c \<in> set cls) classes key"

text \<open>\<^verbatim>\<open>Object.keys\<close> of a mapping node; other nodes have no keys.\<close>

fun object_keys :: "jsval \<Rightarrow> string list" where
  "object_keys (JObj kvs) = map fst kvs"
| "object_keys _ = []"


section \<open>The type-descriptor model\<close>

text \<open>
  A scalar schema (leaf constraint) is the object literal the table gives, for example
  \<^verbatim>\<open>{ type: 'array', items: { type: 'string' } }\<close> or \<^verbatim>\<open>{ isExample: true }\<close>,
  with its \<open>description\<close> and \<open>documentationLink\<close> members where it has them.
\<close>

type_synonym scalar_schema = "(string \<times> jsval) list"

text \<open>\<open>required\<close> is a fixed list of keys or a function of the node's value.\<close>

datatype required_rule =
    RequiredList "string list"
  | RequiredFn "jsval \<Rightarrow> string list"

text \<open>
  A \<open>NodeType\<close> object, with its members in this order: \<open>properties\<close>,
  \<open>additionalProperties\<close>, \<open>items\<close>, \<open>required\<close>, \<open>requiredOneOf\<close>,
  \<open>allowed\<close>, \<open>extensionsPrefix\<close>, \<open>description\<close>, \<open>documentationLink\<close>
  (\<open>None\<close> for a member the literal does not give). The value of a property is
  \<open>null\<close>, the name of a type, a scalar schema, a \<open>NodeType\<close> object given in place,
  or a function of the value and the key that returns one of these or \<open>undefined\<close>.
\<close>

datatype node_type = NodeType
    (properties: "(string \<times> prop_rule) list")
    (additionalProperties: "prop_rule option")
    (items: "prop_rule option")
    (required: "required_rule option")
    (requiredOneOf: "string list option")
    (allowed: "(jsval \<Rightarrow> string list) option")
    (extensionsPrefix: "string option")
    (description: "string option")
    (documentationLink: "string option")
and prop_type =
    PNull
  | PRef string
  | PScalar scalar_schema
  | PNode node_type
and prop_rule =
    Static prop_type
  | Resolver "jsval \<Rightarrow> string \<Rightarrow> prop_type option"

text \<open>\<^verbatim>\<open>T.properties.key = rule;\<close> a new key is appended, a known key keeps its place
  (the keys of the tables are names, not array indices, so the order is that of insertion).\<close>

fun assign_property :: "string \<Rightarrow> prop_rule \<Rightarrow> node_type \<Rightarrow> node_type" where
  "assign_property key rule (NodeType ps ap it rq ro al ep ds dl) =
     NodeType (AList.update key rule ps) ap it rq ro al ep ds dl"

text \<open>The descriptor with another catch-all rule, every other member kept.\<close>

fun with_additionalProperties :: "prop_rule option \<Rightarrow> node_type \<Rightarrow> node_type" where
  "with_additionalProperties ap' (NodeType ps ap it rq ro al ep ds dl) =
     NodeType ps ap' it rq ro al ep ds dl"


subsection \<open>Combinators\<close>

text \<open>The optional second argument of \<open>listOf\<close> and \<open>mapOf\<close>.\<close>

record overrides =
  ov_description :: "string option"
  ov_documentationLink :: "string option"

text \<open>
  Modelled from the spec: \<open>listOf\<close> and \<open>mapOf\<close> are imported from \<^verbatim>\<open>./index.js\<close>,
  which is not among the sources. Section 4.3: \<open>sequenceOf(typeName, overrides?)\<close>
  returns a new descriptor for an ordered list whose every element is governed by
  \<open>typeName\<close>, \<open>mapOf(typeName, overrides?)\<close> one for a string-keyed mapping whose
  every value is governed by \<open>typeName\<close>; the single rule of either is a reference to
  \<open>typeName\<close>, and the overrides supply descriptive-only fields.
\<close>

definition listOf :: "string \<Rightarrow> overrides option \<Rightarrow> node_type" where
  "listOf typeName ov = NodeType
     []
     None
     (Some (Static (PRef typeName)))
     None
     None
     None
     None
     (case ov of None \<Rightarrow> None | Some x \<Rightarrow> ov_description x)
     (case ov of None \<Rightarrow> None | Some x \<Rightarrow> ov_documentationLink x)"

definition mapOf :: "string \<Rightarrow> overrides option \<Rightarrow> node_type" where
  "mapOf typeName ov = NodeType
     []
     (Some (Static (PRef typeName)))
     None
     None
     None
     None
     None
     (case ov of None \<Rightarrow> None | Some x \<Rightarrow> ov_description x)
     (case ov of None \<Rightarrow> None | Some x \<Rightarrow> ov_documentationLink x)"


subsection \<open>Resolution of a child key\<close>

text \<open>The outcome of a resolution: the rule that governs the child, or the rejection
  of the key as unknown.\<close>

datatype outcome = Resolved prop_type | Rejected

text \<open>A rule at a value and a key: a resolver that returns \<open>undefined\<close> rejects.\<close>

fun apply_rule :: "prop_rule \<Rightarrow> jsval \<Rightarrow> string \<Rightarrow> outcome" where
  "apply_rule (Static p) V K = Resolved p"
| "apply_rule (Resolver f) V K = (case f V K of Some p \<Rightarrow> Resolved p | None \<Rightarrow> Rejected)"

definition is_extension :: "node_type \<Rightarrow> string \<Rightarrow> bool" where
  "is_extension D K = (case extensionsPrefix D of None \<Rightarrow> False | Some p \<Rightarrow> startsWith K p)"

text \<open>
  Modelled from the spec: the walker that resolves the children of a node is not among
  the sources. Section 4.1: (1) a key of \<open>D.properties\<close> is governed by its rule; (2)
  else a key that starts with \<open>D.extensionsPrefix\<close> is accepted with no further
  validation; (3) else \<open>D.additionalProperties\<close>, where set, governs the key; (4) else
  the key is rejected as unknown. A resolver that returns Undetermined rejects.
\<close>

definition resolveChild :: "node_type \<Rightarrow> string \<Rightarrow> jsval \<Rightarrow> outcome" where
  "resolveChild D K V =
     (case map_of (properties D) K of
        Some rule \<Rightarrow> apply_rule rule V K
      | None \<Rightarrow>
          if is_extension D K then Resolved PNull
          else (case additionalProperties D of
                  Some rule \<Rightarrow> apply_rule rule V K
                | None \<Rightarrow> Rejected))"

text \<open>
  Modelled from the spec: section 8, an index key of a sequence-of descriptor resolves
  by its element rule, whatever the index.
\<close>

definition resolveItem :: "node_type \<Rightarrow> string \<Rightarrow> jsval \<Rightarrow> outcome" where
  "resolveItem D K V =
     (case items D of Some rule \<Rightarrow> apply_rule rule V K | None \<Rightarrow> Rejected)"


subsection \<open>Required keys and the allow-list\<close>

text \<open>\<open>D.required\<close> as a list of keys: called with the value where it is a function.\<close>

definition required_keys :: "node_type \<Rightarrow> jsval \<Rightarrow> string list" where
  "required_keys D V =
     (case required D of
        None \<Rightarrow> []
      | Some (RequiredList ks) \<Rightarrow> ks
      | Some (RequiredFn f) \<Rightarrow> f V)"

text \<open>
  Modelled from the spec: the rule that checks a node against its descriptor is not
  among the sources. Section 4.2: resolve \<open>D.required\<close> to a key set and report every
  key of it that is absent from \<open>V\<close>.
\<close>

definition checkRequired :: "node_type \<Rightarrow> jsval \<Rightarrow> string list" where
  "checkRequired D V = filter (\<lambda>k. k \<notin> set (object_keys V)) (required_keys D V)"

text \<open>
  Modelled from the spec: section 4.2, where \<open>D.requiredOneOf\<close> is set a violation is
  reported if none of its keys is present in \<open>V\<close>.
\<close>

definition checkDisjunctiveRequired :: "node_type \<Rightarrow> jsval \<Rightarrow> bool" where
  "checkDisjunctiveRequired D V =
     (case requiredOneOf D of
        None \<Rightarrow> False
      | Some ks \<Rightarrow> \<not> list_ex (\<lambda>k. k \<in> set (object_keys V)) ks)"

text \<open>
  Modelled from the spec: sections 3, 4.2 and 8. Where \<open>D.allowed\<close> is set, it is
  resolved with \<open>V\<close>, and every key of \<open>V\<close> that is not in the resolved allow-list is
  reported as disallowed; a key that starts with the extension prefix does not count
  against the allow-list. The check is independent of the classification of the key by
  \<open>properties\<close> and \<open>additionalProperties\<close>.
\<close>

definition checkAllowed :: "node_type \<Rightarrow> jsval \<Rightarrow> string list" where
  "checkAllowed D V =
     (case allowed D of
        None \<Rightarrow> []
      | Some f \<Rightarrow>
          filter (\<lambda>K. K \<notin> set (f V) \<and> \<not> is_extension D K) (object_keys V))"


subsection \<open>Descriptive-only fields\<close>

text \<open>
  The descriptor without its descriptive fields: \<open>description\<close> and
  \<open>documentationLink\<close> of the descriptor itself, of the scalar schemas of its
  properties and of the descriptors given in place, also in what a resolver returns.
\<close>

definition strip_scalar :: "scalar_schema \<Rightarrow> scalar_schema" where
  "strip_scalar s =
     filter (\<lambda>kv. fst kv \<noteq> ''description'' \<and> fst kv \<noteq> ''documentationLink'') s"

primrec strip_node :: "node_type \<Rightarrow> node_type"
  and strip_type :: "prop_type \<Rightarrow> prop_type"
  and strip_rule :: "prop_rule \<Rightarrow> prop_rule" where
  "strip_node (NodeType ps ap it rq ro al ep ds dl) =
     NodeType (map (map_prod id strip_rule) ps) (map_option strip_rule ap)
       (map_option strip_rule it) rq ro al ep None None"
| "strip_type PNull = PNull"
| "strip_type (PRef n) = PRef n"
| "strip_type (PScalar s) = PScalar (strip_scalar s)"
| "strip_type (PNode n) = PNode (strip_node n)"
| "strip_rule (Static p) = Static (strip_type p)"
| "strip_rule (Resolver f) = Resolver (\<lambda>v k. map_option strip_type (f v k))"

fun strip_outcome :: "outcome \<Rightarrow> outcome" where
  "strip_outcome (Resolved p) = Resolved (strip_type p)"
| "strip_outcome Rejected = Rejected"

text \<open>The kind of an outcome and the type name it refers to, which no descriptive
  field is part of.\<close>

datatype outcome_kind = KNull | KRef string | KScalar | KNode | KRejected

fun kind_of :: "outcome \<Rightarrow> outcome_kind" where
  "kind_of (Resolved PNull) = KNull"
| "kind_of (Resolved (PRef n)) = KRef n"
| "kind_of (Resolved (PScalar s)) = KScalar"
| "kind_of (Resolved (PNode n)) = KNode"
| "kind_of Rejected = KRejected"


subsection \<open>The module state of the bindings descriptors\<close>

text \<open>
  The four bindings descriptors of the AsyncAPI 2 module are objects that module-level
  statements assign to after their definition; the state holds their current values.
\<close>

record bindings_module =
  ChannelBindings :: node_type
  ServerBindings :: node_type
  MessageBindings :: node_type
  OperationBindings :: node_type

text \<open>\<^verbatim>\<open>ChannelBindings.properties.key = Binding;\<close> and its three siblings.\<close>

definition assign_ChannelBindings :: "string \<Rightarrow> node_type \<Rightarrow> bindings_module \<Rightarrow> bindings_module" where
  "assign_ChannelBindings key binding s =
     s\<lparr>ChannelBindings := assign_property key (Static (PNode binding)) (ChannelBindings s)\<rparr>"

definition assign_ServerBindings :: "string \<Rightarrow> node_type \<Rightarrow> bindings_module \<Rightarrow> bindings_module" where
  "assign_ServerBindings key binding s =
     s\<lparr>ServerBindings := assign_property key (Static (PNode binding)) (ServerBindings s)\<rparr>"

definition assign_MessageBindings :: "string \<Rightarrow> node_type \<Rightarrow> bindings_module \<Rightarrow> bindings_module" where
  "assign_MessageBindings key binding s =
     s\<lparr>MessageBindings := assign_property key (Static (PNode binding)) (MessageBindings s)\<rparr>"

definition assign_OperationBindings :: "string \<Rightarrow> node_type \<Rightarrow> bindings_module \<Rightarrow> bindings_module" where
  "assign_OperationBindings key binding s =
     s\<lparr>OperationBindings := assign_property key (Static (PNode binding)) (OperationBindings s)\<rparr>"


section \<open>The type tables\<close>

text \<open>
  Each \<open>NodeType\<close> constant of a source file is a definition of the same name, prefixed
  by its file: \<open>Oas3_\<close> for \<^verbatim>\<open>packages/core/src/types/oas3.ts\<close>, \<open>Part000_\<close> for the
  unnamed source file \<^verbatim>\<open>part_000\<close> (a second table of OpenAPI 3 types) and \<open>Async2_\<close>
  for \<^verbatim>\<open>packages/core/src/types/asyncapi2.ts\<close>. Strings are the bytes of their UTF-8
  encoding. \<open>isMappingRef\<close> is imported from \<^verbatim>\<open>../ref-utils.js\<close>, which is not among the
  sources: the descriptors that call it take it as a parameter, a predicate that answers
  at every value.
\<close>

subsection \<open>The table of packages/core/src/types/oas3.ts\<close>

text \<open>\<^verbatim>\<open>responseCodeRegexp = /^[0-9][0-9Xx]{2}$/\<close>: the character classes of the three positions.\<close>

definition Oas3_responseCodeRegexp :: "string list" where
  \<open>Oas3_responseCodeRegexp = [''0123456789'', ''0123456789Xx'', ''0123456789Xx'']\<close>

definition Oas3_Root :: "node_type" where
  \<open>Oas3_Root = NodeType
     [(''openapi'', Static PNull),
      (''info'', Static (PRef ''Info'')),
      (''servers'', Static (PRef ''ServerList'')),
      (''security'', Static (PRef ''SecurityRequirementList'')),
      (''tags'', Static (PRef ''TagList'')),
      (''externalDocs'', Static (PRef ''ExternalDocs'')),
      (''paths'', Static (PRef ''Paths'')),
      (''components'', Static (PRef ''Components'')),
      (''x-webhooks'', Static (PRef ''WebhooksMap'')),
      (''x-tagGroups'', Static (PRef ''TagGroups'')),
      (''x-ignoredHeaderParameters'', Static (PScalar [(''type'', JStr ''array''), (''items'', JObj [(''type'', JStr ''string'')])]))]
     None
     None
     (Some (RequiredList [''openapi'', ''paths'', ''info'']))
     None
     None
     (Some ''x-'')
     None
     None\<close>

definition Oas3_Tag :: "node_type" where
  \<open>Oas3_Tag = NodeType
     [(''name'', Static (PScalar [(''type'', JStr ''string''), (''description'', JStr ''The name of the tag.'')])),
      (''description'', Static (PScalar [(''type'', JStr ''string''), (''description'', JStr ''A short description for the tag. CommonMark syntax MAY be used for rich text representation.'')])),
      (''externalDocs'', Static (PRef ''ExternalDocs'')),
      (''x-traitTag'', Static (PScalar [(''type'', JStr ''boolean'')])),
      (''x-displayName'', Static (PScalar [(''type'', JStr ''string'')]))]
     None
     None
     (Some (RequiredList [''name'']))
     None
     None
     (Some ''x-'')
     (Some ''The Tag Object represents a tag used by the OAS. It is not mandatory to have a tag object per tag used by the OAS but each tag object can contain additional metadata.'')
     (Some ''https://spec.openapis.org/oas/v3.1.0#tag-object'')\<close>

definition Oas3_TagGroup :: "node_type" where
  \<open>Oas3_TagGroup = NodeType
     [(''name'', Static (PScalar [(''type'', JStr ''string'')])),
      (''tags'', Static (PScalar [(''type'', JStr ''array''), (''items'', JObj [(''type'', JStr ''string'')])]))]
     None
     None
     None
     None
     None
     (Some ''x-'')
     None
     None\<close>

definition Oas3_ExternalDocs :: "node_type" where
  \<open>Oas3_ExternalDocs = NodeType
     [(''description'', Static (PScalar [(''type'', JStr ''string''), (''description'', JStr ''A description of the target documentation. CommonMark syntax MAY be used for rich text representation.'')])),
      (''url'', Static (PScalar [(''type'', JStr ''string''), (''description'', JStr ''REQUIRED. The URL for the target documentation. This MUST be in the format of a URL.'')]))]
     None
     None
     (Some (RequiredList [''url'']))
     None
     None
     (Some ''x-'')
     (Some ''Additional external documentation for this operation.'')
     None\<close>

definition Oas3_Server :: "node_type" where
  \<open>Oas3_Server = NodeType
     [(''url'', Static (PScalar [(''type'', JStr ''string'')])),
      (''description'', Static (PScalar [(''type'', JStr ''string'')])),
      (''variables'', Static (PRef ''ServerVariablesMap''))]
     None
     None
     (Some (RequiredList [''url'']))
     None
     None
     (Some ''x-'')
     None
     None\<close>

definition Oas3_ServerVariable :: "node_type" where
  \<open>Oas3_ServerVariable = NodeType
     [(''enum'', Static (PScalar [(''type'', JStr ''array''), (''items'', JObj [(''type'', JStr ''string'')])])),
      (''default'', Static (PScalar [(''type'', JStr ''string'')])),
      (''description'', Static (PScalar [(''type'', JStr ''string'')]))]
     None
     None
     (Some (RequiredList [''default'']))
     None
     None
     (Some ''x-'')
     None
     None\<close>

definition Oas3_SecurityRequirement :: "node_type" where
  \<open>Oas3_SecurityRequirement = NodeType
     []
     (Some (Static (PScalar [(''type'', JStr ''array''), (''items'', JObj [(''type'', JStr ''string'')])])))
     None
     None
     None
     None
     None
     None
     None\<close>

definition Oas3_Info :: "node_type" where
  \<open>Oas3_Info = NodeType
     [(''title'', Static (PScalar [(''type'', JStr ''string'')])),
      (''version'', Static (PScalar [(''type'', JStr ''string'')])),
      (''description'', Static (PScalar [(''type'', JStr ''string'')])),
      (''termsOfService'', Static (PScalar [(''type'', JStr ''string'')])),
      (''contact'', Static (PRef ''Contact'')),
      (''license'', Static (PRef ''License'')),
      (''x-logo'', Static (PRef ''Logo''))]
     None
     None
     (Some (RequiredList [''title'', ''version'']))
     None
     None
     (Some ''x-'')
     None
     None\<close>

definition Oas3_Logo :: "node_type" where
  \<open>Oas3_Logo = NodeType
     [(''url'', Static (PScalar [(''type'', JStr ''string'')])),
      (''altText'', Static (PScalar [(''type'', JStr ''string'')])),
      (''backgroundColor'', Static (PScalar [(''type'', JStr ''string'')])),
      (''href'', Static (PScalar [(''type'', JStr ''string'')]))]
     None
     None
     None
     None
     None
     None
     None
     None\<close>

definition Oas3_Contact :: "node_type" where
  \<open>Oas3_Contact = NodeType
     [(''name'', Static (PScalar [(''type'', JStr ''string'')])),
      (''url'', Static (PScalar [(''type'', JStr ''string'')])),
      (''email'', Static (PScalar [(''type'', JStr ''string'')]))]
     None
     None
     None
     None
     None
     (Some ''x-'')
     None
     None\<close>

definition Oas3_License :: "node_type" where
  \<open>Oas3_License = NodeType
     [(''name'', Static (PScalar [(''type'', JStr ''string'')])),
      (''url'', Static (PScalar [(''type'', JStr ''string'')]))]
     None
     None
     (Some (RequiredList [''name'']))
     None
     None
     (Some ''x-'')
     None
     None\<close>

text \<open>\<^verbatim>\<open>Paths.additionalProperties\<close>: \<^verbatim>\<open>(_value: any, key: string) => key.startsWith('/') ? 'PathItem' : undefined\<close>\<close>

definition Oas3_Paths_additionalProperties :: "jsval \<Rightarrow> string \<Rightarrow> prop_type option" where
  \<open>Oas3_Paths_additionalProperties = (\<lambda>_ key. if startsWith key ''/'' then Some (PRef ''PathItem'') else None)\<close>

definition Oas3_Paths :: "node_type" where
  \<open>Oas3_Paths = NodeType
     []
     (Some (Resolver Oas3_Paths_additionalProperties))
     None
     None
     None
     None
     None
     (Some ''The available paths and operations for the API.'')
     (Some ''https://redocly.com/learn/openapi/openapi-visual-reference/paths'')\<close>

text \<open>\<^verbatim>\<open>WebhooksMap.additionalProperties\<close>: \<^verbatim>\<open>() => 'PathItem'\<close>\<close>

definition Oas3_WebhooksMap_additionalProperties :: "jsval \<Rightarrow> string \<Rightarrow> prop_type option" where
  \<open>Oas3_WebhooksMap_additionalProperties = (\<lambda>_ _. Some (PRef ''PathItem''))\<close>

definition Oas3_WebhooksMap :: "node_type" where
  \<open>Oas3_WebhooksMap = NodeType
     []
     (Some (Resolver Oas3_WebhooksMap_additionalProperties))
     None
     None
     None
     None
     None
     None
     None\<close>

definition Oas3_PathItem :: "node_type" where
  \<open>Oas3_PathItem = NodeType
     [(''$ref'', Static (PScalar [(''type'', JStr ''string''), (''description'', JStr ''Allows for a referenced definition of this path item. The referenced structure MUST be in the form of a Path Item Object. In case a Path Item Object field appears both in the defined object and the referenced object, the behavior is undefined. See the rules for resolving Relative References.''), (''documentationLink'', JStr ''https://redocly.com/learn/openapi/openapi-visual-reference/reference'')])),
      (''servers'', Static (PRef ''ServerList'')),
      (''parameters'', Static (PRef ''ParameterList'')),
      (''summary'', Static (PScalar [(''type'', JStr ''string''), (''description'', JStr ''An optional, string summary, intended to apply to all operations in this path.'')])),
      (''description'', Static (PScalar [(''type'', JStr ''string''), (''description'', JStr ''An optional, string description, intended to apply to all operations in this path. CommonMark syntax MAY be used for rich text representation.'')])),
      (''get'', Static (PRef ''Operation'')),
      (''put'', Static (PRef ''Operation'')),
      (''post'', Static (PRef ''Operation'')),
      (''delete'', Static (PRef ''Operation'')),
      (''options'', Static (PRef ''Operation'')),
      (''head'', Static (PRef ''Operation'')),
      (''patch'', Static (PRef ''Operation'')),
      (''trace'', Static (PRef ''Operation''))]
     None
     None
     None
     None
     None
     (Some ''x-'')
     (Some ''Describes the operations available on a single path. A Path Item MAY be empty, due to ACL constraints. The path itself is still exposed to the documentation viewer but they will not know which operations and parameters are available.'')
     (Some ''https://redocly.com/learn/openapi/openapi-visual-reference/path-item#path-item-object'')\<close>

definition Oas3_Parameter :: "node_type" where
  \<open>Oas3_Parameter = NodeType
     [(''name'', Static (PScalar [(''type'', JStr ''string''), (''description'', JStr ''REQUIRED. The name of the parameter. Parameter names are case sensitive.'')])),
      (''in'', Static (PScalar [(''enum'', JArr [JStr ''query'', JStr ''header'', JStr ''path'', JStr ''cookie'']), (''description'', JStr ''REQUIRED. The location of the parameter. Possible values are "query", "header", "path", or "cookie".'')])),
      (''description'', Static (PScalar [(''type'', JStr ''string''), (''description'', JStr ''A brief description of the parameter. This could contain examples of use. CommonMark syntax MAY be used for rich text representation.'')])),
      (''required'', Static (PScalar [(''type'', JStr ''boolean''), (''description'', JStr ''Determines whether this parameter is mandatory. If the parameter location is "path", this property is REQUIRED and its value MUST be true. Otherwise, the property MAY be included and its default value is false.'')])),
      (''deprecated'', Static (PScalar [(''type'', JStr ''boolean''), (''description'', JStr ''Specifies that a parameter is deprecated and SHOULD be transitioned out of usage. Default value is false.'')])),
      (''allowEmptyValue'', Static (PScalar [(''type'', JStr ''boolean''), (''description'', JStr ''Sets the ability to pass empty-valued parameters. This is valid only for query parameters and allows sending a parameter with an empty value. Default value is false. If style is used, and if behavior is n/a (cannot be serialized), the value of allowEmptyValue SHALL be ignored. Use of this property is NOT RECOMMENDED, as it is likely to be removed in a later revision.'')])),
      (''style'', Static (PScalar [(''enum'', JArr [JStr ''form'', JStr ''simple'', JStr ''label'', JStr ''matrix'', JStr ''spaceDelimited'', JStr ''pipeDelimited'', JStr ''deepObject'']), (''description'', JStr ''Describes how the parameter value will be serialized depending on the type of the parameter value. Default values (based on value of in): for query - form; for path - simple; for header - simple; for cookie - form.'')])),
      (''explode'', Static (PScalar [(''type'', JStr ''boolean''), (''description'', JStr ''When this is true, parameter values of type array or object generate separate parameters for each value of the array or key-value pair of the map. For other types of parameters this property has no effect. When style is form, the default value is true. For all other styles, the default value is false.'')])),
      (''allowReserved'', Static (PScalar [(''type'', JStr ''boolean''), (''description'', JStr ''Determines whether the parameter value SHOULD allow reserved characters, as defined by RFC3986 :/?#[]@!$&\'()*+,;= to be included without percent-encoding. This property only applies to parameters with an in value of query. The default value is false.'')])),
      (''schema'', Static (PRef ''Schema'')),
      (''example'', Static (PScalar [(''isExample'', JBool True)])),
      (''examples'', Static (PRef ''ExamplesMap'')),
      (''content'', Static (PRef ''MediaTypesMap''))]
     None
     None
     (Some (RequiredList [''name'', ''in'']))
     (Some [''schema'', ''content''])
     None
     (Some ''x-'')
     (Some ''Describes a request parameter, which excludes the request body. A unique parameter is defined by a unique combination of the name and in values.'')
     (Some ''https://redocly.com/learn/openapi/openapi-visual-reference/parameter'')\<close>

definition Oas3_Operation :: "node_type" where
  \<open>Oas3_Operation = NodeType
     [(''tags'', Static (PScalar [(''type'', JStr ''array''), (''items'', JObj [(''type'', JStr ''string'')]), (''description'', JStr ''A list of tags for API documentation control. Tags can be used for logical grouping of operations by resources or any other qualifier.''), (''documentationLink'', JStr ''https://redocly.com/learn/openapi/openapi-visual-reference/operation'')])),
      (''summary'', Static (PScalar [(''type'', JStr ''string''), (''description'', JStr ''A short summary of what the operation does.''), (''documentationLink'', JStr ''https://redocly.com/learn/openapi/openapi-visual-reference/operation#summary'')])),
      (''description'', Static (PScalar [(''type'', JStr ''string''), (''description'', JStr ''A verbose explanation of the operation behavior. CommonMark syntax MAY be used for rich text representation.''), (''documentationLink'', JStr ''https://redocly.com/learn/openapi/openapi-visual-reference/operation#description'')])),
      (''externalDocs'', Static (PRef ''ExternalDocs'')),
      (''operationId'', Static (PScalar [(''type'', JStr ''string''), (''description'', JStr ''The operationId is path segment or path fragment in deep links to a specific operation.''), (''documentationLink'', JStr ''https://redocly.com/learn/openapi/openapi-visual-reference/operation#operationid'')])),
      (''parameters'', Static (PRef ''ParameterList'')),
      (''security'', Static (PRef ''SecurityRequirementList'')),
      (''servers'', Static (PRef ''ServerList'')),
      (''requestBody'', Static (PRef ''RequestBody'')),
      (''responses'', Static (PRef ''Responses'')),
      (''deprecated'', Static (PScalar [(''type'', JStr ''boolean'')])),
      (''callbacks'', Static (PRef ''CallbacksMap'')),
      (''x-codeSamples'', Static (PRef ''XCodeSampleList'')),
      (''x-code-samples'', Static (PRef ''XCodeSampleList'')),
      (''x-hideTryItPanel'', Static (PScalar [(''type'', JStr ''boolean'')]))]
     None
     None
     (Some (RequiredList [''responses'']))
     None
     None
     (Some ''x-'')
     (Some ''The Operation Object describes a single API operation on a path, including its parameters, responses, and request body (if applicable). Each path can support more than one operation, but those operations must be unique. A unique operation is a combination of a path and an HTTP method, so two GET or two POST methods for the same path are not allowed.'')
     (Some ''https://redocly.com/learn/openapi/openapi-visual-reference/operation'')\<close>

definition Oas3_XCodeSample :: "node_type" where
  \<open>Oas3_XCodeSample = NodeType
     [(''lang'', Static (PScalar [(''type'', JStr ''string'')])),
      (''label'', Static (PScalar [(''type'', JStr ''string'')])),
      (''source'', Static (PScalar [(''type'', JStr ''string'')]))]
     None
     None
     None
     None
     None
     None
     None
     None\<close>

definition Oas3_RequestBody :: "node_type" where
  \<open>Oas3_RequestBody = NodeType
     [(''description'', Static (PScalar [(''type'', JStr ''string'')])),
      (''required'', Static (PScalar [(''type'', JStr ''boolean'')])),
      (''content'', Static (PRef ''MediaTypesMap''))]
     None
     None
     (Some (RequiredList [''content'']))
     None
     None
     (Some ''x-'')
     (Some ''The request body applicable for this operation. The requestBody is fully supported in HTTP methods where the HTTP 1.1 specification [RFC7231] Section 4.3.1 has explicitly defined semantics for request bodies. In other cases where the HTTP spec is vague (such as GET, HEAD and DELETE), requestBody is permitted but does not have well-defined semantics and SHOULD be avoided if possible.'')
     None\<close>

definition Oas3_MediaTypesMap :: "node_type" where
  \<open>Oas3_MediaTypesMap = NodeType
     []
     (Some (Static (PRef ''MediaType'')))
     None
     None
     None
     None
     None
     None
     None\<close>

definition Oas3_MediaType :: "node_type" where
  \<open>Oas3_MediaType = NodeType
     [(''schema'', Static (PRef ''Schema'')),
      (''example'', Static (PScalar [(''isExample'', JBool True)])),
      (''examples'', Static (PRef ''ExamplesMap'')),
      (''encoding'', Static (PRef ''EncodingMap''))]
     None
     None
     None
     None
     None
     (Some ''x-'')
     None
     None\<close>

definition Oas3_Example :: "node_type" where
  \<open>Oas3_Example = NodeType
     [(''value'', Static (PScalar [(''resolvable'', JBool False)])),
      (''summary'', Static (PScalar [(''type'', JStr ''string'')])),
      (''description'', Static (PScalar [(''type'', JStr ''string'')])),
      (''externalValue'', Static (PScalar [(''type'', JStr ''string'')]))]
     None
     None
     None
     None
     None
     (Some ''x-'')
     None
     None\<close>

definition Oas3_Encoding :: "node_type" where
  \<open>Oas3_Encoding = NodeType
     [(''contentType'', Static (PScalar [(''type'', JStr ''string'')])),
      (''headers'', Static (PRef ''HeadersMap'')),
      (''style'', Static (PScalar [(''enum'', JArr [JStr ''form'', JStr ''simple'', JStr ''label'', JStr ''matrix'', JStr ''spaceDelimited'', JStr ''pipeDelimited'', JStr ''deepObject''])])),
      (''explode'', Static (PScalar [(''type'', JStr ''boolean'')])),
      (''allowReserved'', Static (PScalar [(''type'', JStr ''boolean'')]))]
     None
     None
     None
     None
     None
     (Some ''x-'')
     None
     None\<close>

definition Oas3_EnumDescriptions :: "node_type" where
  \<open>Oas3_EnumDescriptions = NodeType
     []
     (Some (Static (PScalar [(''type'', JStr ''string'')])))
     None
     None
     None
     None
     None
     None
     None\<close>

definition Oas3_Header :: "node_type" where
  \<open>Oas3_Header = NodeType
     [(''description'', Static (PScalar [(''type'', JStr ''string'')])),
      (''required'', Static (PScalar [(''type'', JStr ''boolean'')])),
      (''deprecated'', Static (PScalar [(''type'', JStr ''boolean'')])),
      (''allowEmptyValue'', Static (PScalar [(''type'', JStr ''boolean'')])),
      (''style'', Static (PScalar [(''enum'', JArr [JStr ''form'', JStr ''simple'', JStr ''label'', JStr ''matrix'', JStr ''spaceDelimited'', JStr ''pipeDelimited'', JStr ''deepObject''])])),
      (''explode'', Static (PScalar [(''type'', JStr ''boolean'')])),
      (''allowReserved'', Static (PScalar [(''type'', JStr ''boolean'')])),
      (''schema'', Static (PRef ''Schema'')),
      (''example'', Static (PScalar [(''isExample'', JBool True)])),
      (''examples'', Static (PRef ''ExamplesMap'')),
      (''content'', Static (PRef ''MediaTypesMap''))]
     None
     None
     None
     (Some [''schema'', ''content''])
     None
     (Some ''x-'')
     None
     None\<close>

text \<open>\<^verbatim>\<open>Responses.additionalProperties\<close>: \<^verbatim>\<open>(_v: any, key: string) => responseCodeRegexp.test(key) ? 'Response' : undefined\<close>\<close>

definition Oas3_Responses_additionalProperties :: "jsval \<Rightarrow> string \<Rightarrow> prop_type option" where
  \<open>Oas3_Responses_additionalProperties = (\<lambda>_ key. if regexp_test Oas3_responseCodeRegexp key then Some (PRef ''Response'') else None)\<close>

definition Oas3_Responses :: "node_type" where
  \<open>Oas3_Responses = NodeType
     [(''default'', Static (PRef ''Response''))]
     (Some (Resolver Oas3_Responses_additionalProperties))
     None
     None
     None
     None
     None
     (Some ''The list of possible responses as they are returned from executing this operation.'')
     None\<close>

definition Oas3_Response :: "node_type" where
  \<open>Oas3_Response = NodeType
     [(''description'', Static (PScalar [(''type'', JStr ''string'')])),
      (''headers'', Static (PRef ''HeadersMap'')),
      (''content'', Static (PRef ''MediaTypesMap'')),
      (''links'', Static (PRef ''LinksMap'')),
      (''x-summary'', Static (PScalar [(''type'', JStr ''string'')]))]
     None
     None
     (Some (RequiredList [''description'']))
     None
     None
     (Some ''x-'')
     None
     None\<close>

definition Oas3_Link :: "node_type" where
  \<open>Oas3_Link = NodeType
     [(''operationRef'', Static (PScalar [(''type'', JStr ''string'')])),
      (''operationId'', Static (PScalar [(''type'', JStr ''string'')])),
      (''parameters'', Static PNull),
      (''requestBody'', Static PNull),
      (''description'', Static (PScalar [(''type'', JStr ''string'')])),
      (''server'', Static (PRef ''Server''))]
     None
     None
     None
     None
     None
     (Some ''x-'')
     None
     None\<close>

text \<open>\<^verbatim>\<open>Schema.properties['items']\<close>: \<^verbatim>\<open>(value: any) => { if (Array.isArray(value)) { return listOf('Schema'); } else { return 'Schema'; } }\<close>\<close>

definition Oas3_Schema_properties_items :: "jsval \<Rightarrow> string \<Rightarrow> prop_type option" where
  \<open>Oas3_Schema_properties_items = (\<lambda>v _. if isArray v then Some (PNode (listOf ''Schema'' None)) else Some (PRef ''Schema''))\<close>

text \<open>\<^verbatim>\<open>Schema.properties['additionalProperties']\<close>: \<^verbatim>\<open>(value: any) => { if (typeof value === 'boolean') { return { type: 'boolean' }; } else { return 'Schema'; } }\<close>\<close>

definition Oas3_Schema_properties_additionalProperties :: "jsval \<Rightarrow> string \<Rightarrow> prop_type option" where
  \<open>Oas3_Schema_properties_additionalProperties = (\<lambda>v _. if typeof_boolean v then Some (PScalar [(''type'', JStr ''boolean'')]) else Some (PRef ''Schema''))\<close>

definition Oas3_Schema :: "node_type" where
  \<open>Oas3_Schema = NodeType
     [(''externalDocs'', Static (PRef ''ExternalDocs'')),
      (''discriminator'', Static (PRef ''Discriminator'')),
      (''title'', Static (PScalar [(''type'', JStr ''string'')])),
      (''multipleOf'', Static (PScalar [(''type'', JStr ''number''), (''minimum'', JNum 0)])),
      (''maximum'', Static (PScalar [(''type'', JStr ''number'')])),
      (''minimum'', Static (PScalar [(''type'', JStr ''number'')])),
      (''exclusiveMaximum'', Static (PScalar [(''type'', JStr ''boolean'')])),
      (''exclusiveMinimum'', Static (PScalar [(''type'', JStr ''boolean'')])),
      (''maxLength'', Static (PScalar [(''type'', JStr ''integer''), (''minimum'', JNum 0)])),
      (''minLength'', Static (PScalar [(''type'', JStr ''integer''), (''minimum'', JNum 0)])),
      (''pattern'', Static (PScalar [(''type'', JStr ''string'')])),
      (''maxItems'', Static (PScalar [(''type'', JStr ''integer''), (''minimum'', JNum 0)])),
      (''minItems'', Static (PScalar [(''type'', JStr ''integer''), (''minimum'', JNum 0)])),
      (''uniqueItems'', Static (PScalar [(''type'', JStr ''boolean'')])),
      (''maxProperties'', Static (PScalar [(''type'', JStr ''integer''), (''minimum'', JNum 0)])),
      (''minProperties'', Static (PScalar [(''type'', JStr ''integer''), (''minimum'', JNum 0)])),
      (''required'', Static (PScalar [(''type'', JStr ''array''), (''items'', JObj [(''type'', JStr ''string'')])])),
      (''enum'', Static (PScalar [(''type'', JStr ''array'')])),
      (''type'', Static (PScalar [(''enum'', JArr [JStr ''object'', JStr ''array'', JStr ''string'', JStr ''number'', JStr ''integer'', JStr ''boolean''])])),
      (''allOf'', Static (PNode (listOf ''Schema'' None))),
      (''anyOf'', Static (PNode (listOf ''Schema'' None))),
      (''oneOf'', Static (PNode (listOf ''Schema'' None))),
      (''not'', Static (PRef ''Schema'')),
      (''properties'', Static (PRef ''SchemaProperties'')),
      (''items'', Resolver Oas3_Schema_properties_items),
      (''additionalProperties'', Resolver Oas3_Schema_properties_additionalProperties),
      (''description'', Static (PScalar [(''type'', JStr ''string'')])),
      (''format'', Static (PScalar [(''type'', JStr ''string'')])),
      (''default'', Static PNull),
      (''nullable'', Static (PScalar [(''type'', JStr ''boolean'')])),
      (''readOnly'', Static (PScalar [(''type'', JStr ''boolean'')])),
      (''writeOnly'', Static (PScalar [(''type'', JStr ''boolean'')])),
      (''xml'', Static (PRef ''Xml'')),
      (''example'', Static (PScalar [(''isExample'', JBool True)])),
      (''deprecated'', Static (PScalar [(''type'', JStr ''boolean'')])),
      (''x-tags'', Static (PScalar [(''type'', JStr ''array''), (''items'', JObj [(''type'', JStr ''string'')])])),
      (''x-additionalPropertiesName'', Static (PScalar [(''type'', JStr ''string'')])),
      (''x-explicitMappingOnly'', Static (PScalar [(''type'', JStr ''boolean'')]))]
     None
     None
     None
     None
     None
     (Some ''x-'')
     None
     None\<close>

definition Oas3_Xml :: "node_type" where
  \<open>Oas3_Xml = NodeType
     [(''name'', Static (PScalar [(''type'', JStr ''string'')])),
      (''namespace'', Static (PScalar [(''type'', JStr ''string'')])),
      (''prefix'', Static (PScalar [(''type'', JStr ''string'')])),
      (''attribute'', Static (PScalar [(''type'', JStr ''boolean'')])),
      (''wrapped'', Static (PScalar [(''type'', JStr ''boolean'')]))]
     None
     None
     None
     None
     None
     (Some ''x-'')
     None
     None\<close>

definition Oas3_SchemaProperties :: "node_type" where
  \<open>Oas3_SchemaProperties = NodeType
     []
     (Some (Static (PRef ''Schema'')))
     None
     None
     None
     None
     None
     None
     None\<close>

text \<open>\<^verbatim>\<open>DiscriminatorMapping.additionalProperties\<close>: \<^verbatim>\<open>(value: any) => { if (isMappingRef(value)) { return { type: 'string', directResolveAs: 'Schema' }; } else { return { type: 'string' }; } }\<close>\<close>

definition Oas3_DiscriminatorMapping_additionalProperties :: "(jsval \<Rightarrow> bool) \<Rightarrow> jsval \<Rightarrow> string \<Rightarrow> prop_type option" where
  \<open>Oas3_DiscriminatorMapping_additionalProperties isMappingRef = (\<lambda>v _. if isMappingRef v then Some (PScalar [(''type'', JStr ''string''), (''directResolveAs'', JStr ''Schema'')]) else Some (PScalar [(''type'', JStr ''string'')]))\<close>

definition Oas3_DiscriminatorMapping :: "(jsval \<Rightarrow> bool) \<Rightarrow> node_type" where
  \<open>Oas3_DiscriminatorMapping isMappingRef = NodeType
     []
     (Some (Resolver (Oas3_DiscriminatorMapping_additionalProperties isMappingRef)))
     None
     None
     None
     None
     None
     None
     None\<close>

definition Oas3_Discriminator :: "node_type" where
  \<open>Oas3_Discriminator = NodeType
     [(''propertyName'', Static (PScalar [(''type'', JStr ''string'')])),
      (''mapping'', Static (PRef ''DiscriminatorMapping''))]
     None
     None
     (Some (RequiredList [''propertyName'']))
     None
     None
     (Some ''x-'')
     None
     None\<close>

definition Oas3_Components :: "node_type" where
  \<open>Oas3_Components = NodeType
     [(''parameters'', Static (PRef ''NamedParameters'')),
      (''schemas'', Static (PRef ''NamedSchemas'')),
      (''responses'', Static (PRef ''NamedResponses'')),
      (''examples'', Static (PRef ''NamedExamples'')),
      (''requestBodies'', Static (PRef ''NamedRequestBodies'')),
      (''headers'', Static (PRef ''NamedHeaders'')),
      (''securitySchemes'', Static (PRef ''NamedSecuritySchemes'')),
      (''links'', Static (PRef ''NamedLinks'')),
      (''callbacks'', Static (PRef ''NamedCallbacks''))]
     None
     None
     None
     None
     None
     (Some ''x-'')
     None
     None\<close>

definition Oas3_ImplicitFlow :: "node_type" where
  \<open>Oas3_ImplicitFlow = NodeType
     [(''refreshUrl'', Static (PScalar [(''type'', JStr ''string'')])),
      (''scopes'', Static (PScalar [(''type'', JStr ''object''), (''additionalProperties'', JObj [(''type'', JStr ''string'')])])),
      (''authorizationUrl'', Static (PScalar [(''type'', JStr ''string'')]))]
     None
     None
     (Some (RequiredList [''authorizationUrl'', ''scopes'']))
     None
     None
     (Some ''x-'')
     None
     None\<close>

definition Oas3_PasswordFlow :: "node_type" where
  \<open>Oas3_PasswordFlow = NodeType
     [(''refreshUrl'', Static (PScalar [(''type'', JStr ''string'')])),
      (''scopes'', Static (PScalar [(''type'', JStr ''object''), (''additionalProperties'', JObj [(''type'', JStr ''string'')])])),
      (''tokenUrl'', Static (PScalar [(''type'', JStr ''string'')]))]
     None
     None
     (Some (RequiredList [''tokenUrl'', ''scopes'']))
     None
     None
     (Some ''x-'')
     None
     None\<close>

definition Oas3_ClientCredentials :: "node_type" where
  \<open>Oas3_ClientCredentials = NodeType
     [(''refreshUrl'', Static (PScalar [(''type'', JStr ''string'')])),
      (''scopes'', Static (PScalar [(''type'', JStr ''object''), (''additionalProperties'', JObj [(''type'', JStr ''string'')])])),
      (''tokenUrl'', Static (PScalar [(''type'', JStr ''string'')]))]
     None
     None
     (Some (RequiredList [''tokenUrl'', ''scopes'']))
     None
     None
     (Some ''x-'')
     None
     None\<close>

text \<open>\<^verbatim>\<open>AuthorizationCode.properties['x-usePkce']\<close>: \<^verbatim>\<open>(value: any) => { if (typeof value === 'boolean') { return { type: 'boolean' }; } else { return 'XUsePkce'; } }\<close>\<close>

definition Oas3_AuthorizationCode_properties_x_usePkce :: "jsval \<Rightarrow> string \<Rightarrow> prop_type option" where
  \<open>Oas3_AuthorizationCode_properties_x_usePkce = (\<lambda>v _. if typeof_boolean v then Some (PScalar [(''type'', JStr ''boolean'')]) else Some (PRef ''XUsePkce''))\<close>

definition Oas3_AuthorizationCode :: "node_type" where
  \<open>Oas3_AuthorizationCode = NodeType
     [(''refreshUrl'', Static (PScalar [(''type'', JStr ''string'')])),
      (''authorizationUrl'', Static (PScalar [(''type'', JStr ''string'')])),
      (''scopes'', Static (PScalar [(''type'', JStr ''object''), (''additionalProperties'', JObj [(''type'', JStr ''string'')])])),
      (''tokenUrl'', Static (PScalar [(''type'', JStr ''string'')])),
      (''x-usePkce'', Resolver Oas3_AuthorizationCode_properties_x_usePkce)]
     None
     None
     (Some (RequiredList [''authorizationUrl'', ''tokenUrl'', ''scopes'']))
     None
     None
     (Some ''x-'')
     None
     None\<close>

definition Oas3_OAuth2Flows :: "node_type" where
  \<open>Oas3_OAuth2Flows = NodeType
     [(''implicit'', Static (PRef ''ImplicitFlow'')),
      (''password'', Static (PRef ''PasswordFlow'')),
      (''clientCredentials'', Static (PRef ''ClientCredentials'')),
      (''authorizationCode'', Static (PRef ''AuthorizationCode''))]
     None
     None
     None
     None
     None
     (Some ''x-'')
     None
     None\<close>

text \<open>\<^verbatim>\<open>SecurityScheme.required\<close>: \<^verbatim>\<open>required(value) { switch (value?.type) { case 'apiKey': return ['type', 'name', 'in']; case 'http': return ['type', 'scheme']; case 'oauth2': return ['type', 'flows']; case 'openIdConnect': return ['type', 'openIdConnectUrl']; default: return ['type']; } }\<close>\<close>

definition Oas3_SecurityScheme_required :: "jsval \<Rightarrow> string list" where
  \<open>Oas3_SecurityScheme_required = (\<lambda>v. if opt_type v = JStr ''apiKey'' then [''type'', ''name'', ''in'']
      else if opt_type v = JStr ''http'' then [''type'', ''scheme'']
      else if opt_type v = JStr ''oauth2'' then [''type'', ''flows'']
      else if opt_type v = JStr ''openIdConnect'' then [''type'', ''openIdConnectUrl'']
      else [''type''])\<close>

text \<open>\<^verbatim>\<open>SecurityScheme.allowed\<close>: \<^verbatim>\<open>allowed(value) { switch (value?.type) { case 'apiKey': return ['type', 'name', 'in', 'description']; case 'http': return ['type', 'scheme', 'bearerFormat', 'description']; case 'oauth2': return ['type', 'flows', 'description']; case 'openIdConnect': return ['type', 'openIdConnectUrl', 'description']; default: return ['type', 'description']; } }\<close>\<close>

definition Oas3_SecurityScheme_allowed :: "jsval \<Rightarrow> string list" where
  \<open>Oas3_SecurityScheme_allowed = (\<lambda>v. if opt_type v = JStr ''apiKey'' then [''type'', ''name'', ''in'', ''description'']
      else if opt_type v = JStr ''http'' then [''type'', ''scheme'', ''bearerFormat'', ''description'']
      else if opt_type v = JStr ''oauth2'' then [''type'', ''flows'', ''description'']
      else if opt_type v = JStr ''openIdConnect'' then [''type'', ''openIdConnectUrl'', ''description'']
      else [''type'', ''description''])\<close>

definition Oas3_SecurityScheme :: "node_type" where
  \<open>Oas3_SecurityScheme = NodeType
     [(''type'', Static (PScalar [(''enum'', JArr [JStr ''apiKey'', JStr ''http'', JStr ''oauth2'', JStr ''openIdConnect''])])),
      (''description'', Static (PScalar [(''type'', JStr ''string'')])),
      (''name'', Static (PScalar [(''type'', JStr ''string'')])),
      (''in'', Static (PScalar [(''type'', JStr ''string''), (''enum'', JArr [JStr ''query'', JStr ''header'', JStr ''cookie''])])),
      (''scheme'', Static (PScalar [(''type'', JStr ''string'')])),
      (''bearerFormat'', Static (PScalar [(''type'', JStr ''string'')])),
      (''flows'', Static (PRef ''OAuth2Flows'')),
      (''openIdConnectUrl'', Static (PScalar [(''type'', JStr ''string'')])),
      (''x-defaultClientId'', Static (PScalar [(''type'', JStr ''string'')]))]
     None
     None
     (Some (RequiredFn Oas3_SecurityScheme_required))
     None
     (Some Oas3_SecurityScheme_allowed)
     (Some ''x-'')
     None
     None\<close>

definition Oas3_XUsePkce :: "node_type" where
  \<open>Oas3_XUsePkce = NodeType
     [(''disableManualConfiguration'', Static (PScalar [(''type'', JStr ''boolean'')])),
      (''hideClientSecretInput'', Static (PScalar [(''type'', JStr ''boolean'')]))]
     None
     None
     None
     None
     None
     None
     None
     None\<close>

definition Oas3_Oas3Types :: "(jsval \<Rightarrow> bool) \<Rightarrow> (string \<times> node_type) list" where
  \<open>Oas3_Oas3Types isMappingRef =
    [(''Root'', Oas3_Root),
     (''Tag'', Oas3_Tag),
     (''TagList'', listOf ''Tag'' (Some \<lparr>ov_description = (Some ''A list of tags used by the document with additional metadata.''), ov_documentationLink = None\<rparr>)),
     (''TagGroups'', listOf ''TagGroup'' None),
     (''TagGroup'', Oas3_TagGroup),
     (''ExternalDocs'', Oas3_ExternalDocs),
     (''Server'', Oas3_Server),
     (''ServerList'', listOf ''Server'' None),
     (''ServerVariable'', Oas3_ServerVariable),
     (''ServerVariablesMap'', mapOf ''ServerVariable'' None),
     (''SecurityRequirement'', Oas3_SecurityRequirement),
     (''SecurityRequirementList'', listOf ''SecurityRequirement'' None),
     (''Info'', Oas3_Info),
     (''Contact'', Oas3_Contact),
     (''License'', Oas3_License),
     (''Paths'', Oas3_Paths),
     (''PathItem'', Oas3_PathItem),
     (''Parameter'', Oas3_Parameter),
     (''ParameterList'', listOf ''Parameter'' (Some \<lparr>ov_description = (Some (''A list of parameters that are applicable for this operation. If a parameter is already defined at the Path Item, the new definition will override it but can never remove it. The list MUST NOT include duplicated parameters. A unique parameter is defined by a combination of a name and location. The list can use the Reference Object to link to parameters that are defined at the OpenAPI Object'' @ [CHR 0xE2, CHR 0x80, CHR 0x99] @ ''s components/parameters.'')), ov_documentationLink = None\<rparr>)),
     (''Operation'', Oas3_Operation),
     (''Callback'', mapOf ''PathItem'' None),
     (''CallbacksMap'', mapOf ''Callback'' None),
     (''RequestBody'', Oas3_RequestBody),
     (''MediaTypesMap'', Oas3_MediaTypesMap),
     (''MediaType'', Oas3_MediaType),
     (''Example'', Oas3_Example),
     (''ExamplesMap'', mapOf ''Example'' None),
     (''Encoding'', Oas3_Encoding),
     (''EncodingMap'', mapOf ''Encoding'' None),
     (''EnumDescriptions'', Oas3_EnumDescriptions),
     (''Header'', Oas3_Header),
     (''HeadersMap'', mapOf ''Header'' None),
     (''Responses'', Oas3_Responses),
     (''Response'', Oas3_Response),
     (''Link'', Oas3_Link),
     (''Logo'', Oas3_Logo),
     (''Schema'', Oas3_Schema),
     (''Xml'', Oas3_Xml),
     (''SchemaProperties'', Oas3_SchemaProperties),
     (''DiscriminatorMapping'', Oas3_DiscriminatorMapping isMappingRef),
     (''Discriminator'', Oas3_Discriminator),
     (''Components'', Oas3_Components),
     (''LinksMap'', mapOf ''Link'' None),
     (''NamedSchemas'', mapOf ''Schema'' None),
     (''NamedResponses'', mapOf ''Response'' None),
     (''NamedParameters'', mapOf ''Parameter'' None),
     (''NamedExamples'', mapOf ''Example'' None),
     (''NamedRequestBodies'', mapOf ''RequestBody'' None),
     (''NamedHeaders'', mapOf ''Header'' None),
     (''NamedSecuritySchemes'', mapOf ''SecurityScheme'' None),
     (''NamedLinks'', mapOf ''Link'' None),
     (''NamedCallbacks'', mapOf ''Callback'' None),
     (''ImplicitFlow'', Oas3_ImplicitFlow),
     (''PasswordFlow'', Oas3_PasswordFlow),
     (''ClientCredentials'', Oas3_ClientCredentials),
     (''AuthorizationCode'', Oas3_AuthorizationCode),
     (''OAuth2Flows'', Oas3_OAuth2Flows),
     (''SecurityScheme'', Oas3_SecurityScheme),
     (''XCodeSample'', Oas3_XCodeSample),
     (''XCodeSampleList'', listOf ''XCodeSample'' None),
     (''XUsePkce'', Oas3_XUsePkce),
     (''WebhooksMap'', Oas3_WebhooksMap)]\<close>

subsection \<open>The table of the unnamed source file part_000\<close>

text \<open>\<^verbatim>\<open>responseCodeRegexp = /^[0-9][0-9Xx]{2}$/\<close>: the character classes of the three positions.\<close>

definition Part000_responseCodeRegexp :: "string list" where
  \<open>Part000_responseCodeRegexp = [''0123456789'', ''0123456789Xx'', ''0123456789Xx'']\<close>

definition Part000_Root :: "node_type" where
  \<open>Part000_Root = NodeType
     [(''openapi'', Static PNull),
      (''info'', Static (PRef ''Info'')),
      (''servers'', Static (PRef ''ServerList'')),
      (''security'', Static (PRef ''SecurityRequirementList'')),
      (''tags'', Static (PRef ''TagList'')),
      (''externalDocs'', Static (PRef ''ExternalDocs'')),
      (''paths'', Static (PRef ''Paths'')),
      (''components'', Static (PRef ''Components'')),
      (''x-webhooks'', Static (PRef ''WebhooksMap'')),
      (''x-tagGroups'', Static (PRef ''TagGroups'')),
      (''x-ignoredHeaderParameters'', Static (PScalar [(''type'', JStr ''array''), (''items'', JObj [(''type'', JStr ''string'')])]))]
     None
     None
     (Some (RequiredList [''openapi'', ''paths'', ''info'']))
     None
     None
     (Some ''x-'')
     (Some ''REQUIRED. This string MUST be the semantic version number of the OpenAPI Specification version that the OpenAPI document uses. The openapi field SHOULD be used by tooling specifications and clients to interpret the OpenAPI document. This is not related to the API info.version string.'')
     (Some ''https://redocly.com/learn/openapi/openapi-visual-reference/openapi#openapi'')\<close>

definition Part000_Tag :: "node_type" where
  \<open>Part000_Tag = NodeType
     [(''name'', Static (PScalar [(''type'', JStr ''string''), (''description'', JStr ''REQUIRED. The name of the tag.'')])),
      (''description'', Static (PScalar [(''type'', JStr ''string''), (''description'', JStr ''A description for the tag.'')])),
      (''externalDocs'', Static (PRef ''ExternalDocs'')),
      (''x-traitTag'', Static (PScalar [(''type'', JStr ''boolean'')])),
      (''x-displayName'', Static (PScalar [(''type'', JStr ''string'')]))]
     None
     None
     (Some (RequiredList [''name'']))
     None
     None
     (Some ''x-'')
     (Some ''The Tag Object represents a tag used by the OAS. It is not mandatory to have a tag object per tag used by the OAS but each tag object can contain additional metadata.'')
     (Some ''https://spec.openapis.org/oas/v3.1.0#tag-object'')\<close>

definition Part000_TagGroup :: "node_type" where
  \<open>Part000_TagGroup = NodeType
     [(''name'', Static (PScalar [(''type'', JStr ''string'')])),
      (''tags'', Static (PScalar [(''type'', JStr ''array''), (''items'', JObj [(''type'', JStr ''string'')])]))]
     None
     None
     None
     None
     None
     (Some ''x-'')
     None
     None\<close>

definition Part000_ExternalDocs :: "node_type" where
  \<open>Part000_ExternalDocs = NodeType
     [(''description'', Static (PScalar [(''type'', JStr ''string''), (''description'', JStr ''A description of the target documentation. Used as the link anchor text in Redocly. If not provided, the url is used as the link anchor text.'')])),
      (''url'', Static (PScalar [(''type'', JStr ''string''), (''description'', JStr ''REQUIRED. The URL for the target documentation.'')]))]
     None
     None
     (Some (RequiredList [''url'']))
     None
     None
     (Some ''x-'')
     (Some ''Additional external documentation for this operation.'')
     (Some ''https://redocly.com/learn/openapi/openapi-visual-reference/external-docs'')\<close>

definition Part000_Server :: "node_type" where
  \<open>Part000_Server = NodeType
     [(''url'', Static (PScalar [(''type'', JStr ''string''), (''description'', JStr ''REQUIRED. A URL to the target host. This URL supports Server Variables and MAY be relative, to indicate that the host location is relative to the location where the OpenAPI document is being served. Variable substitutions are made when a variable is named in { curly braces }.'')])),
      (''description'', Static (PScalar [(''type'', JStr ''string''), (''description'', JStr ''An optional string describing the host designated by the URL.'')])),
      (''variables'', Static (PRef ''ServerVariablesMap''))]
     None
     None
     (Some (RequiredList [''url'']))
     None
     None
     (Some ''x-'')
     (Some ''A server object to be used by the target operation.'')
     None\<close>

definition Part000_ServerVariable :: "node_type" where
  \<open>Part000_ServerVariable = NodeType
     [(''enum'', Static (PScalar [(''type'', JStr ''array''), (''items'', JObj [(''type'', JStr ''string'')]), (''description'', JStr ''An enumeration of string values to be used if the substitution options are from a limited set. The array MUST NOT be empty. If defined, the array MUST contain the default value.'')])),
      (''default'', Static (PScalar [(''type'', JStr ''string''), (''description'', JStr ''REQUIRED. The default value to use for substitution, which SHALL be sent if an alternate value is not supplied. Note this behavior is different than the Schema Object\'s treatment of default values, because in those cases parameter values are optional. If the enum is defined, the value MUST exist in the enum\'s values.'')])),
      (''description'', Static (PScalar [(''type'', JStr ''string''), (''description'', JStr ''An optional description for the server variable.'')]))]
     None
     None
     (Some (RequiredList [''default'']))
     None
     None
     (Some ''x-'')
     (Some ''Server variables are used when you need to make a substitution into the server URL such as when the subdomain is unique per tenant.'')
     (Some ''https://redocly.com/learn/openapi/openapi-visual-reference/server-variables#server-variables'')\<close>

definition Part000_SecurityRequirement :: "node_type" where
  \<open>Part000_SecurityRequirement = NodeType
     []
     (Some (Static (PScalar [(''type'', JStr ''array''), (''items'', JObj [(''type'', JStr ''string'')])])))
     None
     None
     None
     None
     None
     (Some ''A declaration of which security mechanisms can be used across the API. The list of values includes alternative security requirement objects that can be used. Only one of the security requirement objects need to be satisfied to authorize a request. Individual operations can override this definition. To make security optional, an empty security requirement ({}) can be included in the array.'')
     (Some ''https://redocly.com/learn/openapi/openapi-visual-reference/security'')\<close>

definition Part000_Info :: "node_type" where
  \<open>Part000_Info = NodeType
     [(''title'', Static (PScalar [(''type'', JStr ''string''), (''description'', JStr ''REQUIRED. The title of the API.'')])),
      (''version'', Static (PScalar [(''type'', JStr ''string''), (''description'', JStr ''REQUIRED. The version of the OpenAPI document (which is distinct from the OpenAPI Specification version or the API implementation version).'')])),
      (''description'', Static (PScalar [(''type'', JStr ''string''), (''description'', JStr ''RECOMMENDED. A description of the API (Markdown may be used).'')])),
      (''termsOfService'', Static (PScalar [(''type'', JStr ''string''), (''description'', JStr ''A URL to the Terms of Service for the API.'')])),
      (''contact'', Static (PRef ''Contact'')),
      (''license'', Static (PRef ''License'')),
      (''x-logo'', Static (PRef ''Logo''))]
     None
     None
     (Some (RequiredList [''title'', ''version'']))
     None
     None
     (Some ''x-'')
     (Some ''REQUIRED. Provides metadata about the API. The metadata MAY be used by tooling as required.'')
     (Some ''https://redocly.com/learn/openapi/openapi-visual-reference/info#info'')\<close>

definition Part000_Logo :: "node_type" where
  \<open>Part000_Logo = NodeType
     [(''url'', Static (PScalar [(''type'', JStr ''string'')])),
      (''altText'', Static (PScalar [(''type'', JStr ''string'')])),
      (''backgroundColor'', Static (PScalar [(''type'', JStr ''string'')])),
      (''href'', Static (PScalar [(''type'', JStr ''string'')]))]
     None
     None
     None
     None
     None
     None
     (Some ''A commonly used specification extension containing the information about the API logo.'')
     (Some ''https://redocly.com/docs-legacy/api-reference-docs/specification-extensions/x-logo#x-logo'')\<close>

definition Part000_Contact :: "node_type" where
  \<open>Part000_Contact = NodeType
     [(''name'', Static (PScalar [(''type'', JStr ''string''), (''description'', JStr ''The identifying name of the contact person or organization.'')])),
      (''url'', Static (PScalar [(''type'', JStr ''string''), (''description'', JStr ''The URL pointing to the contact information.'')])),
      (''email'', Static (PScalar [(''type'', JStr ''string''), (''description'', JStr ''The email address of the contact person or organization.'')]))]
     None
     None
     None
     None
     None
     (Some ''x-'')
     (Some ''The contact information for the exposed API.'')
     (Some ''https://redocly.com/learn/openapi/openapi-visual-reference/contact'')\<close>

definition Part000_License :: "node_type" where
  \<open>Part000_License = NodeType
     [(''name'', Static (PScalar [(''type'', JStr ''string''), (''description'', JStr ''REQUIRED. The license name used for the API.'')])),
      (''url'', Static (PScalar [(''type'', JStr ''string''), (''description'', JStr ''The URL pointing to the contact information.'')]))]
     None
     None
     (Some (RequiredList [''name'']))
     None
     None
     (Some ''x-'')
     (Some ''The license information for the exposed API.'')
     (Some ''https://redocly.com/learn/openapi/openapi-visual-reference/license#license'')\<close>

text \<open>\<^verbatim>\<open>Paths.additionalProperties\<close>: \<^verbatim>\<open>(_value: any, key: string) => key.startsWith('/') ? 'PathItem' : undefined\<close>\<close>

definition Part000_Paths_additionalProperties :: "jsval \<Rightarrow> string \<Rightarrow> prop_type option" where
  \<open>Part000_Paths_additionalProperties = (\<lambda>_ key. if startsWith key ''/'' then Some (PRef ''PathItem'') else None)\<close>

definition Part000_Paths :: "node_type" where
  \<open>Part000_Paths = NodeType
     []
     (Some (Resolver Part000_Paths_additionalProperties))
     None
     None
     None
     None
     None
     (Some ''The Paths Object is a map of a paths to the path item object. A path starts with a /.'')
     (Some ''https://redocly.com/learn/openapi/openapi-visual-reference/paths#paths-object'')\<close>

text \<open>\<^verbatim>\<open>WebhooksMap.additionalProperties\<close>: \<^verbatim>\<open>() => 'PathItem'\<close>\<close>

definition Part000_WebhooksMap_additionalProperties :: "jsval \<Rightarrow> string \<Rightarrow> prop_type option" where
  \<open>Part000_WebhooksMap_additionalProperties = (\<lambda>_ _. Some (PRef ''PathItem''))\<close>

definition Part000_WebhooksMap :: "node_type" where
  \<open>Part000_WebhooksMap = NodeType
     []
     (Some (Resolver Part000_WebhooksMap_additionalProperties))
     None
     None
     None
     None
     None
     None
     None\<close>

definition Part000_PathItem :: "node_type" where
  \<open>Part000_PathItem = NodeType
     [(''$ref'', Static (PScalar [(''type'', JStr ''string''), (''description'', JStr ''Allows for a referenced definition of this path item. The referenced structure MUST be in the form of a Path Item Object. In case a Path Item Object field appears both in the defined object and the referenced object, the behavior is undefined. See the rules for resolving Relative References.''), (''documentationLink'', JStr ''https://redocly.com/learn/openapi/openapi-visual-reference/reference'')])),
      (''servers'', Static (PRef ''ServerList'')),
      (''parameters'', Static (PRef ''ParameterList'')),
      (''summary'', Static (PScalar [(''type'', JStr ''string''), (''description'', JStr ''An optional, string summary, intended to apply to all operations in this path.'')])),
      (''description'', Static (PScalar [(''type'', JStr ''string''), (''description'', JStr ''An optional, string description, intended to apply to all operations in this path.'')])),
      (''get'', Static (PRef ''Operation'')),
      (''put'', Static (PRef ''Operation'')),
      (''post'', Static (PRef ''Operation'')),
      (''delete'', Static (PRef ''Operation'')),
      (''options'', Static (PRef ''Operation'')),
      (''head'', Static (PRef ''Operation'')),
      (''patch'', Static (PRef ''Operation'')),
      (''trace'', Static (PRef ''Operation''))]
     None
     None
     None
     None
     None
     (Some ''x-'')
     (Some ''Describes the operations available on a single path. A Path Item MAY be empty, due to ACL constraints. The path itself is still exposed to the documentation viewer but they will not know which operations and parameters are available.'')
     (Some ''https://redocly.com/learn/openapi/openapi-visual-reference/path-item#path-item-object'')\<close>

definition Part000_Parameter :: "node_type" where
  \<open>Part000_Parameter = NodeType
     [(''name'', Static (PScalar [(''type'', JStr ''string''), (''description'', JStr ''REQUIRED. The name of the parameter. Parameter names are case sensitive.'')])),
      (''in'', Static (PScalar [(''enum'', JArr [JStr ''query'', JStr ''header'', JStr ''path'', JStr ''cookie'']), (''description'', JStr ''REQUIRED. The location of the parameter. Possible values are "query", "header", "path", or "cookie".'')])),
      (''description'', Static (PScalar [(''type'', JStr ''string''), (''description'', JStr ''A brief description of the parameter. This could contain examples of use.'')])),
      (''required'', Static (PScalar [(''type'', JStr ''boolean''), (''description'', JStr ''Determines whether this parameter is mandatory. If the parameter location is "path", this property is REQUIRED and its value MUST be true. Otherwise, the property MAY be included and its default value is false.'')])),
      (''deprecated'', Static (PScalar [(''type'', JStr ''boolean''), (''description'', JStr ''Specifies that a parameter is deprecated and SHOULD be transitioned out of usage. Default value is false.'')])),
      (''allowEmptyValue'', Static (PScalar [(''type'', JStr ''boolean''), (''description'', JStr ''Sets the ability to pass empty-valued parameters. This is valid only for query parameters and allows sending a parameter with an empty value. Default value is false. If style is used, and if behavior is n/a (cannot be serialized), the value of allowEmptyValue SHALL be ignored. Use of this property is NOT RECOMMENDED, as it is likely to be removed in a later revision.'')])),
      (''style'', Static (PScalar [(''enum'', JArr [JStr ''form'', JStr ''simple'', JStr ''label'', JStr ''matrix'', JStr ''spaceDelimited'', JStr ''pipeDelimited'', JStr ''deepObject'']), (''description'', JStr ''Describes how the parameter value will be serialized depending on the type of the parameter value. Default values (based on value of in): for query - form; for path - simple; for header - simple; for cookie - form.'')])),
      (''explode'', Static (PScalar [(''type'', JStr ''boolean''), (''description'', JStr ''When this is true, parameter values of type array or object generate separate parameters for each value of the array or key-value pair of the map. For other types of parameters this property has no effect. When style is form, the default value is true. For all other styles, the default value is false.'')])),
      (''allowReserved'', Static (PScalar [(''type'', JStr ''boolean''), (''description'', JStr ''Determines whether the parameter value SHOULD allow reserved characters, as defined by RFC3986 :/?#[]@!$&\'()*+,;= to be included without percent-encoding. This property only applies to parameters with an in value of query. The default value is false.'')])),
      (''schema'', Static (PRef ''Schema'')),
      (''example'', Static (PScalar [(''isExample'', JBool True)])),
      (''examples'', Static (PRef ''ExamplesMap'')),
      (''content'', Static (PRef ''MediaTypesMap''))]
     None
     None
     (Some (RequiredList [''name'', ''in'']))
     (Some [''schema'', ''content''])
     None
     (Some ''x-'')
     (Some ''Describes a request parameter, which excludes the request body. A unique parameter is defined by a unique combination of the name and in values.'')
     (Some ''https://redocly.com/learn/openapi/openapi-visual-reference/parameter'')\<close>

definition Part000_Operation :: "node_type" where
  \<open>Part000_Operation = NodeType
     [(''tags'', Static (PScalar [(''type'', JStr ''array''), (''items'', JObj [(''type'', JStr ''string'')]), (''description'', JStr ''A list of tags for API documentation control. Tags can be used for logical grouping of operations by resources or any other qualifier.'')])),
      (''summary'', Static (PScalar [(''type'', JStr ''string''), (''description'', JStr ''A short summary of what the operation does.''), (''documentationLink'', JStr ''https://redocly.com/learn/openapi/openapi-visual-reference/operation#summary'')])),
      (''description'', Static (PScalar [(''type'', JStr ''string''), (''description'', JStr ''A verbose explanation of the operation behavior.''), (''documentationLink'', JStr ''https://redocly.com/learn/openapi/openapi-visual-reference/operation#description'')])),
      (''externalDocs'', Static (PRef ''ExternalDocs'')),
      (''operationId'', Static (PScalar [(''type'', JStr ''string''), (''description'', JStr ''The operationId is path segment or path fragment in deep links to a specific operation.''), (''documentationLink'', JStr ''https://redocly.com/learn/openapi/openapi-visual-reference/operation#operationid'')])),
      (''parameters'', Static (PRef ''ParameterList'')),
      (''security'', Static (PRef ''SecurityRequirementList'')),
      (''servers'', Static (PRef ''ServerList'')),
      (''requestBody'', Static (PRef ''RequestBody'')),
      (''responses'', Static (PRef ''Responses'')),
      (''deprecated'', Static (PScalar [(''type'', JStr ''boolean'')])),
      (''callbacks'', Static (PRef ''CallbacksMap'')),
      (''x-codeSamples'', Static (PRef ''XCodeSampleList'')),
      (''x-code-samples'', Static (PRef ''XCodeSampleList'')),
      (''x-hideTryItPanel'', Static (PScalar [(''type'', JStr ''boolean'')]))]
     None
     None
     (Some (RequiredList [''responses'']))
     None
     None
     (Some ''x-'')
     (Some ''The Operation Object describes a single API operation on a path, including its parameters, responses, and request body (if applicable). Each path can support more than one operation, but those operations must be unique. A unique operation is a combination of a path and an HTTP method, so two GET or two POST methods for the same path are not allowed.'')
     (Some ''https://redocly.com/learn/openapi/openapi-visual-reference/operation'')\<close>

definition Part000_XCodeSample :: "node_type" where
  \<open>Part000_XCodeSample = NodeType
     [(''lang'', Static (PScalar [(''type'', JStr ''string'')])),
      (''label'', Static (PScalar [(''type'', JStr ''string'')])),
      (''source'', Static (PScalar [(''type'', JStr ''string'')]))]
     None
     None
     None
     None
     None
     None
     None
     None\<close>

definition Part000_RequestBody :: "node_type" where
  \<open>Part000_RequestBody = NodeType
     [(''description'', Static (PScalar [(''type'', JStr ''string''), (''description'', JStr ''A brief description of the request body. This could contain examples of use.'')])),
      (''required'', Static (PScalar [(''type'', JStr ''boolean''), (''description'', JStr ''Determines if the request body is required in the request. Defaults to false.'')])),
      (''content'', Static (PRef ''MediaTypesMap''))]
     None
     None
     (Some (RequiredList [''content'']))
     None
     None
     (Some ''x-'')
     (Some ''The request body is defined inside of operations (including paths and webhooks). The request body can also be defined inside of the named requestBodies object in components.'')
     (Some ''https://redocly.com/learn/openapi/openapi-visual-reference/request-body'')\<close>

definition Part000_MediaTypesMap :: "node_type" where
  \<open>Part000_MediaTypesMap = NodeType
     []
     (Some (Static (PRef ''MediaType'')))
     None
     None
     None
     None
     None
     None
     None\<close>

definition Part000_MediaType :: "node_type" where
  \<open>Part000_MediaType = NodeType
     [(''schema'', Static (PRef ''Schema'')),
      (''example'', Static (PScalar [(''isExample'', JBool True)])),
      (''examples'', Static (PRef ''ExamplesMap'')),
      (''encoding'', Static (PRef ''EncodingMap''))]
     None
     None
     None
     None
     None
     (Some ''x-'')
     (Some ''The Media Type Object is one of the important building blocks of OpenAPI.'')
     (Some ''https://redocly.com/learn/openapi/openapi-visual-reference/media-type'')\<close>

definition Part000_Example :: "node_type" where
  \<open>Part000_Example = NodeType
     [(''value'', Static (PScalar [(''resolvable'', JBool False)])),
      (''summary'', Static (PScalar [(''type'', JStr ''string'')])),
      (''description'', Static (PScalar [(''type'', JStr ''string'')])),
      (''externalValue'', Static (PScalar [(''type'', JStr ''string'')]))]
     None
     None
     None
     None
     None
     (Some ''x-'')
     (Some ''Example of the media type. The example object SHOULD be in the correct format as specified by the media type. The example field is mutually exclusive of the examples field. Furthermore, if referencing a schema which contains an example, the example value SHALL override the example provided by the schema.'')
     (Some ''https://redocly.com/learn/openapi/openapi-visual-reference/example'')\<close>

definition Part000_Encoding :: "node_type" where
  \<open>Part000_Encoding = NodeType
     [(''contentType'', Static (PScalar [(''type'', JStr ''string'')])),
      (''headers'', Static (PRef ''HeadersMap'')),
      (''style'', Static (PScalar [(''enum'', JArr [JStr ''form'', JStr ''simple'', JStr ''label'', JStr ''matrix'', JStr ''spaceDelimited'', JStr ''pipeDelimited'', JStr ''deepObject''])])),
      (''explode'', Static (PScalar [(''type'', JStr ''boolean'')])),
      (''allowReserved'', Static (PScalar [(''type'', JStr ''boolean'')]))]
     None
     None
     None
     None
     None
     (Some ''x-'')
     None
     None\<close>

definition Part000_EnumDescriptions :: "node_type" where
  \<open>Part000_EnumDescriptions = NodeType
     []
     (Some (Static (PScalar [(''type'', JStr ''string'')])))
     None
     None
     None
     None
     None
     None
     None\<close>

definition Part000_Header :: "node_type" where
  \<open>Part000_Header = NodeType
     [(''description'', Static (PScalar [(''type'', JStr ''string'')])),
      (''required'', Static (PScalar [(''type'', JStr ''boolean'')])),
      (''deprecated'', Static (PScalar [(''type'', JStr ''boolean'')])),
      (''allowEmptyValue'', Static (PScalar [(''type'', JStr ''boolean'')])),
      (''style'', Static (PScalar [(''enum'', JArr [JStr ''form'', JStr ''simple'', JStr ''label'', JStr ''matrix'', JStr ''spaceDelimited'', JStr ''pipeDelimited'', JStr ''deepObject''])])),
      (''explode'', Static (PScalar [(''type'', JStr ''boolean'')])),
      (''allowReserved'', Static (PScalar [(''type'', JStr ''boolean'')])),
      (''schema'', Static (PRef ''Schema'')),
      (''example'', Static (PScalar [(''isExample'', JBool True)])),
      (''examples'', Static (PRef ''ExamplesMap'')),
      (''content'', Static (PRef ''MediaTypesMap''))]
     None
     None
     None
     (Some [''schema'', ''content''])
     None
     (Some ''x-'')
     None
     None\<close>

text \<open>\<^verbatim>\<open>Responses.additionalProperties\<close>: \<^verbatim>\<open>(_v: any, key: string) => responseCodeRegexp.test(key) ? 'Response' : undefined\<close>\<close>

definition Part000_Responses_additionalProperties :: "jsval \<Rightarrow> string \<Rightarrow> prop_type option" where
  \<open>Part000_Responses_additionalProperties = (\<lambda>_ key. if regexp_test Part000_responseCodeRegexp key then Some (PRef ''Response'') else None)\<close>

definition Part000_Responses :: "node_type" where
  \<open>Part000_Responses = NodeType
     [(''default'', Static (PRef ''Response''))]
     (Some (Resolver Part000_Responses_additionalProperties))
     None
     None
     None
     None
     None
     (Some ''The list of possible responses as they are returned from executing this operation.'')
     None\<close>

definition Part000_Response :: "node_type" where
  \<open>Part000_Response = NodeType
     [(''description'', Static (PScalar [(''type'', JStr ''string'')])),
      (''headers'', Static (PRef ''HeadersMap'')),
      (''content'', Static (PRef ''MediaTypesMap'')),
      (''links'', Static (PRef ''LinksMap'')),
      (''x-summary'', Static (PScalar [(''type'', JStr ''string'')]))]
     None
     None
     (Some (RequiredList [''description'']))
     None
     None
     (Some ''x-'')
     None
     None\<close>

definition Part000_Link :: "node_type" where
  \<open>Part000_Link = NodeType
     [(''operationRef'', Static (PScalar [(''type'', JStr ''string'')])),
      (''operationId'', Static (PScalar [(''type'', JStr ''string'')])),
      (''parameters'', Static PNull),
      (''requestBody'', Static PNull),
      (''description'', Static (PScalar [(''type'', JStr ''string'')])),
      (''server'', Static (PRef ''Server''))]
     None
     None
     None
     None
     None
     (Some ''x-'')
     None
     None\<close>

text \<open>\<^verbatim>\<open>Schema.properties['items']\<close>: \<^verbatim>\<open>(value: any) => { if (Array.isArray(value)) { return listOf('Schema'); } else { return 'Schema'; } }\<close>\<close>

definition Part000_Schema_properties_items :: "jsval \<Rightarrow> string \<Rightarrow> prop_type option" where
  \<open>Part000_Schema_properties_items = (\<lambda>v _. if isArray v then Some (PNode (listOf ''Schema'' None)) else Some (PRef ''Schema''))\<close>

text \<open>\<^verbatim>\<open>Schema.properties['additionalProperties']\<close>: \<^verbatim>\<open>(value: any) => { if (typeof value === 'boolean') { return { type: 'boolean' }; } else { return 'Schema'; } }\<close>\<close>

definition Part000_Schema_properties_additionalProperties :: "jsval \<Rightarrow> string \<Rightarrow> prop_type option" where
  \<open>Part000_Schema_properties_additionalProperties = (\<lambda>v _. if typeof_boolean v then Some (PScalar [(''type'', JStr ''boolean'')]) else Some (PRef ''Schema''))\<close>

definition Part000_Schema :: "node_type" where
  \<open>Part000_Schema = NodeType
     [(''externalDocs'', Static (PRef ''ExternalDocs'')),
      (''discriminator'', Static (PRef ''Discriminator'')),
      (''title'', Static (PScalar [(''type'', JStr ''string'')])),
      (''multipleOf'', Static (PScalar [(''type'', JStr ''number''), (''minimum'', JNum 0)])),
      (''maximum'', Static (PScalar [(''type'', JStr ''number'')])),
      (''minimum'', Static (PScalar [(''type'', JStr ''number'')])),
      (''exclusiveMaximum'', Static (PScalar [(''type'', JStr ''boolean'')])),
      (''exclusiveMinimum'', Static (PScalar [(''type'', JStr ''boolean'')])),
      (''maxLength'', Static (PScalar [(''type'', JStr ''integer''), (''minimum'', JNum 0)])),
      (''minLength'', Static (PScalar [(''type'', JStr ''integer''), (''minimum'', JNum 0)])),
      (''pattern'', Static (PScalar [(''type'', JStr ''string'')])),
      (''maxItems'', Static (PScalar [(''type'', JStr ''integer''), (''minimum'', JNum 0)])),
      (''minItems'', Static (PScalar [(''type'', JStr ''integer''), (''minimum'', JNum 0)])),
      (''uniqueItems'', Static (PScalar [(''type'', JStr ''boolean'')])),
      (''maxProperties'', Static (PScalar [(''type'', JStr ''integer''), (''minimum'', JNum 0)])),
      (''minProperties'', Static (PScalar [(''type'', JStr ''integer''), (''minimum'', JNum 0)])),
      (''required'', Static (PScalar [(''type'', JStr ''array''), (''items'', JObj [(''type'', JStr ''string'')])])),
      (''enum'', Static (PScalar [(''type'', JStr ''array'')])),
      (''type'', Static (PScalar [(''enum'', JArr [JStr ''object'', JStr ''array'', JStr ''string'', JStr ''number'', JStr ''integer'', JStr ''boolean''])])),
      (''allOf'', Static (PNode (listOf ''Schema'' None))),
      (''anyOf'', Static (PNode (listOf ''Schema'' None))),
      (''oneOf'', Static (PNode (listOf ''Schema'' None))),
      (''not'', Static (PRef ''Schema'')),
      (''properties'', Static (PRef ''SchemaProperties'')),
      (''items'', Resolver Part000_Schema_properties_items),
      (''additionalProperties'', Resolver Part000_Schema_properties_additionalProperties),
      (''description'', Static (PScalar [(''type'', JStr ''string'')])),
      (''format'', Static (PScalar [(''type'', JStr ''string'')])),
      (''default'', Static PNull),
      (''nullable'', Static (PScalar [(''type'', JStr ''boolean'')])),
      (''readOnly'', Static (PScalar [(''type'', JStr ''boolean'')])),
      (''writeOnly'', Static (PScalar [(''type'', JStr ''boolean'')])),
      (''xml'', Static (PRef ''Xml'')),
      (''example'', Static (PScalar [(''isExample'', JBool True)])),
      (''deprecated'', Static (PScalar [(''type'', JStr ''boolean'')])),
      (''x-tags'', Static (PScalar [(''type'', JStr ''array''), (''items'', JObj [(''type'', JStr ''string'')])])),
      (''x-additionalPropertiesName'', Static (PScalar [(''type'', JStr ''string'')])),
      (''x-explicitMappingOnly'', Static (PScalar [(''type'', JStr ''boolean'')]))]
     None
     None
     None
     None
     None
     (Some ''x-'')
     (Some ''The schema defining the content of the request, response, or parameter.'')
     (Some ''https://redocly.com/learn/openapi/openapi-visual-reference/schemas'')\<close>

definition Part000_Xml :: "node_type" where
  \<open>Part000_Xml = NodeType
     [(''name'', Static (PScalar [(''type'', JStr ''string'')])),
      (''namespace'', Static (PScalar [(''type'', JStr ''string'')])),
      (''prefix'', Static (PScalar [(''type'', JStr ''string'')])),
      (''attribute'', Static (PScalar [(''type'', JStr ''boolean'')])),
      (''wrapped'', Static (PScalar [(''type'', JStr ''boolean'')]))]
     None
     None
     None
     None
     None
     (Some ''x-'')
     None
     None\<close>

definition Part000_SchemaProperties :: "node_type" where
  \<open>Part000_SchemaProperties = NodeType
     []
     (Some (Static (PRef ''Schema'')))
     None
     None
     None
     None
     None
     None
     None\<close>

text \<open>\<^verbatim>\<open>DiscriminatorMapping.additionalProperties\<close>: \<^verbatim>\<open>(value: any) => { if (isMappingRef(value)) { return { type: 'string', directResolveAs: 'Schema' }; } else { return { type: 'string' }; } }\<close>\<close>

definition Part000_DiscriminatorMapping_additionalProperties :: "(jsval \<Rightarrow> bool) \<Rightarrow> jsval \<Rightarrow> string \<Rightarrow> prop_type option" where
  \<open>Part000_DiscriminatorMapping_additionalProperties isMappingRef = (\<lambda>v _. if isMappingRef v then Some (PScalar [(''type'', JStr ''string''), (''directResolveAs'', JStr ''Schema'')]) else Some (PScalar [(''type'', JStr ''string'')]))\<close>

definition Part000_DiscriminatorMapping :: "(jsval \<Rightarrow> bool) \<Rightarrow> node_type" where
  \<open>Part000_DiscriminatorMapping isMappingRef = NodeType
     []
     (Some (Resolver (Part000_DiscriminatorMapping_additionalProperties isMappingRef)))
     None
     None
     None
     None
     None
     None
     None\<close>

definition Part000_Discriminator :: "node_type" where
  \<open>Part000_Discriminator = NodeType
     [(''propertyName'', Static (PScalar [(''type'', JStr ''string'')])),
      (''mapping'', Static (PRef ''DiscriminatorMapping''))]
     None
     None
     (Some (RequiredList [''propertyName'']))
     None
     None
     (Some ''x-'')
     None
     None\<close>

definition Part000_Components :: "node_type" where
  \<open>Part000_Components = NodeType
     [(''parameters'', Static (PRef ''NamedParameters'')),
      (''schemas'', Static (PRef ''NamedSchemas'')),
      (''responses'', Static (PRef ''NamedResponses'')),
      (''examples'', Static (PRef ''NamedExamples'')),
      (''requestBodies'', Static (PRef ''NamedRequestBodies'')),
      (''headers'', Static (PRef ''NamedHeaders'')),
      (''securitySchemes'', Static (PRef ''NamedSecuritySchemes'')),
      (''links'', Static (PRef ''NamedLinks'')),
      (''callbacks'', Static (PRef ''NamedCallbacks''))]
     None
     None
     None
     None
     None
     (Some ''x-'')
     None
     None\<close>

definition Part000_ImplicitFlow :: "node_type" where
  \<open>Part000_ImplicitFlow = NodeType
     [(''refreshUrl'', Static (PScalar [(''type'', JStr ''string'')])),
      (''scopes'', Static (PScalar [(''type'', JStr ''object''), (''additionalProperties'', JObj [(''type'', JStr ''string'')])])),
      (''authorizationUrl'', Static (PScalar [(''type'', JStr ''string'')]))]
     None
     None
     (Some (RequiredList [''authorizationUrl'', ''scopes'']))
     None
     None
     (Some ''x-'')
     None
     None\<close>

definition Part000_PasswordFlow :: "node_type" where
  \<open>Part000_PasswordFlow = NodeType
     [(''refreshUrl'', Static (PScalar [(''type'', JStr ''string'')])),
      (''scopes'', Static (PScalar [(''type'', JStr ''object''), (''additionalProperties'', JObj [(''type'', JStr ''string'')])])),
      (''tokenUrl'', Static (PScalar [(''type'', JStr ''string'')]))]
     None
     None
     (Some (RequiredList [''tokenUrl'', ''scopes'']))
     None
     None
     (Some ''x-'')
     None
     None\<close>

definition Part000_ClientCredentials :: "node_type" where
  \<open>Part000_ClientCredentials = NodeType
     [(''refreshUrl'', Static (PScalar [(''type'', JStr ''string'')])),
      (''scopes'', Static (PScalar [(''type'', JStr ''object''), (''additionalProperties'', JObj [(''type'', JStr ''string'')])])),
      (''tokenUrl'', Static (PScalar [(''type'', JStr ''string'')]))]
     None
     None
     (Some (RequiredList [''tokenUrl'', ''scopes'']))
     None
     None
     (Some ''x-'')
     None
     None\<close>

text \<open>\<^verbatim>\<open>AuthorizationCode.properties['x-usePkce']\<close>: \<^verbatim>\<open>(value: any) => { if (typeof value === 'boolean') { return { type: 'boolean' }; } else { return 'XUsePkce'; } }\<close>\<close>

definition Part000_AuthorizationCode_properties_x_usePkce :: "jsval \<Rightarrow> string \<Rightarrow> prop_type option" where
  \<open>Part000_AuthorizationCode_properties_x_usePkce = (\<lambda>v _. if typeof_boolean v then Some (PScalar [(''type'', JStr ''boolean'')]) else Some (PRef ''XUsePkce''))\<close>

definition Part000_AuthorizationCode :: "node_type" where
  \<open>Part000_AuthorizationCode = NodeType
     [(''refreshUrl'', Static (PScalar [(''type'', JStr ''string'')])),
      (''authorizationUrl'', Static (PScalar [(''type'', JStr ''string'')])),
      (''scopes'', Static (PScalar [(''type'', JStr ''object''), (''additionalProperties'', JObj [(''type'', JStr ''string'')])])),
      (''tokenUrl'', Static (PScalar [(''type'', JStr ''string'')])),
      (''x-usePkce'', Resolver Part000_AuthorizationCode_properties_x_usePkce)]
     None
     None
     (Some (RequiredList [''authorizationUrl'', ''tokenUrl'', ''scopes'']))
     None
     None
     (Some ''x-'')
     None
     None\<close>

definition Part000_OAuth2Flows :: "node_type" where
  \<open>Part000_OAuth2Flows = NodeType
     [(''implicit'', Static (PRef ''ImplicitFlow'')),
      (''password'', Static (PRef ''PasswordFlow'')),
      (''clientCredentials'', Static (PRef ''ClientCredentials'')),
      (''authorizationCode'', Static (PRef ''AuthorizationCode''))]
     None
     None
     None
     None
     None
     (Some ''x-'')
     None
     None\<close>

text \<open>\<^verbatim>\<open>SecurityScheme.required\<close>: \<^verbatim>\<open>required(value) { switch (value?.type) { case 'apiKey': return ['type', 'name', 'in']; case 'http': return ['type', 'scheme']; case 'oauth2': return ['type', 'flows']; case 'openIdConnect': return ['type', 'openIdConnectUrl']; default: return ['type']; } }\<close>\<close>

definition Part000_SecurityScheme_required :: "jsval \<Rightarrow> string list" where
  \<open>Part000_SecurityScheme_required = (\<lambda>v. if opt_type v = JStr ''apiKey'' then [''type'', ''name'', ''in'']
      else if opt_type v = JStr ''http'' then [''type'', ''scheme'']
      else if opt_type v = JStr ''oauth2'' then [''type'', ''flows'']
      else if opt_type v = JStr ''openIdConnect'' then [''type'', ''openIdConnectUrl'']
      else [''type''])\<close>

text \<open>\<^verbatim>\<open>SecurityScheme.allowed\<close>: \<^verbatim>\<open>allowed(value) { switch (value?.type) { case 'apiKey': return ['type', 'name', 'in', 'description']; case 'http': return ['type', 'scheme', 'bearerFormat', 'description']; case 'oauth2': return ['type', 'flows', 'description']; case 'openIdConnect': return ['type', 'openIdConnectUrl', 'description']; default: return ['type', 'description']; } }\<close>\<close>

definition Part000_SecurityScheme_allowed :: "jsval \<Rightarrow> string list" where
  \<open>Part000_SecurityScheme_allowed = (\<lambda>v. if opt_type v = JStr ''apiKey'' then [''type'', ''name'', ''in'', ''description'']
      else if opt_type v = JStr ''http'' then [''type'', ''scheme'', ''bearerFormat'', ''description'']
      else if opt_type v = JStr ''oauth2'' then [''type'', ''flows'', ''description'']
      else if opt_type v = JStr ''openIdConnect'' then [''type'', ''openIdConnectUrl'', ''description'']
      else [''type'', ''description''])\<close>

definition Part000_SecurityScheme :: "node_type" where
  \<open>Part000_SecurityScheme = NodeType
     [(''type'', Static (PScalar [(''enum'', JArr [JStr ''apiKey'', JStr ''http'', JStr ''oauth2'', JStr ''openIdConnect''])])),
      (''description'', Static (PScalar [(''type'', JStr ''string'')])),
      (''name'', Static (PScalar [(''type'', JStr ''string'')])),
      (''in'', Static (PScalar [(''type'', JStr ''string''), (''enum'', JArr [JStr ''query'', JStr ''header'', JStr ''cookie''])])),
      (''scheme'', Static (PScalar [(''type'', JStr ''string'')])),
      (''bearerFormat'', Static (PScalar [(''type'', JStr ''string'')])),
      (''flows'', Static (PRef ''OAuth2Flows'')),
      (''openIdConnectUrl'', Static (PScalar [(''type'', JStr ''string'')])),
      (''x-defaultClientId'', Static (PScalar [(''type'', JStr ''string'')]))]
     None
     None
     (Some (RequiredFn Part000_SecurityScheme_required))
     None
     (Some Part000_SecurityScheme_allowed)
     (Some ''x-'')
     None
     None\<close>

definition Part000_XUsePkce :: "node_type" where
  \<open>Part000_XUsePkce = NodeType
     [(''disableManualConfiguration'', Static (PScalar [(''type'', JStr ''boolean'')])),
      (''hideClientSecretInput'', Static (PScalar [(''type'', JStr ''boolean'')]))]
     None
     None
     None
     None
     None
     None
     None
     None\<close>

definition Part000_Oas3Types :: "(jsval \<Rightarrow> bool) \<Rightarrow> (string \<times> node_type) list" where
  \<open>Part000_Oas3Types isMappingRef =
    [(''Root'', Part000_Root),
     (''Tag'', Part000_Tag),
     (''TagList'', listOf ''Tag'' (Some \<lparr>ov_description = (Some ''A list of tags used by the document with additional metadata. The order of the tags can be used to reflect on their order by the parsing tools. Not all tags that are used by the Operation Object must be declared. The tags that are not declared MAY be organized randomly or based on the tools\' logic. Each tag name in the list MUST be unique.''), ov_documentationLink = (Some ''https://redocly.com/learn/openapi/openapi-visual-reference/tags'')\<rparr>)),
     (''TagGroups'', listOf ''TagGroup'' None),
     (''TagGroup'', Part000_TagGroup),
     (''ExternalDocs'', Part000_ExternalDocs),
     (''Server'', Part000_Server),
     (''ServerList'', listOf ''Server'' (Some \<lparr>ov_description = (Some ''A list of servers available to the API.''), ov_documentationLink = (Some ''https://redocly.com/learn/openapi/openapi-visual-reference/servers#servers'')\<rparr>)),
     (''ServerVariable'', Part000_ServerVariable),
     (''ServerVariablesMap'', mapOf ''ServerVariable'' (Some \<lparr>ov_description = (Some ''A map between a variable name and its value. The value is used for substitution in the server\'s URL template.''), ov_documentationLink = None\<rparr>)),
     (''SecurityRequirement'', Part000_SecurityRequirement),
     (''SecurityRequirementList'', listOf ''SecurityRequirement'' None),
     (''Info'', Part000_Info),
     (''Contact'', Part000_Contact),
     (''License'', Part000_License),
     (''Paths'', Part000_Paths),
     (''PathItem'', Part000_PathItem),
     (''Parameter'', Part000_Parameter),
     (''ParameterList'', listOf ''Parameter'' (Some \<lparr>ov_description = (Some (''A list of parameters that are applicable for this operation. If a parameter is already defined at the Path Item, the new definition will override it but can never remove it. The list MUST NOT include duplicated parameters. A unique parameter is defined by a combination of a name and location. The list can use the Reference Object to link to parameters that are defined at the OpenAPI Object'' @ [CHR 0xC3, CHR 0xA2, CHR 0xE2, CHR 0x82, CHR 0xAC, CHR 0xE2, CHR 0x84, CHR 0xA2] @ ''s components/parameters.'')), ov_documentationLink = None\<rparr>)),
     (''Operation'', Part000_Operation),
     (''Callback'', mapOf ''PathItem'' None),
     (''CallbacksMap'', mapOf ''Callback'' None),
     (''RequestBody'', Part000_RequestBody),
     (''MediaTypesMap'', Part000_MediaTypesMap),
     (''MediaType'', Part000_MediaType),
     (''Example'', Part000_Example),
     (''ExamplesMap'', mapOf ''Example'' None),
     (''Encoding'', Part000_Encoding),
     (''EncodingMap'', mapOf ''Encoding'' None),
     (''EnumDescriptions'', Part000_EnumDescriptions),
     (''Header'', Part000_Header),
     (''HeadersMap'', mapOf ''Header'' None),
     (''Responses'', Part000_Responses),
     (''Response'', Part000_Response),
     (''Link'', Part000_Link),
     (''Logo'', Part000_Logo),
     (''Schema'', Part000_Schema),
     (''Xml'', Part000_Xml),
     (''SchemaProperties'', Part000_SchemaProperties),
     (''DiscriminatorMapping'', Part000_DiscriminatorMapping isMappingRef),
     (''Discriminator'', Part000_Discriminator),
     (''Components'', Part000_Components),
     (''LinksMap'', mapOf ''Link'' None),
     (''NamedSchemas'', mapOf ''Schema'' None),
     (''NamedResponses'', mapOf ''Response'' None),
     (''NamedParameters'', mapOf ''Parameter'' None),
     (''NamedExamples'', mapOf ''Example'' None),
     (''NamedRequestBodies'', mapOf ''RequestBody'' None),
     (''NamedHeaders'', mapOf ''Header'' None),
     (''NamedSecuritySchemes'', mapOf ''SecurityScheme'' None),
     (''NamedLinks'', mapOf ''Link'' None),
     (''NamedCallbacks'', mapOf ''Callback'' None),
     (''ImplicitFlow'', Part000_ImplicitFlow),
     (''PasswordFlow'', Part000_PasswordFlow),
     (''ClientCredentials'', Part000_ClientCredentials),
     (''AuthorizationCode'', Part000_AuthorizationCode),
     (''OAuth2Flows'', Part000_OAuth2Flows),
     (''SecurityScheme'', Part000_SecurityScheme),
     (''XCodeSample'', Part000_XCodeSample),
     (''XCodeSampleList'', listOf ''XCodeSample'' None),
     (''XUsePkce'', Part000_XUsePkce),
     (''WebhooksMap'', Part000_WebhooksMap)]\<close>

subsection \<open>The bindings and security scheme of packages/core/src/types/asyncapi2.ts\<close>

text \<open>\<^verbatim>\<open>ChannelBindings.allowed\<close>: \<^verbatim>\<open>allowed() { return [ 'http', 'ws', 'kafka', 'anypointmq', 'amqp', 'amqp1', 'mqtt', 'mqtt5', 'nats', 'jms', 'sns', 'solace', 'sqs', 'stomp', 'redis', 'mercure', 'ibmmq', 'googlepubsub', 'pulsar', ]; }\<close>\<close>

definition Async2_ChannelBindings_allowed :: "jsval \<Rightarrow> string list" where
  \<open>Async2_ChannelBindings_allowed = (\<lambda>_. [''http'', ''ws'', ''kafka'', ''anypointmq'', ''amqp'', ''amqp1'', ''mqtt'', ''mqtt5'', ''nats'', ''jms'', ''sns'', ''solace'', ''sqs'', ''stomp'', ''redis'', ''mercure'', ''ibmmq'', ''googlepubsub'', ''pulsar''])\<close>

definition Async2_ChannelBindings_literal :: "node_type" where
  \<open>Async2_ChannelBindings_literal = NodeType
     []
     (Some (Static (PScalar [(''type'', JStr ''object'')])))
     None
     None
     None
     (Some Async2_ChannelBindings_allowed)
     None
     (Some ''Map describing protocol-specific definitions for a channel.'')
     (Some ''https://v2.asyncapi.com/docs/reference/specification/v2.6.0#channelBindingsObject'')\<close>

text \<open>\<^verbatim>\<open>ServerBindings.allowed\<close>: \<^verbatim>\<open>allowed() { return [ 'http', 'ws', 'kafka', 'anypointmq', 'amqp', 'amqp1', 'mqtt', 'mqtt5', 'nats', 'jms', 'sns', 'solace', 'sqs', 'stomp', 'redis', 'mercure', 'ibmmq', 'googlepubsub', 'pulsar', ]; }\<close>\<close>

definition Async2_ServerBindings_allowed :: "jsval \<Rightarrow> string list" where
  \<open>Async2_ServerBindings_allowed = (\<lambda>_. [''http'', ''ws'', ''kafka'', ''anypointmq'', ''amqp'', ''amqp1'', ''mqtt'', ''mqtt5'', ''nats'', ''jms'', ''sns'', ''solace'', ''sqs'', ''stomp'', ''redis'', ''mercure'', ''ibmmq'', ''googlepubsub'', ''pulsar''])\<close>

definition Async2_ServerBindings_literal :: "node_type" where
  \<open>Async2_ServerBindings_literal = NodeType
     []
     (Some (Static (PScalar [(''type'', JStr ''object'')])))
     None
     None
     None
     (Some Async2_ServerBindings_allowed)
     None
     (Some ''Map describing protocol-specific definitions for a server.'')
     (Some ''https://v2.asyncapi.com/docs/reference/specification/v2.6.0#serverBindingsObject'')\<close>

text \<open>\<^verbatim>\<open>MessageBindings.allowed\<close>: \<^verbatim>\<open>allowed() { return [ 'http', 'ws', 'kafka', 'anypointmq', 'amqp', 'amqp1', 'mqtt', 'mqtt5', 'nats', 'jms', 'sns', 'solace', 'sqs', 'stomp', 'redis', 'mercure', 'ibmmq', 'googlepubsub', 'pulsar', ]; }\<close>\<close>

definition Async2_MessageBindings_allowed :: "jsval \<Rightarrow> string list" where
  \<open>Async2_MessageBindings_allowed = (\<lambda>_. [''http'', ''ws'', ''kafka'', ''anypointmq'', ''amqp'', ''amqp1'', ''mqtt'', ''mqtt5'', ''nats'', ''jms'', ''sns'', ''solace'', ''sqs'', ''stomp'', ''redis'', ''mercure'', ''ibmmq'', ''googlepubsub'', ''pulsar''])\<close>

definition Async2_MessageBindings_literal :: "node_type" where
  \<open>Async2_MessageBindings_literal = NodeType
     []
     (Some (Static (PScalar [(''type'', JStr ''object'')])))
     None
     None
     None
     (Some Async2_MessageBindings_allowed)
     None
     None
     None\<close>

text \<open>\<^verbatim>\<open>OperationBindings.allowed\<close>: \<^verbatim>\<open>allowed() { return [ 'http', 'ws', 'kafka', 'anypointmq', 'amqp', 'amqp1', 'mqtt', 'mqtt5', 'nats', 'jms', 'sns', 'solace', 'sqs', 'stomp', 'redis', 'mercure', 'ibmmq', 'googlepubsub', 'pulsar', ]; }\<close>\<close>

definition Async2_OperationBindings_allowed :: "jsval \<Rightarrow> string list" where
  \<open>Async2_OperationBindings_allowed = (\<lambda>_. [''http'', ''ws'', ''kafka'', ''anypointmq'', ''amqp'', ''amqp1'', ''mqtt'', ''mqtt5'', ''nats'', ''jms'', ''sns'', ''solace'', ''sqs'', ''stomp'', ''redis'', ''mercure'', ''ibmmq'', ''googlepubsub'', ''pulsar''])\<close>

definition Async2_OperationBindings_literal :: "node_type" where
  \<open>Async2_OperationBindings_literal = NodeType
     []
     (Some (Static (PScalar [(''type'', JStr ''object'')])))
     None
     None
     None
     (Some Async2_OperationBindings_allowed)
     None
     None
     None\<close>

text \<open>\<^verbatim>\<open>SecurityScheme.required\<close>: \<^verbatim>\<open>required(value) { switch (value?.type) { case 'apiKey': return ['type', 'in']; case 'httpApiKey': return ['type', 'name', 'in']; case 'http': return ['type', 'scheme']; case 'oauth2': return ['type', 'flows']; case 'openIdConnect': return ['type', 'openIdConnectUrl']; default: return ['type']; } }\<close>\<close>

definition Async2_SecurityScheme_required :: "jsval \<Rightarrow> string list" where
  \<open>Async2_SecurityScheme_required = (\<lambda>v. if opt_type v = JStr ''apiKey'' then [''type'', ''in'']
      else if opt_type v = JStr ''httpApiKey'' then [''type'', ''name'', ''in'']
      else if opt_type v = JStr ''http'' then [''type'', ''scheme'']
      else if opt_type v = JStr ''oauth2'' then [''type'', ''flows'']
      else if opt_type v = JStr ''openIdConnect'' then [''type'', ''openIdConnectUrl'']
      else [''type''])\<close>

text \<open>\<^verbatim>\<open>SecurityScheme.allowed\<close>: \<^verbatim>\<open>allowed(value) { switch (value?.type) { case 'apiKey': return ['type', 'in', 'description']; case 'httpApiKey': return ['type', 'name', 'in', 'description']; case 'http': return ['type', 'scheme', 'bearerFormat', 'description']; case 'oauth2': return ['type', 'flows', 'description']; case 'openIdConnect': return ['type', 'openIdConnectUrl', 'description']; default: return ['type', 'description']; } }\<close>\<close>

definition Async2_SecurityScheme_allowed :: "jsval \<Rightarrow> string list" where
  \<open>Async2_SecurityScheme_allowed = (\<lambda>v. if opt_type v = JStr ''apiKey'' then [''type'', ''in'', ''description'']
      else if opt_type v = JStr ''httpApiKey'' then [''type'', ''name'', ''in'', ''description'']
      else if opt_type v = JStr ''http'' then [''type'', ''scheme'', ''bearerFormat'', ''description'']
      else if opt_type v = JStr ''oauth2'' then [''type'', ''flows'', ''description'']
      else if opt_type v = JStr ''openIdConnect'' then [''type'', ''openIdConnectUrl'', ''description'']
      else [''type'', ''description''])\<close>

definition Async2_SecurityScheme :: "node_type" where
  \<open>Async2_SecurityScheme = NodeType
     [(''type'', Static (PScalar [(''enum'', JArr [JStr ''userPassword'', JStr ''apiKey'', JStr ''X509'', JStr ''symmetricEncryption'', JStr ''asymmetricEncryption'', JStr ''httpApiKey'', JStr ''http'', JStr ''oauth2'', JStr ''openIdConnect'', JStr ''plain'', JStr ''scramSha256'', JStr ''scramSha512'', JStr ''gssapi''])])),
      (''description'', Static (PScalar [(''type'', JStr ''string'')])),
      (''name'', Static (PScalar [(''type'', JStr ''string'')])),
      (''in'', Static (PScalar [(''type'', JStr ''string''), (''enum'', JArr [JStr ''query'', JStr ''header'', JStr ''cookie'', JStr ''user'', JStr ''password''])])),
      (''scheme'', Static (PScalar [(''type'', JStr ''string'')])),
      (''bearerFormat'', Static (PScalar [(''type'', JStr ''string'')])),
      (''flows'', Static (PRef ''SecuritySchemeFlows'')),
      (''openIdConnectUrl'', Static (PScalar [(''type'', JStr ''string'')]))]
     None
     None
     (Some (RequiredFn Async2_SecurityScheme_required))
     None
     (Some Async2_SecurityScheme_allowed)
     (Some ''x-'')
     None
     None\<close>

definition Async2_HttpChannelBinding :: "node_type" where
  \<open>Async2_HttpChannelBinding = NodeType
     []
     None
     None
     None
     None
     None
     None
     None
     None\<close>

definition Async2_HttpServerBinding :: "node_type" where
  \<open>Async2_HttpServerBinding = NodeType
     []
     None
     None
     None
     None
     None
     None
     None
     None\<close>

definition Async2_HttpMessageBinding :: "node_type" where
  \<open>Async2_HttpMessageBinding = NodeType
     [(''headers'', Static (PRef ''Schema'')),
      (''bindingVersion'', Static (PScalar [(''type'', JStr ''string'')]))]
     None
     None
     None
     None
     None
     None
     None
     None\<close>

definition Async2_HttpOperationBinding :: "node_type" where
  \<open>Async2_HttpOperationBinding = NodeType
     [(''type'', Static (PScalar [(''type'', JStr ''string'')])),
      (''method'', Static (PScalar [(''type'', JStr ''string''), (''enum'', JArr [JStr ''GET'', JStr ''POST'', JStr ''PUT'', JStr ''PATCH'', JStr ''DELETE'', JStr ''HEAD'', JStr ''OPTIONS'', JStr ''CONNECT'', JStr ''TRACE''])])),
      (''headers'', Static (PRef ''Schema'')),
      (''bindingVersion'', Static (PScalar [(''type'', JStr ''string'')]))]
     None
     None
     None
     None
     None
     None
     None
     None\<close>

definition Async2_WsChannelBinding :: "node_type" where
  \<open>Async2_WsChannelBinding = NodeType
     [(''method'', Static (PScalar [(''type'', JStr ''string'')])),
      (''query'', Static (PRef ''Schema'')),
      (''headers'', Static (PRef ''Schema'')),
      (''bindingVersion'', Static (PScalar [(''type'', JStr ''string'')]))]
     None
     None
     None
     None
     None
     None
     None
     None\<close>

definition Async2_WsServerBinding :: "node_type" where
  \<open>Async2_WsServerBinding = NodeType
     []
     None
     None
     None
     None
     None
     None
     None
     None\<close>

definition Async2_WsMessageBinding :: "node_type" where
  \<open>Async2_WsMessageBinding = NodeType
     []
     None
     None
     None
     None
     None
     None
     None
     None\<close>

definition Async2_WsOperationBinding :: "node_type" where
  \<open>Async2_WsOperationBinding = NodeType
     []
     None
     None
     None
     None
     None
     None
     None
     None\<close>

definition Async2_KafkaTopicConfiguration :: "node_type" where
  \<open>Async2_KafkaTopicConfiguration = NodeType
     [(''cleanup.policy'', Static (PScalar [(''type'', JStr ''array''), (''items'', JObj [(''enum'', JArr [JStr ''delete'', JStr ''compact''])])])),
      (''retention.ms'', Static (PScalar [(''type'', JStr ''integer'')])),
      (''retention.bytes'', Static (PScalar [(''type'', JStr ''integer'')])),
      (''delete.retention.ms'', Static (PScalar [(''type'', JStr ''integer'')])),
      (''max.message.bytes'', Static (PScalar [(''type'', JStr ''integer'')]))]
     None
     None
     None
     None
     None
     None
     None
     None\<close>

definition Async2_KafkaChannelBinding :: "node_type" where
  \<open>Async2_KafkaChannelBinding = NodeType
     [(''topic'', Static (PScalar [(''type'', JStr ''string'')])),
      (''partitions'', Static (PScalar [(''type'', JStr ''integer'')])),
      (''replicas'', Static (PScalar [(''type'', JStr ''integer'')])),
      (''topicConfiguration'', Static (PRef ''KafkaTopicConfiguration'')),
      (''bindingVersion'', Static (PScalar [(''type'', JStr ''string'')]))]
     None
     None
     None
     None
     None
     None
     None
     None\<close>

definition Async2_KafkaServerBinding :: "node_type" where
  \<open>Async2_KafkaServerBinding = NodeType
     []
     None
     None
     None
     None
     None
     None
     None
     None\<close>

definition Async2_KafkaMessageBinding :: "node_type" where
  \<open>Async2_KafkaMessageBinding = NodeType
     [(''key'', Static (PRef ''Schema'')),
      (''schemaIdLocation'', Static (PScalar [(''type'', JStr ''string'')])),
      (''schemaIdPayloadEncoding'', Static (PScalar [(''type'', JStr ''string'')])),
      (''schemaLookupStrategy'', Static (PScalar [(''type'', JStr ''string'')])),
      (''bindingVersion'', Static (PScalar [(''type'', JStr ''string'')]))]
     None
     None
     None
     None
     None
     None
     None
     None\<close>

definition Async2_KafkaOperationBinding :: "node_type" where
  \<open>Async2_KafkaOperationBinding = NodeType
     [(''groupId'', Static (PRef ''Schema'')),
      (''clientId'', Static (PRef ''Schema'')),
      (''bindingVersion'', Static (PScalar [(''type'', JStr ''string'')]))]
     None
     None
     None
     None
     None
     None
     None
     None\<close>

definition Async2_AnypointmqChannelBinding :: "node_type" where
  \<open>Async2_AnypointmqChannelBinding = NodeType
     [(''destination'', Static (PScalar [(''type'', JStr ''string'')])),
      (''destinationType'', Static (PScalar [(''type'', JStr ''string'')])),
      (''bindingVersion'', Static (PScalar [(''type'', JStr ''string'')]))]
     None
     None
     None
     None
     None
     None
     None
     None\<close>

definition Async2_AnypointmqServerBinding :: "node_type" where
  \<open>Async2_AnypointmqServerBinding = NodeType
     []
     None
     None
     None
     None
     None
     None
     None
     None\<close>

definition Async2_AnypointmqMessageBinding :: "node_type" where
  \<open>Async2_AnypointmqMessageBinding = NodeType
     [(''headers'', Static (PRef ''Schema'')),
      (''bindingVersion'', Static (PScalar [(''type'', JStr ''string'')]))]
     None
     None
     None
     None
     None
     None
     None
     None\<close>

definition Async2_AnypointmqOperationBinding :: "node_type" where
  \<open>Async2_AnypointmqOperationBinding = NodeType
     []
     None
     None
     None
     None
     None
     None
     None
     None\<close>

definition Async2_AmqpChannelBinding :: "node_type" where
  \<open>Async2_AmqpChannelBinding = NodeType
     []
     None
     None
     None
     None
     None
     None
     None
     None\<close>

definition Async2_AmqpServerBinding :: "node_type" where
  \<open>Async2_AmqpServerBinding = NodeType
     []
     None
     None
     None
     None
     None
     None
     None
     None\<close>

definition Async2_AmqpMessageBinding :: "node_type" where
  \<open>Async2_AmqpMessageBinding = NodeType
     [(''contentEncoding'', Static (PScalar [(''type'', JStr ''string'')])),
      (''messageType'', Static (PScalar [(''type'', JStr ''string'')])),
      (''bindingVersion'', Static (PScalar [(''type'', JStr ''string'')]))]
     None
     None
     None
     None
     None
     None
     None
     None\<close>

definition Async2_AmqpOperationBinding :: "node_type" where
  \<open>Async2_AmqpOperationBinding = NodeType
     [(''expiration'', Static (PScalar [(''type'', JStr ''integer'')])),
      (''userId'', Static (PScalar [(''type'', JStr ''string'')])),
      (''cc'', Static (PScalar [(''type'', JStr ''array''), (''items'', JObj [(''type'', JStr ''string'')])])),
      (''priority'', Static (PScalar [(''type'', JStr ''integer'')])),
      (''deliveryMode'', Static (PScalar [(''type'', JStr ''integer'')])),
      (''mandatory'', Static (PScalar [(''type'', JStr ''boolean'')])),
      (''bcc'', Static (PScalar [(''type'', JStr ''array''), (''items'', JObj [(''type'', JStr ''string'')])])),
      (''replyTo'', Static (PScalar [(''type'', JStr ''string'')])),
      (''timestamp'', Static (PScalar [(''type'', JStr ''boolean'')])),
      (''ack'', Static (PScalar [(''type'', JStr ''boolean'')])),
      (''bindingVersion'', Static (PScalar [(''type'', JStr ''string'')]))]
     None
     None
     None
     None
     None
     None
     None
     None\<close>

definition Async2_Amqp1ChannelBinding :: "node_type" where
  \<open>Async2_Amqp1ChannelBinding = NodeType
     []
     None
     None
     None
     None
     None
     None
     None
     None\<close>

definition Async2_Amqp1ServerBinding :: "node_type" where
  \<open>Async2_Amqp1ServerBinding = NodeType
     []
     None
     None
     None
     None
     None
     None
     None
     None\<close>

definition Async2_Amqp1MessageBinding :: "node_type" where
  \<open>Async2_Amqp1MessageBinding = NodeType
     []
     None
     None
     None
     None
     None
     None
     None
     None\<close>

definition Async2_Amqp1OperationBinding :: "node_type" where
  \<open>Async2_Amqp1OperationBinding = NodeType
     []
     None
     None
     None
     None
     None
     None
     None
     None\<close>

definition Async2_MqttChannelBinding :: "node_type" where
  \<open>Async2_MqttChannelBinding = NodeType
     [(''qos'', Static (PScalar [(''type'', JStr ''integer'')])),
      (''retain'', Static (PScalar [(''type'', JStr ''boolean'')])),
      (''bindingVersion'', Static (PScalar [(''type'', JStr ''string'')]))]
     None
     None
     None
     None
     None
     None
     None
     None\<close>

definition Async2_MqttServerBindingLastWill :: "node_type" where
  \<open>Async2_MqttServerBindingLastWill = NodeType
     [(''topic'', Static (PScalar [(''type'', JStr ''string'')])),
      (''qos'', Static (PScalar [(''type'', JStr ''integer'')])),
      (''message'', Static (PScalar [(''type'', JStr ''string'')])),
      (''retain'', Static (PScalar [(''type'', JStr ''boolean'')]))]
     None
     None
     None
     None
     None
     None
     None
     None\<close>

definition Async2_MqttServerBinding :: "node_type" where
  \<open>Async2_MqttServerBinding = NodeType
     [(''clientId'', Static (PScalar [(''type'', JStr ''string'')])),
      (''cleanSession'', Static (PScalar [(''type'', JStr ''boolean'')])),
      (''lastWill'', Static (PRef ''MqttServerBindingLastWill'')),
      (''keepAlive'', Static (PScalar [(''type'', JStr ''integer'')])),
      (''bindingVersion'', Static (PScalar [(''type'', JStr ''string'')]))]
     None
     None
     None
     None
     None
     None
     None
     None\<close>

definition Async2_MqttMessageBinding :: "node_type" where
  \<open>Async2_MqttMessageBinding = NodeType
     [(''bindingVersion'', Static (PScalar [(''type'', JStr ''string'')]))]
     None
     None
     None
     None
     None
     None
     None
     None\<close>

definition Async2_MqttOperationBinding :: "node_type" where
  \<open>Async2_MqttOperationBinding = NodeType
     [(''qos'', Static (PScalar [(''type'', JStr ''integer'')])),
      (''retain'', Static (PScalar [(''type'', JStr ''boolean'')])),
      (''bindingVersion'', Static (PScalar [(''type'', JStr ''string'')]))]
     None
     None
     None
     None
     None
     None
     None
     None\<close>

definition Async2_Mqtt5ChannelBinding :: "node_type" where
  \<open>Async2_Mqtt5ChannelBinding = NodeType
     []
     None
     None
     None
     None
     None
     None
     None
     None\<close>

definition Async2_Mqtt5ServerBinding :: "node_type" where
  \<open>Async2_Mqtt5ServerBinding = NodeType
     []
     None
     None
     None
     None
     None
     None
     None
     None\<close>

definition Async2_Mqtt5MessageBinding :: "node_type" where
  \<open>Async2_Mqtt5MessageBinding = NodeType
     []
     None
     None
     None
     None
     None
     None
     None
     None\<close>

definition Async2_Mqtt5OperationBinding :: "node_type" where
  \<open>Async2_Mqtt5OperationBinding = NodeType
     []
     None
     None
     None
     None
     None
     None
     None
     None\<close>

definition Async2_NatsChannelBinding :: "node_type" where
  \<open>Async2_NatsChannelBinding = NodeType
     []
     None
     None
     None
     None
     None
     None
     None
     None\<close>

definition Async2_NatsServerBinding :: "node_type" where
  \<open>Async2_NatsServerBinding = NodeType
     []
     None
     None
     None
     None
     None
     None
     None
     None\<close>

definition Async2_NatsMessageBinding :: "node_type" where
  \<open>Async2_NatsMessageBinding = NodeType
     []
     None
     None
     None
     None
     None
     None
     None
     None\<close>

definition Async2_NatsOperationBinding :: "node_type" where
  \<open>Async2_NatsOperationBinding = NodeType
     [(''queue'', Static (PScalar [(''type'', JStr ''string'')])),
      (''bindingVersion'', Static (PScalar [(''type'', JStr ''string'')]))]
     None
     None
     None
     None
     None
     None
     None
     None\<close>

definition Async2_JmsChannelBinding :: "node_type" where
  \<open>Async2_JmsChannelBinding = NodeType
     [(''destination'', Static (PScalar [(''type'', JStr ''string'')])),
      (''destinationType'', Static (PScalar [(''type'', JStr ''string'')])),
      (''bindingVersion'', Static (PScalar [(''type'', JStr ''string'')]))]
     None
     None
     None
     None
     None
     None
     None
     None\<close>

definition Async2_JmsServerBinding :: "node_type" where
  \<open>Async2_JmsServerBinding = NodeType
     []
     None
     None
     None
     None
     None
     None
     None
     None\<close>

definition Async2_JmsMessageBinding :: "node_type" where
  \<open>Async2_JmsMessageBinding = NodeType
     [(''headers'', Static (PRef ''Schema'')),
      (''bindingVersion'', Static (PScalar [(''type'', JStr ''string'')]))]
     None
     None
     None
     None
     None
     None
     None
     None\<close>

definition Async2_JmsOperationBinding :: "node_type" where
  \<open>Async2_JmsOperationBinding = NodeType
     [(''headers'', Static (PRef ''Schema'')),
      (''bindingVersion'', Static (PScalar [(''type'', JStr ''string'')]))]
     None
     None
     None
     None
     None
     None
     None
     None\<close>

definition Async2_SolaceChannelBinding :: "node_type" where
  \<open>Async2_SolaceChannelBinding = NodeType
     []
     None
     None
     None
     None
     None
     None
     None
     None\<close>

definition Async2_SolaceServerBinding :: "node_type" where
  \<open>Async2_SolaceServerBinding = NodeType
     [(''bindingVersion'', Static (PScalar [(''type'', JStr ''string'')])),
      (''msgVpn'', Static (PScalar [(''type'', JStr ''string'')]))]
     None
     None
     None
     None
     None
     None
     None
     None\<close>

definition Async2_SolaceMessageBinding :: "node_type" where
  \<open>Async2_SolaceMessageBinding = NodeType
     []
     None
     None
     None
     None
     None
     None
     None
     None\<close>

definition Async2_SolaceDestination :: "node_type" where
  \<open>Async2_SolaceDestination = NodeType
     [(''destinationType'', Static (PScalar [(''type'', JStr ''string''), (''enum'', JArr [JStr ''queue'', JStr ''topic''])])),
      (''deliveryMode'', Static (PScalar [(''type'', JStr ''string''), (''enum'', JArr [JStr ''direct'', JStr ''persistent''])])),
      (''queue.name'', Static (PScalar [(''type'', JStr ''string'')])),
      (''queue.topicSubscriptions'', Static (PScalar [(''type'', JStr ''array''), (''items'', JObj [(''type'', JStr ''string'')])])),
      (''queue.accessType'', Static (PScalar [(''type'', JStr ''string''), (''enum'', JArr [JStr ''exclusive'', JStr ''nonexclusive''])])),
      (''queue.maxMsgSpoolSize'', Static (PScalar [(''type'', JStr ''string'')])),
      (''queue.maxTtl'', Static (PScalar [(''type'', JStr ''string'')])),
      (''topic.topicSubscriptions'', Static (PScalar [(''type'', JStr ''array''), (''items'', JObj [(''type'', JStr ''string'')])]))]
     None
     None
     None
     None
     None
     None
     None
     None\<close>

definition Async2_SolaceOperationBinding :: "node_type" where
  \<open>Async2_SolaceOperationBinding = NodeType
     [(''bindingVersion'', Static (PScalar [(''type'', JStr ''string'')])),
      (''destinations'', Static (PNode (listOf ''SolaceDestination'' None)))]
     None
     None
     None
     None
     None
     None
     None
     None\<close>

definition Async2_StompChannelBinding :: "node_type" where
  \<open>Async2_StompChannelBinding = NodeType
     []
     None
     None
     None
     None
     None
     None
     None
     None\<close>

definition Async2_StompServerBinding :: "node_type" where
  \<open>Async2_StompServerBinding = NodeType
     []
     None
     None
     None
     None
     None
     None
     None
     None\<close>

definition Async2_StompMessageBinding :: "node_type" where
  \<open>Async2_StompMessageBinding = NodeType
     []
     None
     None
     None
     None
     None
     None
     None
     None\<close>

definition Async2_StompOperationBinding :: "node_type" where
  \<open>Async2_StompOperationBinding = NodeType
     []
     None
     None
     None
     None
     None
     None
     None
     None\<close>

definition Async2_RedisChannelBinding :: "node_type" where
  \<open>Async2_RedisChannelBinding = NodeType
     []
     None
     None
     None
     None
     None
     None
     None
     None\<close>

definition Async2_RedisServerBinding :: "node_type" where
  \<open>Async2_RedisServerBinding = NodeType
     []
     None
     None
     None
     None
     None
     None
     None
     None\<close>

definition Async2_RedisMessageBinding :: "node_type" where
  \<open>Async2_RedisMessageBinding = NodeType
     []
     None
     None
     None
     None
     None
     None
     None
     None\<close>

definition Async2_RedisOperationBinding :: "node_type" where
  \<open>Async2_RedisOperationBinding = NodeType
     []
     None
     None
     None
     None
     None
     None
     None
     None\<close>

definition Async2_MercureChannelBinding :: "node_type" where
  \<open>Async2_MercureChannelBinding = NodeType
     []
     None
     None
     None
     None
     None
     None
     None
     None\<close>

definition Async2_MercureServerBinding :: "node_type" where
  \<open>Async2_MercureServerBinding = NodeType
     []
     None
     None
     None
     None
     None
     None
     None
     None\<close>

definition Async2_MercureMessageBinding :: "node_type" where
  \<open>Async2_MercureMessageBinding = NodeType
     []
     None
     None
     None
     None
     None
     None
     None
     None\<close>

definition Async2_MercureOperationBinding :: "node_type" where
  \<open>Async2_MercureOperationBinding = NodeType
     []
     None
     None
     None
     None
     None
     None
     None
     None\<close>

text \<open>The module-level statements \<^verbatim>\<open>XBindings.properties.<key> = <Binding>;\<close>, in source order.\<close>

definition Async2_patches :: "(bindings_module \<Rightarrow> bindings_module) list" where
  \<open>Async2_patches =
    [assign_ChannelBindings ''http'' Async2_HttpChannelBinding,
     assign_ServerBindings ''http'' Async2_HttpServerBinding,
     assign_MessageBindings ''http'' Async2_HttpMessageBinding,
     assign_OperationBindings ''http'' Async2_HttpOperationBinding,
     assign_ChannelBindings ''ws'' Async2_WsChannelBinding,
     assign_ServerBindings ''ws'' Async2_WsServerBinding,
     assign_MessageBindings ''ws'' Async2_WsMessageBinding,
     assign_OperationBindings ''ws'' Async2_WsOperationBinding,
     assign_ChannelBindings ''kafka'' Async2_KafkaChannelBinding,
     assign_ServerBindings ''kafka'' Async2_KafkaServerBinding,
     assign_MessageBindings ''kafka'' Async2_KafkaMessageBinding,
     assign_OperationBindings ''kafka'' Async2_KafkaOperationBinding,
     assign_ChannelBindings ''anypointmq'' Async2_AnypointmqChannelBinding,
     assign_ServerBindings ''anypointmq'' Async2_AnypointmqServerBinding,
     assign_MessageBindings ''anypointmq'' Async2_AnypointmqMessageBinding,
     assign_OperationBindings ''anypointmq'' Async2_AnypointmqOperationBinding,
     assign_ChannelBindings ''amqp'' Async2_AmqpChannelBinding,
     assign_ServerBindings ''amqp'' Async2_AmqpServerBinding,
     assign_MessageBindings ''amqp'' Async2_AmqpMessageBinding,
     assign_OperationBindings ''amqp'' Async2_AmqpOperationBinding,
     assign_ChannelBindings ''amqp1'' Async2_Amqp1ChannelBinding,
     assign_ServerBindings ''amqp1'' Async2_Amqp1ServerBinding,
     assign_MessageBindings ''amqp1'' Async2_Amqp1MessageBinding,
     assign_OperationBindings ''amqp1'' Async2_Amqp1OperationBinding,
     assign_ChannelBindings ''mqtt'' Async2_MqttChannelBinding,
     assign_ServerBindings ''mqtt'' Async2_MqttServerBinding,
     assign_MessageBindings ''mqtt'' Async2_MqttMessageBinding,
     assign_OperationBindings ''mqtt'' Async2_MqttOperationBinding,
     assign_ChannelBindings ''mqtt5'' Async2_Mqtt5ChannelBinding,
     assign_ServerBindings ''mqtt5'' Async2_Mqtt5ServerBinding,
     assign_MessageBindings ''mqtt5'' Async2_Mqtt5MessageBinding,
     assign_OperationBindings ''mqtt5'' Async2_Mqtt5OperationBinding,
     assign_ChannelBindings ''nats'' Async2_NatsChannelBinding,
     assign_ServerBindings ''nats'' Async2_NatsServerBinding,
     assign_MessageBindings ''nats'' Async2_NatsMessageBinding,
     assign_OperationBindings ''nats'' Async2_NatsOperationBinding,
     assign_ChannelBindings ''jms'' Async2_JmsChannelBinding,
     assign_ServerBindings ''jms'' Async2_JmsServerBinding,
     assign_MessageBindings ''jms'' Async2_JmsMessageBinding,
     assign_OperationBindings ''jms'' Async2_JmsOperationBinding,
     assign_ChannelBindings ''solace'' Async2_SolaceChannelBinding,
     assign_ServerBindings ''solace'' Async2_SolaceServerBinding,
     assign_MessageBindings ''solace'' Async2_SolaceMessageBinding,
     assign_OperationBindings ''solace'' Async2_SolaceOperationBinding,
     assign_ChannelBindings ''stomp'' Async2_StompChannelBinding,
     assign_ServerBindings ''stomp'' Async2_StompServerBinding,
     assign_MessageBindings ''stomp'' Async2_StompMessageBinding,
     assign_OperationBindings ''stomp'' Async2_StompOperationBinding,
     assign_ChannelBindings ''redis'' Async2_RedisChannelBinding,
     assign_ServerBindings ''redis'' Async2_RedisServerBinding,
     assign_MessageBindings ''redis'' Async2_RedisMessageBinding,
     assign_OperationBindings ''redis'' Async2_RedisOperationBinding,
     assign_ChannelBindings ''mercure'' Async2_MercureChannelBinding,
     assign_ServerBindings ''mercure'' Async2_MercureServerBinding,
     assign_MessageBindings ''mercure'' Async2_MercureMessageBinding,
     assign_OperationBindings ''mercure'' Async2_MercureOperationBinding]\<close>

text \<open>The module after its last statement, and the four descriptors as every later use
  of the constants sees them.\<close>

definition Async2_module :: bindings_module where
  \<open>Async2_module = fold (\<lambda>stmt s. stmt s) Async2_patches
     \<lparr>ChannelBindings = Async2_ChannelBindings_literal,
      ServerBindings = Async2_ServerBindings_literal,
      MessageBindings = Async2_MessageBindings_literal,
      OperationBindings = Async2_OperationBindings_literal\<rparr>\<close>

definition Async2_ChannelBindings :: node_type where
  \<open>Async2_ChannelBindings = ChannelBindings Async2_module\<close>

definition Async2_ServerBindings :: node_type where
  \<open>Async2_ServerBindings = ServerBindings Async2_module\<close>

definition Async2_MessageBindings :: node_type where
  \<open>Async2_MessageBindings = MessageBindings Async2_module\<close>

definition Async2_OperationBindings :: node_type where
  \<open>Async2_OperationBindings = OperationBindings Async2_module\<close>

definition Async2_AsyncApi2Bindings :: "(string \<times> node_type) list" where
  \<open>Async2_AsyncApi2Bindings =
    [(''HttpServerBinding'', Async2_HttpServerBinding),
     (''HttpChannelBinding'', Async2_HttpChannelBinding),
     (''HttpMessageBinding'', Async2_HttpMessageBinding),
     (''HttpOperationBinding'', Async2_HttpOperationBinding),
     (''WsServerBinding'', Async2_WsServerBinding),
     (''WsChannelBinding'', Async2_WsChannelBinding),
     (''WsMessageBinding'', Async2_WsMessageBinding),
     (''WsOperationBinding'', Async2_WsOperationBinding),
     (''KafkaServerBinding'', Async2_KafkaServerBinding),
     (''KafkaTopicConfiguration'', Async2_KafkaTopicConfiguration),
     (''KafkaChannelBinding'', Async2_KafkaChannelBinding),
     (''KafkaMessageBinding'', Async2_KafkaMessageBinding),
     (''KafkaOperationBinding'', Async2_KafkaOperationBinding),
     (''AnypointmqServerBinding'', Async2_AnypointmqServerBinding),
     (''AnypointmqChannelBinding'', Async2_AnypointmqChannelBinding),
     (''AnypointmqMessageBinding'', Async2_AnypointmqMessageBinding),
     (''AnypointmqOperationBinding'', Async2_AnypointmqOperationBinding),
     (''AmqpServerBinding'', Async2_AmqpServerBinding),
     (''AmqpChannelBinding'', Async2_AmqpChannelBinding),
     (''AmqpMessageBinding'', Async2_AmqpMessageBinding),
     (''AmqpOperationBinding'', Async2_AmqpOperationBinding),
     (''Amqp1ServerBinding'', Async2_Amqp1ServerBinding),
     (''Amqp1ChannelBinding'', Async2_Amqp1ChannelBinding),
     (''Amqp1MessageBinding'', Async2_Amqp1MessageBinding),
     (''Amqp1OperationBinding'', Async2_Amqp1OperationBinding),
     (''MqttServerBindingLastWill'', Async2_MqttServerBindingLastWill),
     (''MqttServerBinding'', Async2_MqttServerBinding),
     (''MqttChannelBinding'', Async2_MqttChannelBinding),
     (''MqttMessageBinding'', Async2_MqttMessageBinding),
     (''MqttOperationBinding'', Async2_MqttOperationBinding),
     (''Mqtt5ServerBinding'', Async2_Mqtt5ServerBinding),
     (''Mqtt5ChannelBinding'', Async2_Mqtt5ChannelBinding),
     (''Mqtt5MessageBinding'', Async2_Mqtt5MessageBinding),
     (''Mqtt5OperationBinding'', Async2_Mqtt5OperationBinding),
     (''NatsServerBinding'', Async2_NatsServerBinding),
     (''NatsChannelBinding'', Async2_NatsChannelBinding),
     (''NatsMessageBinding'', Async2_NatsMessageBinding),
     (''NatsOperationBinding'', Async2_NatsOperationBinding),
     (''JmsServerBinding'', Async2_JmsServerBinding),
     (''JmsChannelBinding'', Async2_JmsChannelBinding),
     (''JmsMessageBinding'', Async2_JmsMessageBinding),
     (''JmsOperationBinding'', Async2_JmsOperationBinding),
     (''SolaceServerBinding'', Async2_SolaceServerBinding),
     (''SolaceChannelBinding'', Async2_SolaceChannelBinding),
     (''SolaceMessageBinding'', Async2_SolaceMessageBinding),
     (''SolaceDestination'', Async2_SolaceDestination),
     (''SolaceOperationBinding'', Async2_SolaceOperationBinding),
     (''StompServerBinding'', Async2_StompServerBinding),
     (''StompChannelBinding'', Async2_StompChannelBinding),
     (''StompMessageBinding'', Async2_StompMessageBinding),
     (''StompOperationBinding'', Async2_StompOperationBinding),
     (''RedisServerBinding'', Async2_RedisServerBinding),
     (''RedisChannelBinding'', Async2_RedisChannelBinding),
     (''RedisMessageBinding'', Async2_RedisMessageBinding),
     (''RedisOperationBinding'', Async2_RedisOperationBinding),
     (''MercureServerBinding'', Async2_MercureServerBinding),
     (''MercureChannelBinding'', Async2_MercureChannelBinding),
     (''MercureMessageBinding'', Async2_MercureMessageBinding),
     (''MercureOperationBinding'', Async2_MercureOperationBinding),
     (''ServerBindings'', Async2_ServerBindings),
     (''ChannelBindings'', Async2_ChannelBindings),
     (''MessageBindings'', Async2_MessageBindings),
     (''OperationBindings'', Async2_OperationBindings)]\<close>

section \<open>Notions of the specification\<close>

text \<open>
  The reading of the response-code pattern in words: a digit followed by two characters
  each of which is a digit, \<open>X\<close> or \<open>x\<close>. Digits are the characters with the codes 48
  to 57; this definition follows the words, the table above follows the regular
  expression of the source.
\<close>

definition is_digit :: "char \<Rightarrow> bool" where
  "is_digit c = (48 \<le> (of_char c :: nat) \<and> (of_char c :: nat) \<le> 57)"

definition is_digit_or_x :: "char \<Rightarrow> bool" where
  "is_digit_or_x c = (is_digit c \<or> c = CHR ''X'' \<or> c = CHR ''x'')"

fun is_response_code :: "string \<Rightarrow> bool" where
  "is_response_code [a, b, c] = (is_digit a \<and> is_digit_or_x b \<and> is_digit_or_x c)"
| "is_response_code _ = False"

text \<open>The nineteen protocol names and, of these, the fourteen that have binding types.\<close>

definition protocol_names :: "string list" where
  "protocol_names =
     [''http'', ''ws'', ''kafka'', ''anypointmq'', ''amqp'', ''amqp1'', ''mqtt'', ''mqtt5'',
      ''nats'', ''jms'', ''sns'', ''solace'', ''sqs'', ''stomp'', ''redis'', ''mercure'',
      ''ibmmq'', ''googlepubsub'', ''pulsar'']"

definition patched_protocol_names :: "string list" where
  "patched_protocol_names =
     [''http'', ''ws'', ''kafka'', ''anypointmq'', ''amqp'', ''amqp1'', ''mqtt'', ''mqtt5'',
      ''nats'', ''jms'', ''solace'', ''stomp'', ''redis'', ''mercure'']"


section \<open>Properties\<close>

subsection \<open>The bindings descriptors after the module-level statements\<close>

lemmas assign_defs = assign_ChannelBindings_def assign_ServerBindings_def
  assign_MessageBindings_def assign_OperationBindings_def

lemmas module_defs = Async2_module_def Async2_patches_def assign_defs

lemma ChannelBindings_properties:
  "properties Async2_ChannelBindings =
    [(''http'', Static (PNode Async2_HttpChannelBinding)),
     (''ws'', Static (PNode Async2_WsChannelBinding)),
     (''kafka'', Static (PNode Async2_KafkaChannelBinding)),
     (''anypointmq'', Static (PNode Async2_AnypointmqChannelBinding)),
     (''amqp'', Static (PNode Async2_AmqpChannelBinding)),
     (''amqp1'', Static (PNode Async2_Amqp1ChannelBinding)),
     (''mqtt'', Static (PNode Async2_MqttChannelBinding)),
     (''mqtt5'', Static (PNode Async2_Mqtt5ChannelBinding)),
     (''nats'', Static (PNode Async2_NatsChannelBinding)),
     (''jms'', Static (PNode Async2_JmsChannelBinding)),
     (''solace'', Static (PNode Async2_SolaceChannelBinding)),
     (''stomp'', Static (PNode Async2_StompChannelBinding)),
     (''redis'', Static (PNode Async2_RedisChannelBinding)),
     (''mercure'', Static (PNode Async2_MercureChannelBinding))]"
  by (simp add: Async2_ChannelBindings_def module_defs Async2_ChannelBindings_literal_def)

lemma ChannelBindings_members:
  "additionalProperties Async2_ChannelBindings = Some (Static (PScalar [(''type'', JStr ''object'')]))"
  "items Async2_ChannelBindings = None"
  "required Async2_ChannelBindings = None"
  "requiredOneOf Async2_ChannelBindings = None"
  "allowed Async2_ChannelBindings = Some Async2_ChannelBindings_allowed"
  "extensionsPrefix Async2_ChannelBindings = None"
  "description Async2_ChannelBindings = description Async2_ChannelBindings_literal"
  "documentationLink Async2_ChannelBindings = documentationLink Async2_ChannelBindings_literal"
  by (simp_all add: Async2_ChannelBindings_def module_defs Async2_ChannelBindings_literal_def)

lemma ServerBindings_properties:
  "properties Async2_ServerBindings =
    [(''http'', Static (PNode Async2_HttpServerBinding)),
     (''ws'', Static (PNode Async2_WsServerBinding)),
     (''kafka'', Static (PNode Async2_KafkaServerBinding)),
     (''anypointmq'', Static (PNode Async2_AnypointmqServerBinding)),
     (''amqp'', Static (PNode Async2_AmqpServerBinding)),
     (''amqp1'', Static (PNode Async2_Amqp1ServerBinding)),
     (''mqtt'', Static (PNode Async2_MqttServerBinding)),
     (''mqtt5'', Static (PNode Async2_Mqtt5ServerBinding)),
     (''nats'', Static (PNode Async2_NatsServerBinding)),
     (''jms'', Static (PNode Async2_JmsServerBinding)),
     (''solace'', Static (PNode Async2_SolaceServerBinding)),
     (''stomp'', Static (PNode Async2_StompServerBinding)),
     (''redis'', Static (PNode Async2_RedisServerBinding)),
     (''mercure'', Static (PNode Async2_MercureServerBinding))]"
  by (simp add: Async2_ServerBindings_def module_defs Async2_ServerBindings_literal_def)

lemma ServerBindings_members:
  "additionalProperties Async2_ServerBindings = Some (Static (PScalar [(''type'', JStr ''object'')]))"
  "items Async2_ServerBindings = None"
  "required Async2_ServerBindings = None"
  "requiredOneOf Async2_ServerBindings = None"
  "allowed Async2_ServerBindings = Some Async2_ServerBindings_allowed"
  "extensionsPrefix Async2_ServerBindings = None"
  "description Async2_ServerBindings = description Async2_ServerBindings_literal"
  "documentationLink Async2_ServerBindings = documentationLink Async2_ServerBindings_literal"
  by (simp_all add: Async2_ServerBindings_def module_defs Async2_ServerBindings_literal_def)

lemma MessageBindings_properties:
  "properties Async2_MessageBindings =
    [(''http'', Static (PNode Async2_HttpMessageBinding)),
     (''ws'', Static (PNode Async2_WsMessageBinding)),
     (''kafka'', Static (PNode Async2_KafkaMessageBinding)),
     (''anypointmq'', Static (PNode Async2_AnypointmqMessageBinding)),
     (''amqp'', Static (PNode Async2_AmqpMessageBinding)),
     (''amqp1'', Static (PNode Async2_Amqp1MessageBinding)),
     (''mqtt'', Static (PNode Async2_MqttMessageBinding)),
     (''mqtt5'', Static (PNode Async2_Mqtt5MessageBinding)),
     (''nats'', Static (PNode Async2_NatsMessageBinding)),
     (''jms'', Static (PNode Async2_JmsMessageBinding)),
     (''solace'', Static (PNode Async2_SolaceMessageBinding)),
     (''stomp'', Static (PNode Async2_StompMessageBinding)),
     (''redis'', Static (PNode Async2_RedisMessageBinding)),
     (''mercure'', Static (PNode Async2_MercureMessageBinding))]"
  by (simp add: Async2_MessageBindings_def module_defs Async2_MessageBindings_literal_def)

lemma MessageBindings_members:
  "additionalProperties Async2_MessageBindings = Some (Static (PScalar [(''type'', JStr ''object'')]))"
  "items Async2_MessageBindings = None"
  "required Async2_MessageBindings = None"
  "requiredOneOf Async2_MessageBindings = None"
  "allowed Async2_MessageBindings = Some Async2_MessageBindings_allowed"
  "extensionsPrefix Async2_MessageBindings = None"
  "description Async2_MessageBindings = description Async2_MessageBindings_literal"
  "documentationLink Async2_MessageBindings = documentationLink Async2_MessageBindings_literal"
  by (simp_all add: Async2_MessageBindings_def module_defs Async2_MessageBindings_literal_def)

lemma OperationBindings_properties:
  "properties Async2_OperationBindings =
    [(''http'', Static (PNode Async2_HttpOperationBinding)),
     (''ws'', Static (PNode Async2_WsOperationBinding)),
     (''kafka'', Static (PNode Async2_KafkaOperationBinding)),
     (''anypointmq'', Static (PNode Async2_AnypointmqOperationBinding)),
     (''amqp'', Static (PNode Async2_AmqpOperationBinding)),
     (''amqp1'', Static (PNode Async2_Amqp1OperationBinding)),
     (''mqtt'', Static (PNode Async2_MqttOperationBinding)),
     (''mqtt5'', Static (PNode Async2_Mqtt5OperationBinding)),
     (''nats'', Static (PNode Async2_NatsOperationBinding)),
     (''jms'', Static (PNode Async2_JmsOperationBinding)),
     (''solace'', Static (PNode Async2_SolaceOperationBinding)),
     (''stomp'', Static (PNode Async2_StompOperationBinding)),
     (''redis'', Static (PNode Async2_RedisOperationBinding)),
     (''mercure'', Static (PNode Async2_MercureOperationBinding))]"
  by (simp add: Async2_OperationBindings_def module_defs Async2_OperationBindings_literal_def)

lemma OperationBindings_members:
  "additionalProperties Async2_OperationBindings = Some (Static (PScalar [(''type'', JStr ''object'')]))"
  "items Async2_OperationBindings = None"
  "required Async2_OperationBindings = None"
  "requiredOneOf Async2_OperationBindings = None"
  "allowed Async2_OperationBindings = Some Async2_OperationBindings_allowed"
  "extensionsPrefix Async2_OperationBindings = None"
  "description Async2_OperationBindings = description Async2_OperationBindings_literal"
  "documentationLink Async2_OperationBindings = documentationLink Async2_OperationBindings_literal"
  by (simp_all add: Async2_OperationBindings_def module_defs Async2_OperationBindings_literal_def)

subsection \<open>Conditional required keys of the security scheme\<close>

text \<open>
  Claim C1. The \<open>required\<close> function of the OpenAPI 3 SecurityScheme descriptor (in both
  OpenAPI 3 tables) returns \<open>['type','name','in']\<close> at a value whose \<open>type\<close> is
  \<open>'apiKey'\<close> and \<open>['type','scheme']\<close> at one whose \<open>type\<close> is \<open>'http'\<close>. So the
  check of the required keys reports no missing key at \<open>{type:'http', scheme:'bearer'}\<close>
  and exactly \<open>name\<close> and \<open>in\<close> at \<open>{type:'apiKey'}\<close>.
\<close>

theorem SecurityScheme_required_apiKey_http:
  "(opt_type v = JStr ''apiKey'' \<longrightarrow>
      Oas3_SecurityScheme_required v = [''type'', ''name'', ''in''] \<and>
      Part000_SecurityScheme_required v = [''type'', ''name'', ''in''])
   \<and> (opt_type v = JStr ''http'' \<longrightarrow>
      Oas3_SecurityScheme_required v = [''type'', ''scheme''] \<and>
      Part000_SecurityScheme_required v = [''type'', ''scheme''])
   \<and> required Oas3_SecurityScheme = Some (RequiredFn Oas3_SecurityScheme_required)
   \<and> required Part000_SecurityScheme = Some (RequiredFn Part000_SecurityScheme_required)
   \<and> checkRequired Oas3_SecurityScheme
        (JObj [(''type'', JStr ''http''), (''scheme'', JStr ''bearer'')]) = []
   \<and> checkRequired Part000_SecurityScheme
        (JObj [(''type'', JStr ''http''), (''scheme'', JStr ''bearer'')]) = []
   \<and> checkRequired Oas3_SecurityScheme (JObj [(''type'', JStr ''apiKey'')]) = [''name'', ''in'']
   \<and> checkRequired Part000_SecurityScheme (JObj [(''type'', JStr ''apiKey'')]) = [''name'', ''in'']"
  by (simp add: Oas3_SecurityScheme_required_def Part000_SecurityScheme_required_def
      Oas3_SecurityScheme_def Part000_SecurityScheme_def checkRequired_def required_keys_def)

theorem SecurityScheme_required_apiKey_http_witness:
  "Oas3_SecurityScheme_required (JObj [(''type'', JStr ''apiKey''), (''name'', JStr ''key'')])
     = [''type'', ''name'', ''in'']
   \<and> Part000_SecurityScheme_required (JObj [(''scheme'', JStr ''basic''), (''type'', JStr ''http'')])
     = [''type'', ''scheme'']"
  using SecurityScheme_required_apiKey_http
          [of "JObj [(''type'', JStr ''apiKey''), (''name'', JStr ''key'')]"]
        SecurityScheme_required_apiKey_http
          [of "JObj [(''scheme'', JStr ''basic''), (''type'', JStr ''http'')]"]
  by simp


subsection \<open>The allow-list\<close>

lemma checkAllowed_reports:
  assumes "allowed D = Some f" and "K \<in> set (object_keys V)" and "K \<notin> set (f V)"
    and "\<not> is_extension D K"
  shows "K \<in> set (checkAllowed D V)"
  using assms by (simp add: checkAllowed_def)

lemma is_extension_Oas3_SecurityScheme:
  "is_extension Oas3_SecurityScheme K = startsWith K ''x-''"
  by (simp add: is_extension_def Oas3_SecurityScheme_def)

lemma is_extension_Async2_SecurityScheme:
  "is_extension Async2_SecurityScheme K = startsWith K ''x-''"
  by (simp add: is_extension_def Async2_SecurityScheme_def)

text \<open>
  Claim C2. For a descriptor whose \<open>allowed\<close> function is defined and a node value \<open>V\<close>,
  every key of \<open>V\<close> that is not in \<open>allowed(V)\<close> and does not start with the extension
  prefix of the descriptor is reported by \<open>checkAllowed\<close>. The OpenAPI 3 and AsyncAPI 2
  SecurityScheme descriptors (prefix \<open>x-\<close>) and the AsyncAPI 2 ChannelBindings descriptor
  (no prefix) are such descriptors. The report does not depend on the classification of
  the key: \<open>bearerFormat\<close> on a security scheme of type \<open>apiKey\<close> is reported although
  \<open>properties\<close> gives it a string schema, and an unlisted key of a ChannelBindings node
  although \<open>additionalProperties\<close> gives it the schema \<open>{type:'object'}\<close>.
\<close>

theorem checkAllowed_allow_list_law:
  "(allowed D = Some f \<and> K \<in> set (object_keys V) \<and> K \<notin> set (f V) \<and> \<not> is_extension D K
      \<longrightarrow> K \<in> set (checkAllowed D V))
   \<and> (K \<in> set (object_keys V) \<and> K \<notin> set (Oas3_SecurityScheme_allowed V) \<and> \<not> startsWith K ''x-''
      \<longrightarrow> K \<in> set (checkAllowed Oas3_SecurityScheme V))
   \<and> (K \<in> set (object_keys V) \<and> K \<notin> set (Async2_SecurityScheme_allowed V) \<and> \<not> startsWith K ''x-''
      \<longrightarrow> K \<in> set (checkAllowed Async2_SecurityScheme V))
   \<and> (K \<in> set (object_keys V) \<and> K \<notin> set (Async2_ChannelBindings_allowed V)
      \<longrightarrow> K \<in> set (checkAllowed Async2_ChannelBindings V))
   \<and> resolveChild Oas3_SecurityScheme ''bearerFormat''
        (JObj [(''type'', JStr ''apiKey''), (''bearerFormat'', JStr ''JWT'')])
       = Resolved (PScalar [(''type'', JStr ''string'')])
   \<and> checkAllowed Oas3_SecurityScheme
        (JObj [(''type'', JStr ''apiKey''), (''bearerFormat'', JStr ''JWT'')]) = [''bearerFormat'']
   \<and> resolveChild Async2_ChannelBindings ''tcp'' (JObj [(''tcp'', JObj [])])
       = Resolved (PScalar [(''type'', JStr ''object'')])
   \<and> checkAllowed Async2_ChannelBindings (JObj [(''tcp'', JObj [])]) = [''tcp'']"
proof -
  have general: "allowed D = Some f \<and> K \<in> set (object_keys V) \<and> K \<notin> set (f V) \<and> \<not> is_extension D K
      \<longrightarrow> K \<in> set (checkAllowed D V)"
    using checkAllowed_reports by blast
  have oas3: "K \<in> set (object_keys V) \<and> K \<notin> set (Oas3_SecurityScheme_allowed V) \<and> \<not> startsWith K ''x-''
      \<longrightarrow> K \<in> set (checkAllowed Oas3_SecurityScheme V)"
    using checkAllowed_reports [of Oas3_SecurityScheme Oas3_SecurityScheme_allowed K V]
    by (simp add: is_extension_Oas3_SecurityScheme) (simp add: Oas3_SecurityScheme_def)
  have async: "K \<in> set (object_keys V) \<and> K \<notin> set (Async2_SecurityScheme_allowed V) \<and> \<not> startsWith K ''x-''
      \<longrightarrow> K \<in> set (checkAllowed Async2_SecurityScheme V)"
    using checkAllowed_reports [of Async2_SecurityScheme Async2_SecurityScheme_allowed K V]
    by (simp add: is_extension_Async2_SecurityScheme) (simp add: Async2_SecurityScheme_def)
  have channel: "K \<in> set (object_keys V) \<and> K \<notin> set (Async2_ChannelBindings_allowed V)
      \<longrightarrow> K \<in> set (checkAllowed Async2_ChannelBindings V)"
    using checkAllowed_reports [of Async2_ChannelBindings Async2_ChannelBindings_allowed K V]
    by (simp add: is_extension_def ChannelBindings_members)
  have bearer: "resolveChild Oas3_SecurityScheme ''bearerFormat''
        (JObj [(''type'', JStr ''apiKey''), (''bearerFormat'', JStr ''JWT'')])
       = Resolved (PScalar [(''type'', JStr ''string'')])"
    by (simp add: resolveChild_def Oas3_SecurityScheme_def)
  have bearer': "checkAllowed Oas3_SecurityScheme
        (JObj [(''type'', JStr ''apiKey''), (''bearerFormat'', JStr ''JWT'')]) = [''bearerFormat'']"
    by (simp add: checkAllowed_def is_extension_def Oas3_SecurityScheme_def
        Oas3_SecurityScheme_allowed_def)
  have tcp: "resolveChild Async2_ChannelBindings ''tcp'' (JObj [(''tcp'', JObj [])])
       = Resolved (PScalar [(''type'', JStr ''object'')])"
    by (simp add: resolveChild_def is_extension_def ChannelBindings_members
        ChannelBindings_properties)
  have tcp': "checkAllowed Async2_ChannelBindings (JObj [(''tcp'', JObj [])]) = [''tcp'']"
    by (simp add: checkAllowed_def is_extension_def ChannelBindings_members
        Async2_ChannelBindings_allowed_def)
  from general oas3 async channel bearer bearer' tcp tcp' show ?thesis
    by (intro conjI)
qed

theorem checkAllowed_allow_list_law_witness:
  "''bearerFormat'' \<in> set (checkAllowed Oas3_SecurityScheme
      (JObj [(''type'', JStr ''apiKey''), (''bearerFormat'', JStr ''JWT'')]))"
  using checkAllowed_allow_list_law
          [of Oas3_SecurityScheme Oas3_SecurityScheme_allowed "''bearerFormat''"
              "JObj [(''type'', JStr ''apiKey''), (''bearerFormat'', JStr ''JWT'')]"]
  by (simp add: Oas3_SecurityScheme_allowed_def)


subsection \<open>Resolution on the Responses and Paths descriptors\<close>

lemma digit_class: "c \<in> set ''0123456789'' \<longleftrightarrow> is_digit c"
  by (cases c) (simp add: is_digit_def)

lemma digit_or_x_class: "c \<in> set ''0123456789Xx'' \<longleftrightarrow> is_digit_or_x c"
  by (cases c) (simp add: is_digit_or_x_def is_digit_def)

lemma regexp_test_response_code:
  "regexp_test [''0123456789'', ''0123456789Xx'', ''0123456789Xx''] K = is_response_code K"
proof (cases K rule: is_response_code.cases)
  case (1 a b c)
  then show ?thesis
    using digit_class [of a] digit_or_x_class [of b] digit_or_x_class [of c]
    by (simp add: regexp_test_def)
qed (simp_all add: regexp_test_def)

lemma resolveChild_property:
  assumes "map_of (properties D) K = Some rule"
  shows "resolveChild (with_additionalProperties ap D) K V = apply_rule rule V K"
  using assms by (cases D) (simp add: resolveChild_def)

lemma startsWith_slash: "startsWith K ''/'' \<longleftrightarrow> (\<exists>rest. K = CHR ''/'' # rest)"
  by (cases K) auto

text \<open>
  Claim C3. On the OpenAPI 3 Responses descriptor (in both OpenAPI 3 tables) the key
  \<open>default\<close> resolves to the reference \<open>Response\<close> by its entry in \<open>properties\<close>,
  whatever \<open>additionalProperties\<close> is. Every other key resolves to the reference
  \<open>Response\<close> exactly when it matches \<^verbatim>\<open>^[0-9][0-9Xx]{2}$\<close>, a digit followed by two
  characters each a digit, \<open>X\<close> or \<open>x\<close>, and is rejected as unknown otherwise.
\<close>

theorem Responses_resolution:
  "map_of (properties Oas3_Responses) ''default'' = Some (Static (PRef ''Response''))
   \<and> map_of (properties Part000_Responses) ''default'' = Some (Static (PRef ''Response''))
   \<and> resolveChild (with_additionalProperties ap Oas3_Responses) ''default'' V
        = Resolved (PRef ''Response'')
   \<and> resolveChild (with_additionalProperties ap Part000_Responses) ''default'' V
        = Resolved (PRef ''Response'')
   \<and> resolveChild Oas3_Responses ''default'' V = Resolved (PRef ''Response'')
   \<and> resolveChild Part000_Responses ''default'' V = Resolved (PRef ''Response'')
   \<and> (K \<noteq> ''default'' \<longrightarrow>
        resolveChild Oas3_Responses K V
          = (if is_response_code K then Resolved (PRef ''Response'') else Rejected)
        \<and> resolveChild Part000_Responses K V
          = (if is_response_code K then Resolved (PRef ''Response'') else Rejected))"
proof -
  have p1: "map_of (properties Oas3_Responses) ''default'' = Some (Static (PRef ''Response''))"
    by (simp add: Oas3_Responses_def)
  have p2: "map_of (properties Part000_Responses) ''default'' = Some (Static (PRef ''Response''))"
    by (simp add: Part000_Responses_def)
  have a1: "resolveChild (with_additionalProperties ap Oas3_Responses) ''default'' V
        = Resolved (PRef ''Response'')"
    using resolveChild_property [OF p1] by simp
  have a2: "resolveChild (with_additionalProperties ap Part000_Responses) ''default'' V
        = Resolved (PRef ''Response'')"
    using resolveChild_property [OF p2] by simp
  have d1: "resolveChild Oas3_Responses ''default'' V = Resolved (PRef ''Response'')"
    by (simp add: resolveChild_def Oas3_Responses_def)
  have d2: "resolveChild Part000_Responses ''default'' V = Resolved (PRef ''Response'')"
    by (simp add: resolveChild_def Part000_Responses_def)
  have o1: "K \<noteq> ''default'' \<longrightarrow> resolveChild Oas3_Responses K V
          = (if is_response_code K then Resolved (PRef ''Response'') else Rejected)"
    using regexp_test_response_code [of K]
    by (simp add: resolveChild_def is_extension_def Oas3_Responses_def
        Oas3_Responses_additionalProperties_def Oas3_responseCodeRegexp_def)
  have o2: "K \<noteq> ''default'' \<longrightarrow> resolveChild Part000_Responses K V
          = (if is_response_code K then Resolved (PRef ''Response'') else Rejected)"
    using regexp_test_response_code [of K]
    by (simp add: resolveChild_def is_extension_def Part000_Responses_def
        Part000_Responses_additionalProperties_def Part000_responseCodeRegexp_def)
  from p1 p2 a1 a2 d1 d2 o1 o2 show ?thesis by blast
qed

theorem Responses_resolution_witness:
  "resolveChild Oas3_Responses ''2XX'' JNull = Resolved (PRef ''Response'')
   \<and> resolveChild Part000_Responses ''404'' JNull = Resolved (PRef ''Response'')
   \<and> resolveChild Oas3_Responses ''20'' JNull = Rejected
   \<and> resolveChild Part000_Responses ''x-code'' JNull = Rejected"
  using Responses_resolution [of None JNull "''2XX''"] Responses_resolution [of None JNull "''404''"]
    Responses_resolution [of None JNull "''20''"] Responses_resolution [of None JNull "''x-code''"]
  by (simp add: is_digit_def is_digit_or_x_def)

text \<open>
  Claim C4. On the OpenAPI 3 Paths descriptor (in both OpenAPI 3 tables), whose
  \<open>properties\<close> is empty, a child key resolves to the reference \<open>PathItem\<close> exactly when
  it starts with \<open>/\<close>; at every other key the \<open>additionalProperties\<close> resolver returns
  \<open>undefined\<close> and the key is rejected as unknown.
\<close>

theorem Paths_resolution:
  "properties Oas3_Paths = [] \<and> properties Part000_Paths = []
   \<and> additionalProperties Oas3_Paths = Some (Resolver Oas3_Paths_additionalProperties)
   \<and> additionalProperties Part000_Paths = Some (Resolver Part000_Paths_additionalProperties)
   \<and> Oas3_Paths_additionalProperties V K
        = (if startsWith K ''/'' then Some (PRef ''PathItem'') else None)
   \<and> Part000_Paths_additionalProperties V K
        = (if startsWith K ''/'' then Some (PRef ''PathItem'') else None)
   \<and> resolveChild Oas3_Paths K V
        = (if startsWith K ''/'' then Resolved (PRef ''PathItem'') else Rejected)
   \<and> resolveChild Part000_Paths K V
        = (if startsWith K ''/'' then Resolved (PRef ''PathItem'') else Rejected)
   \<and> (resolveChild Oas3_Paths K V = Resolved (PRef ''PathItem'')) = startsWith K ''/''
   \<and> (resolveChild Part000_Paths K V = Resolved (PRef ''PathItem'')) = startsWith K ''/''
   \<and> startsWith K ''/'' = (\<exists>rest. K = CHR ''/'' # rest)"
  using startsWith_slash [of K]
  by (simp add: resolveChild_def is_extension_def Oas3_Paths_def Part000_Paths_def
      Oas3_Paths_additionalProperties_def Part000_Paths_additionalProperties_def)


subsection \<open>Discriminator mappings\<close>

text \<open>
  Claim C5. The catch-all resolver of the OpenAPI 3 DiscriminatorMapping descriptor (in
  both OpenAPI 3 tables) classifies every value: where \<open>isMappingRef(value)\<close> holds it
  returns \<open>{ type: 'string', directResolveAs: 'Schema' }\<close>, and at every other value,
  such as a label \<open>"Dog"\<close> that \<open>isMappingRef\<close> does not hold of, the plain string
  schema \<open>{ type: 'string' }\<close>.
\<close>

theorem DiscriminatorMapping_classifies:
  "properties (Oas3_DiscriminatorMapping isMappingRef) = []
   \<and> properties (Part000_DiscriminatorMapping isMappingRef) = []
   \<and> additionalProperties (Oas3_DiscriminatorMapping isMappingRef)
        = Some (Resolver (Oas3_DiscriminatorMapping_additionalProperties isMappingRef))
   \<and> additionalProperties (Part000_DiscriminatorMapping isMappingRef)
        = Some (Resolver (Part000_DiscriminatorMapping_additionalProperties isMappingRef))
   \<and> (isMappingRef v \<longrightarrow>
        Oas3_DiscriminatorMapping_additionalProperties isMappingRef v k
          = Some (PScalar [(''type'', JStr ''string''), (''directResolveAs'', JStr ''Schema'')])
        \<and> Part000_DiscriminatorMapping_additionalProperties isMappingRef v k
          = Some (PScalar [(''type'', JStr ''string''), (''directResolveAs'', JStr ''Schema'')]))
   \<and> (\<not> isMappingRef v \<longrightarrow>
        Oas3_DiscriminatorMapping_additionalProperties isMappingRef v k
          = Some (PScalar [(''type'', JStr ''string'')])
        \<and> Part000_DiscriminatorMapping_additionalProperties isMappingRef v k
          = Some (PScalar [(''type'', JStr ''string'')]))
   \<and> (\<not> isMappingRef (JStr ''Dog'') \<longrightarrow>
        Oas3_DiscriminatorMapping_additionalProperties isMappingRef (JStr ''Dog'') k
          = Some (PScalar [(''type'', JStr ''string'')])
        \<and> Part000_DiscriminatorMapping_additionalProperties isMappingRef (JStr ''Dog'') k
          = Some (PScalar [(''type'', JStr ''string'')]))"
  by (simp add: Oas3_DiscriminatorMapping_def Part000_DiscriminatorMapping_def
      Oas3_DiscriminatorMapping_additionalProperties_def
      Part000_DiscriminatorMapping_additionalProperties_def)

theorem DiscriminatorMapping_classifies_witness:
  "Oas3_DiscriminatorMapping_additionalProperties (\<lambda>v. v = JStr ''#/components/schemas/Dog'')
      (JStr ''#/components/schemas/Dog'') ''dog''
     = Some (PScalar [(''type'', JStr ''string''), (''directResolveAs'', JStr ''Schema'')])
   \<and> Part000_DiscriminatorMapping_additionalProperties (\<lambda>v. v = JStr ''#/components/schemas/Dog'')
      (JStr ''Dog'') ''dog''
     = Some (PScalar [(''type'', JStr ''string'')])"
  using DiscriminatorMapping_classifies
          [of "\<lambda>v. v = JStr ''#/components/schemas/Dog''" "JStr ''#/components/schemas/Dog''" "''dog''"]
        DiscriminatorMapping_classifies
          [of "\<lambda>v. v = JStr ''#/components/schemas/Dog''" "JStr ''Dog''" "''dog''"]
  by simp


subsection \<open>Post-hoc extension of the ChannelBindings descriptor\<close>

lemma assign_property_keys:
  "set (map fst (properties (assign_property key rule D))) = insert key (set (map fst (properties D)))"
  by (cases D) (simp add: AList.dom_update)

text \<open>
  Claim C6. The ChannelBindings descriptor of the AsyncAPI 2 module is defined with an
  empty \<open>properties\<close> map. After all module-level assignments, its \<open>properties\<close> map
  has exactly the fourteen protocol keys http, ws, kafka, anypointmq, amqp, amqp1, mqtt,
  mqtt5, nats, jms, solace, stomp, redis and mercure, each with its channel binding, and
  no other key: an assignment adds its key to the keys there were and nothing else.
\<close>

theorem ChannelBindings_patched_keys:
  "properties Async2_ChannelBindings_literal = []
   \<and> properties Async2_ChannelBindings =
       [(''http'', Static (PNode Async2_HttpChannelBinding)),
        (''ws'', Static (PNode Async2_WsChannelBinding)),
        (''kafka'', Static (PNode Async2_KafkaChannelBinding)),
        (''anypointmq'', Static (PNode Async2_AnypointmqChannelBinding)),
        (''amqp'', Static (PNode Async2_AmqpChannelBinding)),
        (''amqp1'', Static (PNode Async2_Amqp1ChannelBinding)),
        (''mqtt'', Static (PNode Async2_MqttChannelBinding)),
        (''mqtt5'', Static (PNode Async2_Mqtt5ChannelBinding)),
        (''nats'', Static (PNode Async2_NatsChannelBinding)),
        (''jms'', Static (PNode Async2_JmsChannelBinding)),
        (''solace'', Static (PNode Async2_SolaceChannelBinding)),
        (''stomp'', Static (PNode Async2_StompChannelBinding)),
        (''redis'', Static (PNode Async2_RedisChannelBinding)),
        (''mercure'', Static (PNode Async2_MercureChannelBinding))]
   \<and> set (map fst (properties Async2_ChannelBindings))
       = set (map fst (properties Async2_ChannelBindings_literal))
         \<union> {''http'', ''ws'', ''kafka'', ''anypointmq'', ''amqp'', ''amqp1'', ''mqtt'', ''mqtt5'',
            ''nats'', ''jms'', ''solace'', ''stomp'', ''redis'', ''mercure''}
   \<and> map fst (properties Async2_ChannelBindings) = patched_protocol_names
   \<and> length (properties Async2_ChannelBindings) = 14
   \<and> distinct (map fst (properties Async2_ChannelBindings))
   \<and> set (map fst (properties (assign_property key rule D)))
       = insert key (set (map fst (properties D)))
   \<and> map_of (Async2_AsyncApi2Bindings) ''ChannelBindings'' = Some Async2_ChannelBindings"
proof -
  have lit: "properties Async2_ChannelBindings_literal = []"
    by (simp add: Async2_ChannelBindings_literal_def)
  have keys: "map fst (properties Async2_ChannelBindings) = patched_protocol_names"
    by (simp add: ChannelBindings_properties patched_protocol_names_def)
  have keyset: "set (map fst (properties Async2_ChannelBindings))
       = set (map fst (properties Async2_ChannelBindings_literal))
         \<union> {''http'', ''ws'', ''kafka'', ''anypointmq'', ''amqp'', ''amqp1'', ''mqtt'', ''mqtt5'',
            ''nats'', ''jms'', ''solace'', ''stomp'', ''redis'', ''mercure''}"
    unfolding keys lit by (simp add: patched_protocol_names_def)
  have len: "length (properties Async2_ChannelBindings) = 14"
    by (simp add: ChannelBindings_properties)
  have dist: "distinct (map fst (properties Async2_ChannelBindings))"
    unfolding keys by (simp add: patched_protocol_names_def)
  have table: "map_of (Async2_AsyncApi2Bindings) ''ChannelBindings'' = Some Async2_ChannelBindings"
    by (simp add: Async2_AsyncApi2Bindings_def)
  from lit ChannelBindings_properties keyset keys len dist assign_property_keys [of key rule D] table
  show ?thesis by (intro conjI)
qed


subsection \<open>The security scheme: required keys and allow-list\<close>

text \<open>
  Claim C8. The \<open>required\<close> functions of the SecurityScheme descriptors of OpenAPI 3 and
  AsyncAPI 2 are functions of the discriminant \<open>value?.type\<close> alone, so two calls at
  equal values return the same keys; at each discriminant of \<open>apiKey\<close>, \<open>httpApiKey\<close>,
  \<open>http\<close>, \<open>oauth2\<close>, \<open>openIdConnect\<close> and at every other one (the default case) the
  result is a fixed list.
\<close>

theorem SecurityScheme_required_deterministic:
  "required Oas3_SecurityScheme = Some (RequiredFn Oas3_SecurityScheme_required)
   \<and> required Async2_SecurityScheme = Some (RequiredFn Async2_SecurityScheme_required)
   \<and> (opt_type v = opt_type v' \<longrightarrow>
        Oas3_SecurityScheme_required v = Oas3_SecurityScheme_required v'
        \<and> Async2_SecurityScheme_required v = Async2_SecurityScheme_required v')
   \<and> (opt_type v = JStr ''apiKey'' \<longrightarrow>
        Oas3_SecurityScheme_required v = [''type'', ''name'', ''in'']
        \<and> Async2_SecurityScheme_required v = [''type'', ''in''])
   \<and> (opt_type v = JStr ''httpApiKey'' \<longrightarrow>
        Oas3_SecurityScheme_required v = [''type'']
        \<and> Async2_SecurityScheme_required v = [''type'', ''name'', ''in''])
   \<and> (opt_type v = JStr ''http'' \<longrightarrow>
        Oas3_SecurityScheme_required v = [''type'', ''scheme'']
        \<and> Async2_SecurityScheme_required v = [''type'', ''scheme''])
   \<and> (opt_type v = JStr ''oauth2'' \<longrightarrow>
        Oas3_SecurityScheme_required v = [''type'', ''flows'']
        \<and> Async2_SecurityScheme_required v = [''type'', ''flows''])
   \<and> (opt_type v = JStr ''openIdConnect'' \<longrightarrow>
        Oas3_SecurityScheme_required v = [''type'', ''openIdConnectUrl'']
        \<and> Async2_SecurityScheme_required v = [''type'', ''openIdConnectUrl''])
   \<and> (opt_type v \<notin> {JStr ''apiKey'', JStr ''httpApiKey'', JStr ''http'', JStr ''oauth2'',
                       JStr ''openIdConnect''} \<longrightarrow>
        Oas3_SecurityScheme_required v = [''type'']
        \<and> Async2_SecurityScheme_required v = [''type''])"
  by (simp add: Oas3_SecurityScheme_def Async2_SecurityScheme_def
      Oas3_SecurityScheme_required_def Async2_SecurityScheme_required_def)

theorem SecurityScheme_required_deterministic_witness:
  "Oas3_SecurityScheme_required (JObj [(''type'', JStr ''oauth2''), (''flows'', JObj [])])
     = Oas3_SecurityScheme_required (JObj [(''type'', JStr ''oauth2'')])
   \<and> Async2_SecurityScheme_required (JObj [(''type'', JStr ''httpApiKey'')])
     = [''type'', ''name'', ''in'']
   \<and> Oas3_SecurityScheme_required (JObj [(''type'', JStr ''httpApiKey'')]) = [''type'']
   \<and> Async2_SecurityScheme_required (JObj [(''type'', JNum 3)]) = [''type'']"
  using SecurityScheme_required_deterministic
          [of "JObj [(''type'', JStr ''oauth2''), (''flows'', JObj [])]" "JObj [(''type'', JStr ''oauth2'')]"]
        SecurityScheme_required_deterministic
          [of "JObj [(''type'', JStr ''httpApiKey'')]" JNull]
        SecurityScheme_required_deterministic
          [of "JObj [(''type'', JNum 3)]" JNull]
  by simp

text \<open>
  Claim C9. At every value, \<open>null\<close> and \<open>undefined\<close> included, the keys that the
  \<open>required\<close> function of a SecurityScheme descriptor demands are keys of the list that
  its \<open>allowed\<close> function returns, in both dialects, and both lists contain \<open>type\<close>: no
  required key is a disallowed key.
\<close>

theorem SecurityScheme_required_subset_allowed:
  "required Oas3_SecurityScheme = Some (RequiredFn Oas3_SecurityScheme_required)
   \<and> allowed Oas3_SecurityScheme = Some Oas3_SecurityScheme_allowed
   \<and> required Async2_SecurityScheme = Some (RequiredFn Async2_SecurityScheme_required)
   \<and> allowed Async2_SecurityScheme = Some Async2_SecurityScheme_allowed
   \<and> set (Oas3_SecurityScheme_required v) \<subseteq> set (Oas3_SecurityScheme_allowed v)
   \<and> set (Async2_SecurityScheme_required v) \<subseteq> set (Async2_SecurityScheme_allowed v)
   \<and> ''type'' \<in> set (Oas3_SecurityScheme_required v)
   \<and> ''type'' \<in> set (Oas3_SecurityScheme_allowed v)
   \<and> ''type'' \<in> set (Async2_SecurityScheme_required v)
   \<and> ''type'' \<in> set (Async2_SecurityScheme_allowed v)
   \<and> set (Oas3_SecurityScheme_required JNull) \<subseteq> set (Oas3_SecurityScheme_allowed JNull)
   \<and> set (Oas3_SecurityScheme_required JUndefined) \<subseteq> set (Oas3_SecurityScheme_allowed JUndefined)
   \<and> set (Async2_SecurityScheme_required JNull) \<subseteq> set (Async2_SecurityScheme_allowed JNull)
   \<and> set (Async2_SecurityScheme_required JUndefined) \<subseteq> set (Async2_SecurityScheme_allowed JUndefined)
   \<and> filter (\<lambda>k. k \<notin> set (Oas3_SecurityScheme_allowed v)) (Oas3_SecurityScheme_required v) = []
   \<and> filter (\<lambda>k. k \<notin> set (Async2_SecurityScheme_allowed v)) (Async2_SecurityScheme_required v) = []"
  by (simp add: Oas3_SecurityScheme_def Async2_SecurityScheme_def
      Oas3_SecurityScheme_required_def Oas3_SecurityScheme_allowed_def
      Async2_SecurityScheme_required_def Async2_SecurityScheme_allowed_def)

text \<open>With the check of the allow-list: it reports no key that \<open>required\<close> demands.\<close>

lemma required_key_never_disallowed:
  "set (required_keys Oas3_SecurityScheme V) \<inter> set (checkAllowed Oas3_SecurityScheme V) = {}"
  "set (required_keys Async2_SecurityScheme V) \<inter> set (checkAllowed Async2_SecurityScheme V) = {}"
  by (auto simp add: required_keys_def checkAllowed_def
      Oas3_SecurityScheme_def Async2_SecurityScheme_def
      Oas3_SecurityScheme_required_def Oas3_SecurityScheme_allowed_def
      Async2_SecurityScheme_required_def Async2_SecurityScheme_allowed_def split: if_splits)


subsection \<open>The allow-lists of the bindings descriptors\<close>

lemma bindings_allowed:
  "Async2_ChannelBindings_allowed v = protocol_names"
  "Async2_ServerBindings_allowed v = protocol_names"
  "Async2_MessageBindings_allowed v = protocol_names"
  "Async2_OperationBindings_allowed v = protocol_names"
  by (simp_all add: protocol_names_def Async2_ChannelBindings_allowed_def
      Async2_ServerBindings_allowed_def Async2_MessageBindings_allowed_def
      Async2_OperationBindings_allowed_def)

lemma bindings_members:
  "D \<in> {Async2_ChannelBindings, Async2_ServerBindings, Async2_MessageBindings,
          Async2_OperationBindings} \<Longrightarrow>
     map fst (properties D) = patched_protocol_names
     \<and> additionalProperties D = Some (Static (PScalar [(''type'', JStr ''object'')]))
     \<and> extensionsPrefix D = None"
  by (auto simp add: patched_protocol_names_def
      ChannelBindings_properties ChannelBindings_members
      ServerBindings_properties ServerBindings_members
      MessageBindings_properties MessageBindings_members
      OperationBindings_properties OperationBindings_members)

lemma resolveChild_bindings:
  assumes "map fst (properties D) = patched_protocol_names"
    and "additionalProperties D = Some (Static (PScalar [(''type'', JStr ''object'')]))"
    and "extensionsPrefix D = None"
  shows "resolveChild D k V =
     (case map_of (properties D) k of
        Some rule \<Rightarrow> apply_rule rule V k
      | None \<Rightarrow> Resolved (PScalar [(''type'', JStr ''object'')]))"
    and "k \<in> set patched_protocol_names \<longleftrightarrow> map_of (properties D) k \<noteq> None"
proof -
  show "resolveChild D k V =
     (case map_of (properties D) k of
        Some rule \<Rightarrow> apply_rule rule V k
      | None \<Rightarrow> Resolved (PScalar [(''type'', JStr ''object'')]))"
    using assms by (simp add: resolveChild_def is_extension_def split: option.split)
  have "k \<in> set (map fst (properties D)) \<longleftrightarrow> map_of (properties D) k \<noteq> None"
    by (simp add: map_of_eq_None_iff)
  then show "k \<in> set patched_protocol_names \<longleftrightarrow> map_of (properties D) k \<noteq> None"
    using assms(1) by simp
qed

lemma bindings_rules_static:
  "D \<in> {Async2_ChannelBindings, Async2_ServerBindings, Async2_MessageBindings,
          Async2_OperationBindings} \<Longrightarrow>
     map_of (properties D) k = Some rule \<Longrightarrow> \<exists>b. rule = Static (PNode b)"
  by (auto simp add: ChannelBindings_properties ServerBindings_properties
      MessageBindings_properties OperationBindings_properties split: if_splits)

text \<open>
  Claim C10. The \<open>allowed\<close> functions of the four AsyncAPI 2 bindings descriptors
  (ChannelBindings, ServerBindings, MessageBindings, OperationBindings) return the same
  list of nineteen protocol names at every value. Every name of the list is classified on
  each of the four descriptors, by a \<open>properties\<close> entry that the module assigned (the
  fourteen names with binding types) or by the static \<open>additionalProperties\<close> rule
  \<open>{ type: 'object' }\<close> (the other five), so none is rejected as unknown.
\<close>

theorem bindings_allowed_classifiable:
  "Async2_ChannelBindings_allowed v = protocol_names
   \<and> Async2_ServerBindings_allowed v = protocol_names
   \<and> Async2_MessageBindings_allowed v = protocol_names
   \<and> Async2_OperationBindings_allowed v = protocol_names
   \<and> protocol_names =
       [''http'', ''ws'', ''kafka'', ''anypointmq'', ''amqp'', ''amqp1'', ''mqtt'', ''mqtt5'',
        ''nats'', ''jms'', ''sns'', ''solace'', ''sqs'', ''stomp'', ''redis'', ''mercure'',
        ''ibmmq'', ''googlepubsub'', ''pulsar'']
   \<and> length protocol_names = 19 \<and> distinct protocol_names
   \<and> allowed Async2_ChannelBindings = Some Async2_ChannelBindings_allowed
   \<and> allowed Async2_ServerBindings = Some Async2_ServerBindings_allowed
   \<and> allowed Async2_MessageBindings = Some Async2_MessageBindings_allowed
   \<and> allowed Async2_OperationBindings = Some Async2_OperationBindings_allowed
   \<and> (\<forall>D \<in> {Async2_ChannelBindings, Async2_ServerBindings, Async2_MessageBindings,
              Async2_OperationBindings}.
        map fst (properties D) = patched_protocol_names
        \<and> additionalProperties D = Some (Static (PScalar [(''type'', JStr ''object'')]))
        \<and> extensionsPrefix D = None
        \<and> (\<forall>k \<in> set protocol_names.
              kind_of (resolveChild D k V) = (if k \<in> set patched_protocol_names then KNode else KScalar)
              \<and> resolveChild D k V \<noteq> Rejected
              \<and> (k \<notin> set patched_protocol_names \<longrightarrow>
                    resolveChild D k V = Resolved (PScalar [(''type'', JStr ''object'')]))
              \<and> (k \<in> set patched_protocol_names \<longrightarrow>
                    map_of (properties D) k \<noteq> None
                    \<and> apply_rule (the (map_of (properties D) k)) V k = resolveChild D k V)))"
proof -
  have names: "protocol_names =
       [''http'', ''ws'', ''kafka'', ''anypointmq'', ''amqp'', ''amqp1'', ''mqtt'', ''mqtt5'',
        ''nats'', ''jms'', ''sns'', ''solace'', ''sqs'', ''stomp'', ''redis'', ''mercure'',
        ''ibmmq'', ''googlepubsub'', ''pulsar'']"
    by (simp add: protocol_names_def)
  have count: "length protocol_names = 19" and dist: "distinct protocol_names"
    by (simp_all add: protocol_names_def)
  have each: "map fst (properties D) = patched_protocol_names
        \<and> additionalProperties D = Some (Static (PScalar [(''type'', JStr ''object'')]))
        \<and> extensionsPrefix D = None
        \<and> (\<forall>k \<in> set protocol_names.
              kind_of (resolveChild D k V) = (if k \<in> set patched_protocol_names then KNode else KScalar)
              \<and> resolveChild D k V \<noteq> Rejected
              \<and> (k \<notin> set patched_protocol_names \<longrightarrow>
                    resolveChild D k V = Resolved (PScalar [(''type'', JStr ''object'')]))
              \<and> (k \<in> set patched_protocol_names \<longrightarrow>
                    map_of (properties D) k \<noteq> None
                    \<and> apply_rule (the (map_of (properties D) k)) V k = resolveChild D k V))"
    if D: "D \<in> {Async2_ChannelBindings, Async2_ServerBindings, Async2_MessageBindings,
              Async2_OperationBindings}" for D
  proof -
    note m = bindings_members [OF D]
    from m have m1: "map fst (properties D) = patched_protocol_names"
      and m2: "additionalProperties D = Some (Static (PScalar [(''type'', JStr ''object'')]))"
      and m3: "extensionsPrefix D = None"
      by simp_all
    note r = resolveChild_bindings(1) [OF m1 m2 m3] and p = resolveChild_bindings(2) [OF m1 m2 m3]
    have "kind_of (resolveChild D k V) = (if k \<in> set patched_protocol_names then KNode else KScalar)
              \<and> resolveChild D k V \<noteq> Rejected
              \<and> (k \<notin> set patched_protocol_names \<longrightarrow>
                    resolveChild D k V = Resolved (PScalar [(''type'', JStr ''object'')]))
              \<and> (k \<in> set patched_protocol_names \<longrightarrow>
                    map_of (properties D) k \<noteq> None
                    \<and> apply_rule (the (map_of (properties D) k)) V k = resolveChild D k V)" for k
    proof (cases "map_of (properties D) k")
      case None
      then show ?thesis using r [of k V] p [of k] by simp
    next
      case (Some rule)
      then obtain b where "rule = Static (PNode b)"
        using bindings_rules_static [OF D] by blast
      then show ?thesis using Some r [of k V] p [of k] by simp
    qed
    then show ?thesis using m by blast
  qed
  then have all: "\<forall>D \<in> {Async2_ChannelBindings, Async2_ServerBindings, Async2_MessageBindings,
              Async2_OperationBindings}.
        map fst (properties D) = patched_protocol_names
        \<and> additionalProperties D = Some (Static (PScalar [(''type'', JStr ''object'')]))
        \<and> extensionsPrefix D = None
        \<and> (\<forall>k \<in> set protocol_names.
              kind_of (resolveChild D k V) = (if k \<in> set patched_protocol_names then KNode else KScalar)
              \<and> resolveChild D k V \<noteq> Rejected
              \<and> (k \<notin> set patched_protocol_names \<longrightarrow>
                    resolveChild D k V = Resolved (PScalar [(''type'', JStr ''object'')]))
              \<and> (k \<in> set patched_protocol_names \<longrightarrow>
                    map_of (properties D) k \<noteq> None
                    \<and> apply_rule (the (map_of (properties D) k)) V k = resolveChild D k V))"
    by (intro ballI)
  from bindings_allowed [of v] names count dist
    ChannelBindings_members(5) ServerBindings_members(5) MessageBindings_members(5)
    OperationBindings_members(5) all
  show ?thesis by (intro conjI)
qed

theorem bindings_allowed_classifiable_witness:
  "resolveChild Async2_ChannelBindings ''kafka'' (JObj []) \<noteq> Rejected
   \<and> kind_of (resolveChild Async2_ChannelBindings ''kafka'' (JObj [])) = KNode
   \<and> resolveChild Async2_OperationBindings ''sqs'' (JObj [])
     = Resolved (PScalar [(''type'', JStr ''object'')])"
proof -
  have k: "''kafka'' \<in> set protocol_names" "''sqs'' \<in> set protocol_names"
    "''kafka'' \<in> set patched_protocol_names" "''sqs'' \<notin> set patched_protocol_names"
    by (simp_all add: protocol_names_def patched_protocol_names_def)
  note T = bindings_allowed_classifiable [of JNull "JObj []"]
  from T have "\<forall>k \<in> set protocol_names.
      kind_of (resolveChild Async2_ChannelBindings k (JObj []))
        = (if k \<in> set patched_protocol_names then KNode else KScalar)
      \<and> resolveChild Async2_ChannelBindings k (JObj []) \<noteq> Rejected"
    by simp
  with k have c: "resolveChild Async2_ChannelBindings ''kafka'' (JObj []) \<noteq> Rejected"
    "kind_of (resolveChild Async2_ChannelBindings ''kafka'' (JObj [])) = KNode"
    by auto
  from T have "\<forall>k \<in> set protocol_names. k \<notin> set patched_protocol_names \<longrightarrow>
      resolveChild Async2_OperationBindings k (JObj []) = Resolved (PScalar [(''type'', JStr ''object'')])"
    by simp
  with k have "resolveChild Async2_OperationBindings ''sqs'' (JObj [])
     = Resolved (PScalar [(''type'', JStr ''object'')])"
    by blast
  with c show ?thesis by simp
qed


subsection \<open>The two OpenAPI 3 tables\<close>

text \<open>Resolution and the checks do not read the descriptive fields.\<close>

lemma map_of_map_strip: "map_of (map (map_prod id f) ps) K = map_option f (map_of ps K)"
  by (induction ps) auto

lemma apply_rule_strip: "apply_rule (strip_rule r) V K = strip_outcome (apply_rule r V K)"
  by (cases r) (simp_all split: option.split)

lemma kind_of_strip: "kind_of (strip_outcome x) = kind_of x"
  by (cases x rule: kind_of.cases) simp_all

lemma members_strip:
  "required (strip_node D) = required D"
  "requiredOneOf (strip_node D) = requiredOneOf D"
  "allowed (strip_node D) = allowed D"
  "extensionsPrefix (strip_node D) = extensionsPrefix D"
  by (cases D; simp)+

lemma resolveChild_strip:
  "resolveChild (strip_node D) K V = strip_outcome (resolveChild D K V)"
  by (cases D)
    (simp add: resolveChild_def is_extension_def map_of_map_strip apply_rule_strip
      split: option.split)

lemma resolveItem_strip:
  "resolveItem (strip_node D) K V = strip_outcome (resolveItem D K V)"
  by (cases D) (simp add: resolveItem_def apply_rule_strip split: option.split)

lemma is_extension_strip: "is_extension (strip_node D) K = is_extension D K"
  by (simp add: is_extension_def members_strip)

lemma checks_strip:
  "required_keys (strip_node D) V = required_keys D V"
  "checkRequired (strip_node D) V = checkRequired D V"
  "checkDisjunctiveRequired (strip_node D) V = checkDisjunctiveRequired D V"
  "checkAllowed (strip_node D) V = checkAllowed D V"
  by (simp_all add: is_extension_strip required_keys_def checkRequired_def
      checkDisjunctiveRequired_def checkAllowed_def members_strip split: option.split)

lemma strip_equal_same_validation:
  assumes "strip_node d1 = strip_node d2"
  shows "strip_outcome (resolveChild d1 K V) = strip_outcome (resolveChild d2 K V)
    \<and> kind_of (resolveChild d1 K V) = kind_of (resolveChild d2 K V)
    \<and> strip_outcome (resolveItem d1 K V) = strip_outcome (resolveItem d2 K V)
    \<and> required_keys d1 V = required_keys d2 V
    \<and> checkRequired d1 V = checkRequired d2 V
    \<and> requiredOneOf d1 = requiredOneOf d2
    \<and> checkDisjunctiveRequired d1 V = checkDisjunctiveRequired d2 V
    \<and> allowed d1 = allowed d2
    \<and> checkAllowed d1 V = checkAllowed d2 V
    \<and> extensionsPrefix d1 = extensionsPrefix d2
    \<and> is_extension d1 K = is_extension d2 K"
proof -
  have "strip_outcome (resolveChild d1 K V) = strip_outcome (resolveChild d2 K V)"
    using assms resolveChild_strip [of d1 K V] resolveChild_strip [of d2 K V] by simp
  moreover from this have "kind_of (resolveChild d1 K V) = kind_of (resolveChild d2 K V)"
    using kind_of_strip [of "resolveChild d1 K V"] kind_of_strip [of "resolveChild d2 K V"]
    by simp
  moreover have "strip_outcome (resolveItem d1 K V) = strip_outcome (resolveItem d2 K V)"
    using assms resolveItem_strip [of d1 K V] resolveItem_strip [of d2 K V] by simp
  moreover have "required_keys d1 V = required_keys d2 V"
    using assms checks_strip(1) [of d1 V] checks_strip(1) [of d2 V] by simp
  moreover have "checkRequired d1 V = checkRequired d2 V"
    using assms checks_strip(2) [of d1 V] checks_strip(2) [of d2 V] by simp
  moreover have "requiredOneOf d1 = requiredOneOf d2"
    using assms members_strip(2) [of d1] members_strip(2) [of d2] by simp
  moreover have "checkDisjunctiveRequired d1 V = checkDisjunctiveRequired d2 V"
    using assms checks_strip(3) [of d1 V] checks_strip(3) [of d2 V] by simp
  moreover have "allowed d1 = allowed d2"
    using assms members_strip(3) [of d1] members_strip(3) [of d2] by simp
  moreover have "checkAllowed d1 V = checkAllowed d2 V"
    using assms checks_strip(4) [of d1 V] checks_strip(4) [of d2 V] by simp
  moreover have "extensionsPrefix d1 = extensionsPrefix d2"
    using assms members_strip(4) [of d1] members_strip(4) [of d2] by simp
  moreover have "is_extension d1 K = is_extension d2 K"
    using assms is_extension_strip [of d1 K] is_extension_strip [of d2 K] by simp
  ultimately show ?thesis by (intro conjI)
qed

lemma strip_listOf: "strip_node (listOf T ov) = listOf T None"
  by (simp add: listOf_def)

lemma strip_mapOf: "strip_node (mapOf T ov) = mapOf T None"
  by (simp add: mapOf_def)

text \<open>Descriptor by descriptor, the two tables are equal up to the descriptive fields.\<close>

lemma strip_Root: "strip_node (Part000_Root) = strip_node (Oas3_Root)"
  by (simp add: Part000_Root_def Oas3_Root_def strip_scalar_def)

lemma strip_Tag: "strip_node (Part000_Tag) = strip_node (Oas3_Tag)"
  by (simp add: Part000_Tag_def Oas3_Tag_def strip_scalar_def)

lemma strip_TagGroup: "strip_node (Part000_TagGroup) = strip_node (Oas3_TagGroup)"
  by (simp add: Part000_TagGroup_def Oas3_TagGroup_def strip_scalar_def)

lemma strip_ExternalDocs: "strip_node (Part000_ExternalDocs) = strip_node (Oas3_ExternalDocs)"
  by (simp add: Part000_ExternalDocs_def Oas3_ExternalDocs_def strip_scalar_def)

lemma strip_Server: "strip_node (Part000_Server) = strip_node (Oas3_Server)"
  by (simp add: Part000_Server_def Oas3_Server_def strip_scalar_def)

lemma strip_ServerVariable: "strip_node (Part000_ServerVariable) = strip_node (Oas3_ServerVariable)"
  by (simp add: Part000_ServerVariable_def Oas3_ServerVariable_def strip_scalar_def)

lemma strip_SecurityRequirement: "strip_node (Part000_SecurityRequirement) = strip_node (Oas3_SecurityRequirement)"
  by (simp add: Part000_SecurityRequirement_def Oas3_SecurityRequirement_def strip_scalar_def)

lemma strip_Info: "strip_node (Part000_Info) = strip_node (Oas3_Info)"
  by (simp add: Part000_Info_def Oas3_Info_def strip_scalar_def)

lemma strip_Logo: "strip_node (Part000_Logo) = strip_node (Oas3_Logo)"
  by (simp add: Part000_Logo_def Oas3_Logo_def strip_scalar_def)

lemma strip_Contact: "strip_node (Part000_Contact) = strip_node (Oas3_Contact)"
  by (simp add: Part000_Contact_def Oas3_Contact_def strip_scalar_def)

lemma strip_License: "strip_node (Part000_License) = strip_node (Oas3_License)"
  by (simp add: Part000_License_def Oas3_License_def strip_scalar_def)

lemma strip_Paths: "strip_node (Part000_Paths) = strip_node (Oas3_Paths)"
  by (simp add: Part000_Paths_def Oas3_Paths_def strip_scalar_def Oas3_Paths_additionalProperties_def Part000_Paths_additionalProperties_def)

lemma strip_WebhooksMap: "strip_node (Part000_WebhooksMap) = strip_node (Oas3_WebhooksMap)"
  by (simp add: Part000_WebhooksMap_def Oas3_WebhooksMap_def strip_scalar_def Oas3_WebhooksMap_additionalProperties_def Part000_WebhooksMap_additionalProperties_def)

lemma strip_PathItem: "strip_node (Part000_PathItem) = strip_node (Oas3_PathItem)"
  by (simp add: Part000_PathItem_def Oas3_PathItem_def strip_scalar_def)

lemma strip_Parameter: "strip_node (Part000_Parameter) = strip_node (Oas3_Parameter)"
  by (simp add: Part000_Parameter_def Oas3_Parameter_def strip_scalar_def)

lemma strip_Operation: "strip_node (Part000_Operation) = strip_node (Oas3_Operation)"
  by (simp add: Part000_Operation_def Oas3_Operation_def strip_scalar_def)

lemma strip_XCodeSample: "strip_node (Part000_XCodeSample) = strip_node (Oas3_XCodeSample)"
  by (simp add: Part000_XCodeSample_def Oas3_XCodeSample_def strip_scalar_def)

lemma strip_RequestBody: "strip_node (Part000_RequestBody) = strip_node (Oas3_RequestBody)"
  by (simp add: Part000_RequestBody_def Oas3_RequestBody_def strip_scalar_def)

lemma strip_MediaTypesMap: "strip_node (Part000_MediaTypesMap) = strip_node (Oas3_MediaTypesMap)"
  by (simp add: Part000_MediaTypesMap_def Oas3_MediaTypesMap_def strip_scalar_def)

lemma strip_MediaType: "strip_node (Part000_MediaType) = strip_node (Oas3_MediaType)"
  by (simp add: Part000_MediaType_def Oas3_MediaType_def strip_scalar_def)

lemma strip_Example: "strip_node (Part000_Example) = strip_node (Oas3_Example)"
  by (simp add: Part000_Example_def Oas3_Example_def strip_scalar_def)

lemma strip_Encoding: "strip_node (Part000_Encoding) = strip_node (Oas3_Encoding)"
  by (simp add: Part000_Encoding_def Oas3_Encoding_def strip_scalar_def)

lemma strip_EnumDescriptions: "strip_node (Part000_EnumDescriptions) = strip_node (Oas3_EnumDescriptions)"
  by (simp add: Part000_EnumDescriptions_def Oas3_EnumDescriptions_def strip_scalar_def)

lemma strip_Header: "strip_node (Part000_Header) = strip_node (Oas3_Header)"
  by (simp add: Part000_Header_def Oas3_Header_def strip_scalar_def)

lemma strip_Responses: "strip_node (Part000_Responses) = strip_node (Oas3_Responses)"
  by (simp add: Part000_Responses_def Oas3_Responses_def strip_scalar_def Oas3_Responses_additionalProperties_def Part000_Responses_additionalProperties_def Oas3_responseCodeRegexp_def Part000_responseCodeRegexp_def)

lemma strip_Response: "strip_node (Part000_Response) = strip_node (Oas3_Response)"
  by (simp add: Part000_Response_def Oas3_Response_def strip_scalar_def)

lemma strip_Link: "strip_node (Part000_Link) = strip_node (Oas3_Link)"
  by (simp add: Part000_Link_def Oas3_Link_def strip_scalar_def)

lemma strip_Schema: "strip_node (Part000_Schema) = strip_node (Oas3_Schema)"
  by (simp add: Part000_Schema_def Oas3_Schema_def strip_scalar_def Oas3_Schema_properties_items_def Part000_Schema_properties_items_def Oas3_Schema_properties_additionalProperties_def Part000_Schema_properties_additionalProperties_def)

lemma strip_Xml: "strip_node (Part000_Xml) = strip_node (Oas3_Xml)"
  by (simp add: Part000_Xml_def Oas3_Xml_def strip_scalar_def)

lemma strip_SchemaProperties: "strip_node (Part000_SchemaProperties) = strip_node (Oas3_SchemaProperties)"
  by (simp add: Part000_SchemaProperties_def Oas3_SchemaProperties_def strip_scalar_def)

lemma strip_DiscriminatorMapping: "strip_node (Part000_DiscriminatorMapping isMappingRef) = strip_node (Oas3_DiscriminatorMapping isMappingRef)"
  by (simp add: Part000_DiscriminatorMapping_def Oas3_DiscriminatorMapping_def strip_scalar_def Oas3_DiscriminatorMapping_additionalProperties_def Part000_DiscriminatorMapping_additionalProperties_def)

lemma strip_Discriminator: "strip_node (Part000_Discriminator) = strip_node (Oas3_Discriminator)"
  by (simp add: Part000_Discriminator_def Oas3_Discriminator_def strip_scalar_def)

lemma strip_Components: "strip_node (Part000_Components) = strip_node (Oas3_Components)"
  by (simp add: Part000_Components_def Oas3_Components_def strip_scalar_def)

lemma strip_ImplicitFlow: "strip_node (Part000_ImplicitFlow) = strip_node (Oas3_ImplicitFlow)"
  by (simp add: Part000_ImplicitFlow_def Oas3_ImplicitFlow_def strip_scalar_def)

lemma strip_PasswordFlow: "strip_node (Part000_PasswordFlow) = strip_node (Oas3_PasswordFlow)"
  by (simp add: Part000_PasswordFlow_def Oas3_PasswordFlow_def strip_scalar_def)

lemma strip_ClientCredentials: "strip_node (Part000_ClientCredentials) = strip_node (Oas3_ClientCredentials)"
  by (simp add: Part000_ClientCredentials_def Oas3_ClientCredentials_def strip_scalar_def)

lemma strip_AuthorizationCode: "strip_node (Part000_AuthorizationCode) = strip_node (Oas3_AuthorizationCode)"
  by (simp add: Part000_AuthorizationCode_def Oas3_AuthorizationCode_def strip_scalar_def Oas3_AuthorizationCode_properties_x_usePkce_def Part000_AuthorizationCode_properties_x_usePkce_def)

lemma strip_OAuth2Flows: "strip_node (Part000_OAuth2Flows) = strip_node (Oas3_OAuth2Flows)"
  by (simp add: Part000_OAuth2Flows_def Oas3_OAuth2Flows_def strip_scalar_def)

lemma strip_SecurityScheme: "strip_node (Part000_SecurityScheme) = strip_node (Oas3_SecurityScheme)"
  by (simp add: Part000_SecurityScheme_def Oas3_SecurityScheme_def strip_scalar_def Oas3_SecurityScheme_required_def Part000_SecurityScheme_required_def Oas3_SecurityScheme_allowed_def Part000_SecurityScheme_allowed_def)

lemma strip_XUsePkce: "strip_node (Part000_XUsePkce) = strip_node (Oas3_XUsePkce)"
  by (simp add: Part000_XUsePkce_def Oas3_XUsePkce_def strip_scalar_def)

lemma strip_Oas3Types:
  "map (map_prod id strip_node) (Part000_Oas3Types isMappingRef)
     = map (map_prod id strip_node) (Oas3_Oas3Types isMappingRef)"
  unfolding Part000_Oas3Types_def Oas3_Oas3Types_def
  by (simp only: list.map map_prod_simp id_apply strip_listOf strip_mapOf
      strip_Root strip_Tag strip_TagGroup strip_ExternalDocs strip_Server strip_ServerVariable
      strip_SecurityRequirement strip_Info strip_Logo strip_Contact strip_License strip_Paths
      strip_WebhooksMap strip_PathItem strip_Parameter strip_Operation strip_XCodeSample
      strip_RequestBody strip_MediaTypesMap strip_MediaType strip_Example strip_Encoding
      strip_EnumDescriptions strip_Header strip_Responses strip_Response strip_Link strip_Schema
      strip_Xml strip_SchemaProperties strip_DiscriminatorMapping strip_Discriminator
      strip_Components strip_ImplicitFlow strip_PasswordFlow strip_ClientCredentials
      strip_AuthorizationCode strip_OAuth2Flows strip_SecurityScheme strip_XUsePkce)

text \<open>
  Claim C7. The two OpenAPI 3 tables define the same type names, and the descriptors of
  each name are equal once the descriptive fields \<open>description\<close> and
  \<open>documentationLink\<close> are erased. So for every type name, child key and value the two
  descriptors give the same resolution outcome (up to the descriptive fields of the
  schema, and the same kind and type name), the same required keys, the same
  \<open>requiredOneOf\<close>, the same \<open>allowed\<close> function and the same extension prefix, and
  the checks report the same keys.
\<close>

theorem Oas3Types_tables_equivalent:
  "map fst (Part000_Oas3Types isMappingRef) = map fst (Oas3_Oas3Types isMappingRef)
   \<and> map (map_prod id strip_node) (Part000_Oas3Types isMappingRef)
       = map (map_prod id strip_node) (Oas3_Oas3Types isMappingRef)
   \<and> (\<forall>name d1. map_of (Part000_Oas3Types isMappingRef) name = Some d1 \<longrightarrow>
        (\<exists>d2. map_of (Oas3_Oas3Types isMappingRef) name = Some d2
           \<and> strip_node d1 = strip_node d2
           \<and> strip_outcome (resolveChild d1 K V) = strip_outcome (resolveChild d2 K V)
           \<and> kind_of (resolveChild d1 K V) = kind_of (resolveChild d2 K V)
           \<and> strip_outcome (resolveItem d1 K V) = strip_outcome (resolveItem d2 K V)
           \<and> required_keys d1 V = required_keys d2 V
           \<and> checkRequired d1 V = checkRequired d2 V
           \<and> requiredOneOf d1 = requiredOneOf d2
           \<and> checkDisjunctiveRequired d1 V = checkDisjunctiveRequired d2 V
           \<and> allowed d1 = allowed d2
           \<and> checkAllowed d1 V = checkAllowed d2 V
           \<and> extensionsPrefix d1 = extensionsPrefix d2
           \<and> is_extension d1 K = is_extension d2 K))"
proof -
  note eq = strip_Oas3Types [of isMappingRef]
  have "map fst (map (map_prod id strip_node) (Part000_Oas3Types isMappingRef))
      = map fst (map (map_prod id strip_node) (Oas3_Oas3Types isMappingRef))"
    using eq by simp
  then have names: "map fst (Part000_Oas3Types isMappingRef) = map fst (Oas3_Oas3Types isMappingRef)"
    by (simp add: comp_def)
  have each: "\<exists>d2. map_of (Oas3_Oas3Types isMappingRef) name = Some d2
           \<and> strip_node d1 = strip_node d2
           \<and> strip_outcome (resolveChild d1 K V) = strip_outcome (resolveChild d2 K V)
           \<and> kind_of (resolveChild d1 K V) = kind_of (resolveChild d2 K V)
           \<and> strip_outcome (resolveItem d1 K V) = strip_outcome (resolveItem d2 K V)
           \<and> required_keys d1 V = required_keys d2 V
           \<and> checkRequired d1 V = checkRequired d2 V
           \<and> requiredOneOf d1 = requiredOneOf d2
           \<and> checkDisjunctiveRequired d1 V = checkDisjunctiveRequired d2 V
           \<and> allowed d1 = allowed d2
           \<and> checkAllowed d1 V = checkAllowed d2 V
           \<and> extensionsPrefix d1 = extensionsPrefix d2
           \<and> is_extension d1 K = is_extension d2 K"
    if d1: "map_of (Part000_Oas3Types isMappingRef) name = Some d1" for name d1
  proof -
    have "map_option strip_node (map_of (Part000_Oas3Types isMappingRef) name)
        = map_option strip_node (map_of (Oas3_Oas3Types isMappingRef) name)"
      using eq map_of_map_strip [of strip_node "Part000_Oas3Types isMappingRef" name]
        map_of_map_strip [of strip_node "Oas3_Oas3Types isMappingRef" name]
      by simp
    with d1 obtain d2 where d2: "map_of (Oas3_Oas3Types isMappingRef) name = Some d2"
      and s: "strip_node d1 = strip_node d2"
      by (cases "map_of (Oas3_Oas3Types isMappingRef) name") auto
    from d2 s strip_equal_same_validation [OF s, of K V] show ?thesis by blast
  qed
  from names eq each show ?thesis by blast
qed

theorem Oas3Types_tables_equivalent_witness:
  "map_of (Part000_Oas3Types (\<lambda>v. False)) ''Server'' = Some Part000_Server
   \<and> map_of (Oas3_Oas3Types (\<lambda>v. False)) ''Server'' = Some Oas3_Server
   \<and> strip_outcome (resolveChild Part000_Server ''url'' (JStr ''https://example.com''))
       = strip_outcome (resolveChild Oas3_Server ''url'' (JStr ''https://example.com''))
   \<and> checkRequired Part000_Server (JObj []) = checkRequired Oas3_Server (JObj [])
   \<and> extensionsPrefix Part000_Server = extensionsPrefix Oas3_Server"
proof -
  have p: "map_of (Part000_Oas3Types (\<lambda>v. False)) ''Server'' = Some Part000_Server"
    by (simp add: Part000_Oas3Types_def)
  have q: "map_of (Oas3_Oas3Types (\<lambda>v. False)) ''Server'' = Some Oas3_Server"
    by (simp add: Oas3_Oas3Types_def)
  from Oas3Types_tables_equivalent [of "\<lambda>v. False" "''url''" "JStr ''https://example.com''"] p
  obtain d2 where "map_of (Oas3_Oas3Types (\<lambda>v. False)) ''Server'' = Some d2"
    and "strip_outcome (resolveChild Part000_Server ''url'' (JStr ''https://example.com''))
       = strip_outcome (resolveChild d2 ''url'' (JStr ''https://example.com''))"
    and "extensionsPrefix Part000_Server = extensionsPrefix d2"
    by blast
  with q have a: "strip_outcome (resolveChild Part000_Server ''url'' (JStr ''https://example.com''))
       = strip_outcome (resolveChild Oas3_Server ''url'' (JStr ''https://example.com''))"
    and c: "extensionsPrefix Part000_Server = extensionsPrefix Oas3_Server"
    by simp_all
  from Oas3Types_tables_equivalent [of "\<lambda>v. False" "''url''" "JObj []"] p
  obtain d2' where "map_of (Oas3_Oas3Types (\<lambda>v. False)) ''Server'' = Some d2'"
    and "checkRequired Part000_Server (JObj []) = checkRequired d2' (JObj [])"
    by blast
  with q have b: "checkRequired Part000_Server (JObj []) = checkRequired Oas3_Server (JObj [])"
    by simp
  from p q a b c show ?thesis by (intro conjI)
qed

text \<open>The tables are not equal as they stand: the schema of \<open>Server.url\<close> has a
  description in one table and none in the other.\<close>

lemma Oas3Types_tables_differ_in_descriptions:
  "resolveChild Part000_Server ''url'' V \<noteq> resolveChild Oas3_Server ''url'' V"
  "kind_of (resolveChild Part000_Server ''url'' V) = kind_of (resolveChild Oas3_Server ''url'' V)"
  by (simp_all add: resolveChild_def Part000_Server_def Oas3_Server_def)

end
